theory Spec2Isabelle
  imports Complex_Main
begin

section \<open>HTTP responses and the environment of a request\<close>

text \<open>
  Both backends answer with \<open>res.status(n).json(...)\<close>. A response is modelled by its
  status code and its body: a success payload, the standard error shape \<open>{error: msg}\<close>,
  the express-validator shape \<open>{errors: [...]}\<close> (always sent with status 400), or an
  exception that escapes the handler, which Express answers with status 500.
\<close>

datatype 'a response =
    Json nat 'a
  | ErrorJson nat string
  | ValidationErrors
  | Uncaught

fun status :: "'a response \<Rightarrow> nat" where
  "status (Json n _) = n"
| "status (ErrorJson n _) = n"
| "status ValidationErrors = 400"
| "status Uncaught = 500"

fun payload :: "'a response \<Rightarrow> 'a option" where
  "payload (Json _ x) = Some x"
| "payload _ = None"

text \<open>
  Everything a handler reads from outside the request and the store: the clock
  (\<open>Date.now()\<close>, \<open>new Date().toISOString()\<close>, SQLite's \<open>CURRENT_TIMESTAMP\<close>), the
  random suffix of the display codes (\<open>Math.random().toString(36).substr(2, 5).toUpperCase()\<close>),
  and which storage operations fail. \<open>db_err n\<close> says that the \<open>n\<close>-th SQL statement
  issued by the request calls back with an error; \<open>read_fails f\<close> and \<open>write_fails f\<close>
  say that \<open>readData f\<close> and \<open>writeData f\<close> hit their \<open>catch\<close> branch.

  The environment also holds the arithmetic of the JavaScript engine. A JavaScript
  number is an IEEE-754 double. The numbers that the code uses as identifiers, counts,
  guests and quantities are integers and are modelled as \<open>int\<close>; every other number
  (a price, a line total, a booking total, a tax amount) is a value of the type
  \<open>'n\<close>, of which nothing is known, and the operations on such numbers are fields of
  the environment, of which nothing is assumed: \<open>num_add\<close> is \<open>+\<close>, \<open>num_mul\<close> is
  \<open>*\<close>, \<open>num_of_int i\<close> is the double that the integer \<open>i\<close> is, \<open>num_0_12\<close> is the
  literal \<open>0.12\<close>, \<open>num_le\<close> is \<open><=\<close> and \<open>num_falsy x\<close> is \<open>!x\<close>. Whatever is
  proved for every environment holds for double arithmetic, with its rounding, as well as
  for exact arithmetic.
\<close>

record 'n env =
  now :: nat
  iso_now :: string
  sql_now :: string
  rnd :: string
  db_err :: "nat \<Rightarrow> bool"
  read_fails :: "string \<Rightarrow> bool"
  write_fails :: "string \<Rightarrow> bool"
  num_add :: "'n \<Rightarrow> 'n \<Rightarrow> 'n"
  num_mul :: "'n \<Rightarrow> 'n \<Rightarrow> 'n"
  num_of_int :: "int \<Rightarrow> 'n"
  num_0_12 :: 'n
  num_le :: "'n \<Rightarrow> 'n \<Rightarrow> bool"
  num_falsy :: "'n \<Rightarrow> bool"

section \<open>JavaScript values, objects and strings\<close>

text \<open>
  A JSON value, and a JavaScript object as the list of its own properties in insertion
  order. \<open>const { k: _, ...rest } = obj\<close> copies every property except \<open>k\<close>. A number
  is \<open>JInt\<close> when it is one of the integers of the model and \<open>JNum\<close> otherwise.
\<close>

datatype 'n jsval =
    JNull
  | JBool bool
  | JInt int
  | JNum 'n
  | JStr string
  | JArr "'n jsval list"
  | JObj "(string \<times> 'n jsval) list"

type_synonym 'n jsobj = "(string \<times> 'n jsval) list"

definition keys :: "'n jsobj \<Rightarrow> string list" where
  "keys obj = map fst obj"

definition omit :: "string \<Rightarrow> 'n jsobj \<Rightarrow> 'n jsobj" where
  "omit k obj = filter (\<lambda>p. fst p \<noteq> k) obj"

text \<open>An optional property: present only when the value is.\<close>

definition opt_prop :: "string \<Rightarrow> ('a \<Rightarrow> 'n jsval) \<Rightarrow> 'a option \<Rightarrow> 'n jsobj" where
  "opt_prop k f v = (case v of None \<Rightarrow> [] | Some x \<Rightarrow> [(k, f x)])"

text \<open>
  \<open>!v\<close> on a request field that is a string or absent: true when the field is
  \<open>undefined\<close> or the empty string. On a number: true when absent or zero.
\<close>

definition falsy_str :: "string option \<Rightarrow> bool" where
  "falsy_str v = (v = None \<or> v = Some [])"

definition falsy_num :: "int option \<Rightarrow> bool" where
  "falsy_num v = (v = None \<or> v = Some 0)"

text \<open>\<open>v || d\<close> on an optional string.\<close>

definition or_default :: "string option \<Rightarrow> string \<Rightarrow> string" where
  "or_default v d = (case v of None \<Rightarrow> d | Some s \<Rightarrow> if s = [] then d else s)"

text \<open>
  \<open>String(n)\<close> for a non-negative integer, \<open>padStart\<close>, \<open>slice(-k)\<close>,
  \<open>split(c)[0]\<close> and \<open>parseInt\<close> on strings.
\<close>

definition digit_char :: "nat \<Rightarrow> char" where
  "digit_char d = ''0123456789'' ! d"

function show_nat :: "nat \<Rightarrow> string" where
  "show_nat n = (if n < 10 then [digit_char n] else show_nat (n div 10) @ [digit_char (n mod 10)])"
  by pat_completeness auto
termination
  by (relation "measure (\<lambda>n. n)") auto

declare show_nat.simps [simp del]

definition show_int :: "int \<Rightarrow> string" where
  "show_int i = (if i < 0 then CHR ''-'' # show_nat (nat (- i)) else show_nat (nat i))"

definition padStart :: "nat \<Rightarrow> char \<Rightarrow> string \<Rightarrow> string" where
  "padStart n c s = replicate (n - length s) c @ s"

definition slice_last :: "nat \<Rightarrow> string \<Rightarrow> string" where
  "slice_last k s = drop (length s - k) s"

definition split_first :: "char \<Rightarrow> string \<Rightarrow> string" where
  "split_first c s = takeWhile (\<lambda>x. x \<noteq> c) s"

definition is_digit :: "char \<Rightarrow> bool" where
  "is_digit c = (48 \<le> (of_char c :: nat) \<and> (of_char c :: nat) \<le> 57)"

definition digit_val :: "char \<Rightarrow> nat" where
  "digit_val c = of_char c - 48"

text \<open>
  \<open>parseInt(s)\<close> on a string without sign or leading blanks: the decimal value of the
  longest prefix of digits, \<open>NaN\<close> (here \<open>None\<close>) when that prefix is empty.
\<close>

definition parseInt :: "string \<Rightarrow> nat option" where
  "parseInt s =
     (let ds = takeWhile is_digit s
      in if ds = [] then None else Some (foldl (\<lambda>acc c. 10 * acc + digit_val c) 0 ds))"

section \<open>The relational backend: tables\<close>

text \<open>
  The tables \<open>users, menu_items, bookings, booking_items, receipts\<close>, with the columns
  the statements in the route files name. A row of \<open>receipts\<close> is kept as the values
  bound to its columns by name: SQLite stores whatever value is bound to a column, and
  the INSERT of the receipts route binds a list of JavaScript values by position.
\<close>


record user_row =
  usr_id :: int
  usr_username :: string
  usr_email :: string
  usr_password_hash :: string
  usr_first_name :: string
  usr_last_name :: string
  usr_phone_number :: "string option"
  usr_user_type :: string
  usr_is_active :: bool
  usr_created_at :: string
  usr_updated_at :: string

record 'n menu_item_row =
  mi_id :: int
  mi_item_name :: string
  mi_description :: string
  mi_category :: string
  mi_price_per_serving :: 'n
  mi_image_url :: string
  mi_is_available :: bool

record 'n booking_row =
  bk_id :: int
  bk_booking_id :: string
  bk_user_id :: int
  bk_event_type :: string
  bk_event_date :: string
  bk_event_venue :: string
  bk_num_guests :: int
  bk_special_instructions :: string
  bk_booking_status :: string
  bk_total_amount :: 'n

record 'n booking_item_row =
  bi_booking_id :: int
  bi_item_id :: int
  bi_quantity :: int
  bi_unit_price :: 'n
  bi_total_price :: 'n

record 'n receipt_row =
  rc_id :: int
  rc_cols :: "'n jsobj"

record 'n database =
  users :: "user_row list"
  menu_items :: "'n menu_item_row list"
  bookings :: "'n booking_row list"
  booking_items :: "'n booking_item_row list"
  receipts :: "'n receipt_row list"

text \<open>
  Modelled from the spec: the schema of \<open>database/init\<close> is not part of the sources.
  "All entities use server-generated surrogate identifiers": \<open>this.lastID\<close> after an
  INSERT is taken to be one more than the largest id of the table (1 on an empty table),
  which is what an SQLite integer primary key does.
\<close>

definition lastID :: "int list \<Rightarrow> int" where
  "lastID ids = foldr max ids 0 + 1"

section \<open>Library functions\<close>

text \<open>
  The functions of express-validator and bcryptjs that the routes call, and
  \<open>generateToken\<close> of the middleware, taken as parameters: nothing is assumed about
  them. \<open>bcrypt_hash\<close> is the hash that \<open>bcrypt.hash(password, 10)\<close> yields in this
  request (it draws a fresh salt).
\<close>

record extern =
  isEmail :: "string \<Rightarrow> bool"
  normalizeEmail :: "string \<Rightarrow> string"
  isISO8601 :: "string \<Rightarrow> bool"
  isMobilePhone :: "string \<Rightarrow> bool"
  isURL :: "string \<Rightarrow> bool"
  escape :: "string \<Rightarrow> string"
  trim :: "string \<Rightarrow> string"
  bcrypt_hash :: "string \<Rightarrow> string"
  bcrypt_compare :: "string \<Rightarrow> string \<Rightarrow> bool"
  generateToken :: "user_row \<Rightarrow> string"

section \<open>The relational backend: authentication middleware\<close>

text \<open>
  \<open>req.user\<close>, as the route handlers read it: the id and the role recovered from the
  bearer token.
\<close>

record req_user =
  ru_id :: int
  ru_userType :: string

text \<open>
  Modelled from the spec: \<open>middleware/auth\<close> is not part of the sources. "Session
  credential is an opaque bearer value ...; server-side variant is a signed token decoded
  to recover user id/role", with status 401 for a failed authentication and 403 for a
  role mismatch. The request carries \<open>Some u\<close> when its token decodes to \<open>u\<close> and
  \<open>None\<close> otherwise; only the status codes of the rejections come from the spec.
\<close>

definition authenticateToken :: "req_user option \<Rightarrow> 'a response + req_user" where
  "authenticateToken tok =
     (case tok of None \<Rightarrow> Inl (ErrorJson 401 ''Access token required'') | Some u \<Rightarrow> Inr u)"

definition requireAdmin :: "req_user \<Rightarrow> 'a response option" where
  "requireAdmin u =
     (if ru_userType u = ''admin'' then None else Some (ErrorJson 403 ''Admin access required''))"

definition requireCustomerOrAdmin :: "req_user \<Rightarrow> 'a response option" where
  "requireCustomerOrAdmin u =
     (if ru_userType u = ''admin'' \<or> ru_userType u = ''customer'' then None
      else Some (ErrorJson 403 ''Access denied''))"

section \<open>The relational backend: menu routes\<close>

text \<open>
  \<open>DELETE /menu/:id\<close>: counts the booking lines that reference the item, answers 400
  when there is one, and deletes the row otherwise. Statement 0 is the COUNT, statement 1
  the DELETE.
\<close>

definition menu_delete ::
  "'n env \<Rightarrow> 'n database \<Rightarrow> req_user option \<Rightarrow> int \<Rightarrow> string response \<times> 'n database" where
  "menu_delete e db tok itemId =
     (case authenticateToken tok of
        Inl r \<Rightarrow> (r, db)
      | Inr u \<Rightarrow>
         (case requireAdmin u of
            Some r \<Rightarrow> (r, db)
          | None \<Rightarrow>
             if db_err e 0 then (ErrorJson 500 ''Database error'', db)
             else
               let count = length (filter (\<lambda>bi. bi_item_id bi = itemId) (booking_items db))
               in if count > 0
                  then (ErrorJson 400
                          ''Cannot delete menu item that is used in existing bookings'', db)
                  else if db_err e 1 then (ErrorJson 500 ''Failed to delete menu item'', db)
                  else (Json 200 ''Menu item deleted successfully'',
                        db\<lparr>menu_items := filter (\<lambda>m. mi_id m \<noteq> itemId) (menu_items db)\<rparr>)))"

section \<open>Request bodies\<close>

text \<open>
  The JSON bodies of the requests, one record per route family; a property the client
  may leave out is an \<open>option\<close>. The booking body carries the customer fields as well:
  the client sends them "for compatibility with simple backend".
\<close>

record req_line =
  ln_itemId :: int
  ln_quantity :: int

record booking_body =
  bb_eventType :: "string option"
  bb_eventDate :: "string option"
  bb_eventVenue :: "string option"
  bb_numGuests :: "int option"
  bb_specialInstructions :: "string option"
  bb_menuItems :: "req_line list option"
  bb_customerName :: "string option"
  bb_customerEmail :: "string option"
  bb_customerPhone :: "string option"

record 'n menu_update_body =
  mu_itemName :: "string option"
  mu_description :: "string option"
  mu_category :: "string option"
  mu_pricePerServing :: "'n option"
  mu_imageUrl :: "string option"
  mu_isAvailable :: "bool option"

record login_body =
  lb_email :: "string option"
  lb_password :: "string option"

record register_body =
  rb_username :: "string option"
  rb_email :: "string option"
  rb_password :: "string option"
  rb_repeatPassword :: "string option"
  rb_firstName :: "string option"
  rb_lastName :: "string option"
  rb_phoneNumber :: "string option"
  rb_mobileNumber :: "string option"

record receipt_body =
  gb_bookingId :: "int option"
  gb_paymentMethod :: "string option"
  gb_paymentStatus :: "string option"

section \<open>The relational backend: booking routes\<close>

text \<open>
  \<open>POST /\<close> of \<open>routes/bookings.js\<close>. The validator chain rejects the request with
  status 400 unless every check passes; \<open>itemId\<close> is an integer by its type here.
\<close>

definition bookings_post_valid :: "extern \<Rightarrow> booking_body \<Rightarrow> bool" where
  "bookings_post_valid x b =
     (\<not> falsy_str (bb_eventType b)
      \<and> (case bb_eventDate b of None \<Rightarrow> False | Some d \<Rightarrow> isISO8601 x d)
      \<and> \<not> falsy_str (bb_eventVenue b)
      \<and> (case bb_numGuests b of None \<Rightarrow> False | Some n \<Rightarrow> 1 \<le> n)
      \<and> (case bb_menuItems b of
            None \<Rightarrow> False
          | Some ls \<Rightarrow> 1 \<le> length ls \<and> list_all (\<lambda>l. 1 \<le> ln_quantity l) ls))"

record 'n valid_item =
  vi_itemId :: int
  vi_quantity :: int
  vi_unitPrice :: 'n
  vi_totalPrice :: 'n

record 'n booking_created =
  bc_id :: int
  bc_bookingId :: string
  bc_eventType :: string
  bc_eventDate :: string
  bc_eventVenue :: string
  bc_numGuests :: int
  bc_specialInstructions :: "string option"
  bc_totalAmount :: 'n
  bc_items :: "'n valid_item list"

text \<open>
  The loop \<open>for (const item of menuItems)\<close>: statement \<open>i\<close> of the request is the SELECT
  of the \<open>i\<close>-th line. A failing SELECT rejects the awaited promise and the handler's
  \<open>catch\<close> answers 500; a line whose item is missing or unavailable answers 400.
\<close>

fun resolve_items ::
  "'n env \<Rightarrow> 'n menu_item_row list \<Rightarrow> nat \<Rightarrow> req_line list \<Rightarrow> 'n \<Rightarrow> 'n valid_item list
     \<Rightarrow> 'a response + 'n \<times> 'n valid_item list" where
  "resolve_items e menu i [] totalAmount validItems = Inr (totalAmount, validItems)"
| "resolve_items e menu i (item # rest) totalAmount validItems =
     (if db_err e i then Inl (ErrorJson 500 ''Internal server error'')
      else
        case find (\<lambda>m. mi_id m = ln_itemId item \<and> mi_is_available m) menu of
          None \<Rightarrow>
            Inl (ErrorJson 400 (''Menu item with ID '' @ show_int (ln_itemId item)
                                  @ '' not found or unavailable''))
        | Some menuItem \<Rightarrow>
            let itemTotal = num_mul e (mi_price_per_serving menuItem)
                              (num_of_int e (ln_quantity item))
            in resolve_items e menu (Suc i) rest (num_add e totalAmount itemTotal)
                 (validItems @
                    [\<lparr>vi_itemId = ln_itemId item, vi_quantity = ln_quantity item,
                      vi_unitPrice = mi_price_per_serving menuItem,
                      vi_totalPrice = itemTotal\<rparr>]))"

definition item_row :: "int \<Rightarrow> 'n valid_item \<Rightarrow> 'n booking_item_row" where
  "item_row newBookingId item =
     \<lparr>bi_booking_id = newBookingId, bi_item_id = vi_itemId item,
      bi_quantity = vi_quantity item, bi_unit_price = vi_unitPrice item,
      bi_total_price = vi_totalPrice item\<rparr>"

text \<open>
  \<open>validItems.forEach(item => insertItem.run(...))\<close>: the runs have no callback, so a
  run that fails is dropped silently. Statement \<open>k\<close> is the run of the current line.
\<close>

fun insert_items ::
  "'n env \<Rightarrow> nat \<Rightarrow> int \<Rightarrow> 'n valid_item list \<Rightarrow> 'n booking_item_row list \<Rightarrow> 'n booking_item_row list"
  where
  "insert_items e k newBookingId [] rows = rows"
| "insert_items e k newBookingId (item # rest) rows =
     insert_items e (Suc k) newBookingId rest
       (if db_err e k then rows else rows @ [item_row newBookingId item])"

text \<open>
  Modelled from the spec: the INSERT names no \<open>booking_status\<close>; the column default is in
  the schema of \<open>database/init\<close>, which is not part of the sources. "Persist Booking
  (status \<open>pending\<close>)".
\<close>

definition default_booking_status :: string where
  "default_booking_status = ''pending''"

definition bookings_post ::
  "extern \<Rightarrow> 'n env \<Rightarrow> 'n database \<Rightarrow> req_user option \<Rightarrow> booking_body
     \<Rightarrow> 'n booking_created response \<times> 'n database" where
  "bookings_post x e db tok body =
     (case authenticateToken tok of
        Inl r \<Rightarrow> (r, db)
      | Inr u \<Rightarrow>
         (case requireCustomerOrAdmin u of
            Some r \<Rightarrow> (r, db)
          | None \<Rightarrow>
             if \<not> bookings_post_valid x body then (ValidationErrors, db)
             else
               let eventType = escape x (trim x (the (bb_eventType body)));
                   eventDate = the (bb_eventDate body);
                   eventVenue = escape x (trim x (the (bb_eventVenue body)));
                   numGuests = the (bb_numGuests body);
                   specialInstructions =
                     map_option (\<lambda>s. escape x (trim x s)) (bb_specialInstructions body);
                   menuItems = the (bb_menuItems body);
                   bookingId = ''BK-'' @ show_nat (now e) @ ''-'' @ rnd e
               in (case resolve_items e (menu_items db) 0 menuItems (num_of_int e 0) [] of
                    Inl r \<Rightarrow> (r, db)
                  | Inr (totalAmount, validItems) \<Rightarrow>
                      if db_err e (length menuItems)
                      then (ErrorJson 500 ''Failed to create booking'', db)
                      else
                        let newBookingId = lastID (map bk_id (bookings db));
                            row = \<lparr>bk_id = newBookingId, bk_booking_id = bookingId,
                                   bk_user_id = ru_id u, bk_event_type = eventType,
                                   bk_event_date = eventDate, bk_event_venue = eventVenue,
                                   bk_num_guests = numGuests,
                                   bk_special_instructions = or_default specialInstructions [],
                                   bk_booking_status = default_booking_status,
                                   bk_total_amount = totalAmount\<rparr>
                        in (Json 201
                              \<lparr>bc_id = newBookingId, bc_bookingId = bookingId,
                               bc_eventType = eventType, bc_eventDate = eventDate,
                               bc_eventVenue = eventVenue, bc_numGuests = numGuests,
                               bc_specialInstructions = specialInstructions,
                               bc_totalAmount = totalAmount, bc_items = validItems\<rparr>,
                            db\<lparr>bookings := bookings db @ [row],
                               booking_items :=
                                 insert_items e (Suc (length menuItems)) newBookingId
                                   validItems (booking_items db)\<rparr>))))"

text \<open>
  \<open>GET /:id\<close> of \<open>routes/bookings.js\<close>. The query joins the booking with its owner's
  user row; for a caller who is not an admin it adds \<open>AND b.user_id = ?\<close> with the
  caller's id. Statement 0 is that query, statement 1 the query for the lines.
\<close>

record 'n booking_item_view =
  biv_row :: "'n booking_item_row"
  biv_item_name :: string
  biv_description :: string
  biv_category :: string

record 'n booking_view =
  bv_row :: "'n booking_row"
  bv_first_name :: string
  bv_last_name :: string
  bv_email :: string
  bv_phone_number :: "string option"
  bv_items :: "'n booking_item_view list"

definition bookings_join_users :: "'n database \<Rightarrow> ('n booking_row \<times> user_row) list" where
  "bookings_join_users db =
     concat (map (\<lambda>b. map (\<lambda>u. (b, u)) (filter (\<lambda>u. bk_user_id b = usr_id u) (users db)))
                 (bookings db))"

definition booking_items_join_menu :: "'n database \<Rightarrow> int \<Rightarrow> 'n booking_item_view list" where
  "booking_items_join_menu db bookingId =
     concat (map (\<lambda>bi. map (\<lambda>mi. \<lparr>biv_row = bi, biv_item_name = mi_item_name mi,
                                   biv_description = mi_description mi,
                                   biv_category = mi_category mi\<rparr>)
                            (filter (\<lambda>mi. bi_item_id bi = mi_id mi) (menu_items db)))
                 (filter (\<lambda>bi. bi_booking_id bi = bookingId) (booking_items db)))"

definition bookings_get_id ::
  "'n env \<Rightarrow> 'n database \<Rightarrow> req_user option \<Rightarrow> int \<Rightarrow> 'n booking_view response" where
  "bookings_get_id e db tok bookingId =
     (case authenticateToken tok of
        Inl r \<Rightarrow> r
      | Inr u \<Rightarrow>
         (case requireCustomerOrAdmin u of
            Some r \<Rightarrow> r
          | None \<Rightarrow>
             let isAdmin = (ru_userType u = ''admin'')
             in if db_err e 0 then ErrorJson 500 ''Database error''
                else
                  (case find (\<lambda>(b, owner). bk_id b = bookingId
                                \<and> (isAdmin \<or> bk_user_id b = ru_id u))
                            (bookings_join_users db) of
                    None \<Rightarrow> ErrorJson 404 ''Booking not found''
                  | Some (booking, owner) \<Rightarrow>
                      if db_err e 1 then ErrorJson 500 ''Database error''
                      else Json 200
                             \<lparr>bv_row = booking, bv_first_name = usr_first_name owner,
                              bv_last_name = usr_last_name owner, bv_email = usr_email owner,
                              bv_phone_number = usr_phone_number owner,
                              bv_items = booking_items_join_menu db bookingId\<rparr>)))"

text \<open>
  \<open>PUT /menu/:id\<close>: the only route that changes a catalog price. Each property present
  in the body updates its column; statement 0 is the SELECT of the item, statement 1
  the UPDATE.
\<close>

definition menu_put_valid :: "extern \<Rightarrow> 'n env \<Rightarrow> 'n menu_update_body \<Rightarrow> bool" where
  "menu_put_valid x e b =
     (mu_itemName b \<noteq> Some []
      \<and> mu_category b \<noteq> Some []
      \<and> (case mu_pricePerServing b of
            None \<Rightarrow> True | Some p \<Rightarrow> num_le e (num_of_int e 0) p)
      \<and> (case mu_imageUrl b of None \<Rightarrow> True | Some url \<Rightarrow> isURL x url))"

definition menu_put_row :: "extern \<Rightarrow> 'n menu_update_body \<Rightarrow> 'n menu_item_row \<Rightarrow> 'n menu_item_row" where
  "menu_put_row x b m =
     m\<lparr>mi_item_name :=
         (case mu_itemName b of None \<Rightarrow> mi_item_name m | Some v \<Rightarrow> escape x (trim x v)),
       mi_description :=
         (case mu_description b of None \<Rightarrow> mi_description m | Some v \<Rightarrow> escape x (trim x v)),
       mi_category :=
         (case mu_category b of None \<Rightarrow> mi_category m | Some v \<Rightarrow> escape x (trim x v)),
       mi_price_per_serving :=
         (case mu_pricePerServing b of None \<Rightarrow> mi_price_per_serving m | Some v \<Rightarrow> v),
       mi_image_url := (case mu_imageUrl b of None \<Rightarrow> mi_image_url m | Some v \<Rightarrow> v),
       mi_is_available :=
         (case mu_isAvailable b of None \<Rightarrow> mi_is_available m | Some v \<Rightarrow> v)\<rparr>"

definition menu_put ::
  "extern \<Rightarrow> 'n env \<Rightarrow> 'n database \<Rightarrow> req_user option \<Rightarrow> int \<Rightarrow> 'n menu_update_body
     \<Rightarrow> string response \<times> 'n database" where
  "menu_put x e db tok itemId b =
     (case authenticateToken tok of
        Inl r \<Rightarrow> (r, db)
      | Inr u \<Rightarrow>
         (case requireAdmin u of
            Some r \<Rightarrow> (r, db)
          | None \<Rightarrow>
             if \<not> menu_put_valid x e b then (ValidationErrors, db)
             else if db_err e 0 then (ErrorJson 500 ''Database error'', db)
             else if find (\<lambda>m. mi_id m = itemId) (menu_items db) = None
             then (ErrorJson 404 ''Menu item not found'', db)
             else if mu_itemName b = None \<and> mu_description b = None \<and> mu_category b = None
                     \<and> mu_pricePerServing b = None \<and> mu_imageUrl b = None
                     \<and> mu_isAvailable b = None
             then (ErrorJson 400 ''No valid fields to update'', db)
             else if db_err e 1 then (ErrorJson 500 ''Failed to update menu item'', db)
             else (Json 200 ''Menu item updated successfully'',
                   db\<lparr>menu_items :=
                        map (\<lambda>m. if mi_id m = itemId then menu_put_row x b m else m)
                            (menu_items db)\<rparr>)))"

section \<open>The relational backend: authentication routes\<close>

text \<open>
  The object that \<open>SELECT * FROM users\<close> yields for a row: one property per column.
  The columns are those the statements of the route file name (the INSERT of the
  register route, the SELECT of \<open>/me\<close>, the UPDATE of the profile route and the
  \<open>is_active\<close> test of the login route).
\<close>

definition user_row_obj :: "user_row \<Rightarrow> 'n jsobj" where
  "user_row_obj u =
     [(''id'', JInt (usr_id u)),
      (''username'', JStr (usr_username u)),
      (''email'', JStr (usr_email u)),
      (''password_hash'', JStr (usr_password_hash u)),
      (''first_name'', JStr (usr_first_name u)),
      (''last_name'', JStr (usr_last_name u)),
      (''phone_number'', (case usr_phone_number u of None \<Rightarrow> JNull | Some p \<Rightarrow> JStr p)),
      (''user_type'', JStr (usr_user_type u)),
      (''is_active'', JInt (if usr_is_active u then 1 else 0)),
      (''created_at'', JStr (usr_created_at u)),
      (''updated_at'', JStr (usr_updated_at u))]"

record 'n auth_reply =
  ar_token :: "string option"
  ar_user :: "'n jsobj"

text \<open>\<open>isLength({ min: n })\<close> on a field that may be absent (an absent field is empty).\<close>

definition isLength_min :: "nat \<Rightarrow> string option \<Rightarrow> bool" where
  "isLength_min n v = (case v of None \<Rightarrow> False | Some s \<Rightarrow> n \<le> length s)"

definition auth_login_valid :: "extern \<Rightarrow> login_body \<Rightarrow> bool" where
  "auth_login_valid x b =
     ((case lb_email b of None \<Rightarrow> False | Some em \<Rightarrow> isEmail x em)
      \<and> isLength_min 6 (lb_password b))"

definition auth_login :: "extern \<Rightarrow> 'n env \<Rightarrow> 'n database \<Rightarrow> login_body \<Rightarrow> 'n auth_reply response" where
  "auth_login x e db b =
     (if \<not> auth_login_valid x b then ValidationErrors
      else
        let email = normalizeEmail x (the (lb_email b));
            password = the (lb_password b)
        in if db_err e 0 then ErrorJson 500 ''Database error''
           else
             case find (\<lambda>u. usr_email u = email \<and> usr_is_active u) (users db) of
               None \<Rightarrow> ErrorJson 401 ''Invalid email or password''
             | Some user \<Rightarrow>
                 if \<not> bcrypt_compare x password (usr_password_hash user)
                 then ErrorJson 401 ''Invalid email or password''
                 else
                   let token = generateToken x user;
                       userWithoutPassword = omit ''password_hash'' (user_row_obj user)
                   in Json 200 \<lparr>ar_token = Some token, ar_user = userWithoutPassword\<rparr>)"

definition auth_register_valid :: "extern \<Rightarrow> register_body \<Rightarrow> bool" where
  "auth_register_valid x b =
     (isLength_min 3 (rb_username b)
      \<and> (case rb_email b of None \<Rightarrow> False | Some em \<Rightarrow> isEmail x em)
      \<and> isLength_min 6 (rb_password b)
      \<and> isLength_min 2 (rb_firstName b)
      \<and> isLength_min 2 (rb_lastName b)
      \<and> (case rb_phoneNumber b of None \<Rightarrow> True | Some p \<Rightarrow> isMobilePhone x p))"

text \<open>
  \<open>POST /register\<close>. Statement 0 looks for a user with the same e-mail or user name,
  statement 1 inserts the row, statement 2 reads it back. Modelled from the spec: the
  defaults of the columns the INSERT does not name (\<open>is_active\<close>, the timestamps) are in
  the schema of \<open>database/init\<close>; a new account is active.
\<close>

definition auth_register ::
  "extern \<Rightarrow> 'n env \<Rightarrow> 'n database \<Rightarrow> register_body \<Rightarrow> 'n auth_reply response \<times> 'n database" where
  "auth_register x e db b =
     (if \<not> auth_register_valid x b then (ValidationErrors, db)
      else
        let username = escape x (trim x (the (rb_username b)));
            email = normalizeEmail x (the (rb_email b));
            password = the (rb_password b);
            firstName = escape x (trim x (the (rb_firstName b)));
            lastName = escape x (trim x (the (rb_lastName b)));
            phoneNumber = rb_phoneNumber b
        in if db_err e 0 then (ErrorJson 500 ''Database error'', db)
           else if find (\<lambda>u. usr_email u = email \<or> usr_username u = username) (users db) \<noteq> None
           then (ErrorJson 409 ''User already exists'', db)
           else
             let hashedPassword = bcrypt_hash x password
             in if db_err e 1 then (ErrorJson 500 ''Failed to create user'', db)
                else
                  let user = \<lparr>usr_id = lastID (map usr_id (users db)),
                              usr_username = username, usr_email = email,
                              usr_password_hash = hashedPassword,
                              usr_first_name = firstName, usr_last_name = lastName,
                              usr_phone_number = phoneNumber, usr_user_type = ''customer'',
                              usr_is_active = True, usr_created_at = sql_now e,
                              usr_updated_at = sql_now e\<rparr>;
                      db' = db\<lparr>users := users db @ [user]\<rparr>
                  in if db_err e 2 then (ErrorJson 500 ''Database error'', db')
                     else
                       let token = generateToken x user;
                           userWithoutPassword = omit ''password_hash'' (user_row_obj user)
                       in (Json 201 \<lparr>ar_token = Some token, ar_user = userWithoutPassword\<rparr>,
                           db'))"

section \<open>The relational backend: receipt routes\<close>

text \<open>
  \<open>db.run(sql, values)\<close> binds the values to the placeholders by position; a placeholder
  without a value stays NULL. \<open>bind_columns\<close> pairs the column list of an INSERT with
  the values given.
\<close>

definition bind_columns :: "string list \<Rightarrow> 'n jsval list \<Rightarrow> 'n jsobj" where
  "bind_columns cols vals = zip cols (vals @ replicate (length cols - length vals) JNull)"

definition column :: "'n receipt_row \<Rightarrow> string \<Rightarrow> 'n jsval option" where
  "column r c = map_of (rc_cols r) c"

definition receipts_generate_valid :: "receipt_body \<Rightarrow> bool" where
  "receipts_generate_valid b =
     (gb_bookingId b \<noteq> None
      \<and> (case gb_paymentStatus b of
            None \<Rightarrow> True
          | Some st \<Rightarrow> st \<in> set [''pending'', ''paid'', ''failed'', ''refunded'']))"

definition booking_item_view_obj :: "'n booking_item_view \<Rightarrow> 'n jsval" where
  "booking_item_view_obj v =
     JObj [(''booking_id'', JInt (bi_booking_id (biv_row v))),
           (''item_id'', JInt (bi_item_id (biv_row v))),
           (''quantity'', JInt (bi_quantity (biv_row v))),
           (''unit_price'', JNum (bi_unit_price (biv_row v))),
           (''total_price'', JNum (bi_total_price (biv_row v))),
           (''item_name'', JStr (biv_item_name v)),
           (''description'', JStr (biv_description v)),
           (''category'', JStr (biv_category v))]"

text \<open>
  \<open>POST /receipts/generate\<close> of the relational backend. Statement 0 reads the booking
  with its owner, statement 1 its lines, statement 2 is the INSERT. The INSERT names ten
  columns and is given eight values. \<open>booking.total_amount || 0\<close> replaces a falsy
  total by zero.
\<close>

definition receipts_generate ::
  "extern \<Rightarrow> 'n env \<Rightarrow> 'n database \<Rightarrow> req_user option \<Rightarrow> receipt_body \<Rightarrow> 'n jsobj response \<times> 'n database"
  where
  "receipts_generate x e db tok b =
     (case authenticateToken tok of
        Inl r \<Rightarrow> (r, db)
      | Inr u \<Rightarrow>
         (case requireCustomerOrAdmin u of
            Some r \<Rightarrow> (r, db)
          | None \<Rightarrow>
             if \<not> receipts_generate_valid b then (ValidationErrors, db)
             else
               let bookingId = the (gb_bookingId b);
                   paymentMethod =
                     (case gb_paymentMethod b of
                        None \<Rightarrow> ''Cash/Card'' | Some m \<Rightarrow> escape x (trim x m));
                   paymentStatus =
                     (case gb_paymentStatus b of None \<Rightarrow> ''pending'' | Some st \<Rightarrow> st)
               in if db_err e 0 then (ErrorJson 500 ''Database error'', db)
                  else
                    (case find (\<lambda>(bk, owner). bk_id bk = bookingId) (bookings_join_users db) of
                      None \<Rightarrow> (ErrorJson 404 ''Booking not found'', db)
                    | Some (booking, owner) \<Rightarrow>
                        if ru_userType u \<noteq> ''admin'' \<and> bk_user_id booking \<noteq> ru_id u
                        then (ErrorJson 403 ''Access denied'', db)
                        else if db_err e 1 then (ErrorJson 500 ''Database error'', db)
                        else
                          let items = booking_items_join_menu db bookingId;
                              subtotal = (if num_falsy e (bk_total_amount booking)
                                          then num_of_int e 0
                                          else bk_total_amount booking);
                              taxRate = num_0_12 e;
                              taxAmount = num_mul e subtotal taxRate;
                              totalAmount = num_add e subtotal taxAmount;
                              receiptId = ''RCP-'' @ show_nat (now e) @ ''-'' @ rnd e;
                              receiptNumber = ''R'' @ slice_last 6 (show_nat (now e));
                              issuedDate = split_first CHR ''T'' (iso_now e)
                          in if db_err e 2 then (ErrorJson 500 ''Failed to create receipt'', db)
                             else
                               let newId = lastID (map rc_id (receipts db));
                                   row = \<lparr>rc_id = newId,
                                          rc_cols = bind_columns
                                            [''receipt_id'', ''booking_id'', ''receipt_number'',
                                             ''subtotal'', ''tax_rate'', ''tax_amount'',
                                             ''total_amount'', ''payment_method'',
                                             ''payment_status'', ''issued_date'']
                                            [JStr receiptId, JInt bookingId,
                                             JStr receiptNumber, JNum subtotal,
                                             JNum totalAmount, JStr paymentMethod,
                                             JStr paymentStatus, JStr issuedDate]\<rparr>;
                                   receipt =
                                     [(''id'', JInt newId),
                                      (''receiptId'', JStr receiptId),
                                      (''receiptNumber'', JStr receiptNumber),
                                      (''bookingId'', JStr (bk_booking_id booking)),
                                      (''customerName'',
                                         JStr (usr_first_name owner @ '' '' @ usr_last_name owner)),
                                      (''customerEmail'', JStr (usr_email owner)),
                                      (''customerPhone'',
                                         (case usr_phone_number owner of
                                            None \<Rightarrow> JNull | Some p \<Rightarrow> JStr p)),
                                      (''eventType'', JStr (bk_event_type booking)),
                                      (''eventDate'', JStr (bk_event_date booking)),
                                      (''eventVenue'', JStr (bk_event_venue booking)),
                                      (''numGuests'', JInt (bk_num_guests booking)),
                                      (''items'', JArr (map booking_item_view_obj items)),
                                      (''subtotal'', JNum subtotal),
                                      (''totalAmount'', JNum totalAmount),
                                      (''paymentMethod'', JStr paymentMethod),
                                      (''paymentStatus'', JStr paymentStatus),
                                      (''issuedDate'', JStr issuedDate),
                                      (''createdAt'', JStr (iso_now e))]
                               in (Json 201 receipt,
                                   db\<lparr>receipts := receipts db @ [row]\<rparr>))))"

section \<open>The JSON-file backend: the store\<close>

text \<open>
  \<open>server.js\<close> keeps one JSON array per entity in a file. The records have the
  properties of the objects that the server itself writes (the sample data of
  \<open>initializeData\<close> and the objects built by the POST routes); a sample user has no
  \<open>phoneNumber\<close> and no \<open>createdAt\<close>, and a booking whose status was set to
  \<open>undefined\<close> has no \<open>bookingStatus\<close> in the file.
\<close>

record user =
  u_id :: int
  u_username :: string
  u_email :: string
  u_password :: string
  u_firstName :: string
  u_lastName :: string
  u_phoneNumber :: "string option"
  u_userType :: string
  u_createdAt :: "string option"

record 'n menu_item =
  m_id :: int
  m_itemName :: string
  m_description :: string
  m_category :: string
  m_pricePerServing :: 'n
  m_imageUrl :: string
  m_isAvailable :: bool

record 'n booking_item =
  it_itemId :: int
  it_itemName :: string
  it_quantity :: int
  it_unitPrice :: 'n
  it_totalPrice :: 'n

record 'n booking =
  b_id :: int
  b_bookingId :: string
  b_customerName :: string
  b_customerEmail :: string
  b_customerPhone :: string
  b_eventType :: string
  b_eventDate :: string
  b_eventVenue :: string
  b_numGuests :: int
  b_specialInstructions :: string
  b_bookingStatus :: "string option"
  b_totalAmount :: 'n
  b_items :: "'n booking_item list"
  b_createdAt :: string

record 'n receipt =
  r_id :: int
  r_receiptId :: string
  r_receiptNumber :: string
  r_bookingId :: string
  r_customerName :: string
  r_customerEmail :: string
  r_customerPhone :: string
  r_eventType :: string
  r_eventDate :: string
  r_eventVenue :: string
  r_numGuests :: int
  r_items :: "'n booking_item list"
  r_subtotal :: 'n
  r_taxRate :: 'n
  r_taxAmount :: 'n
  r_totalAmount :: 'n
  r_paymentMethod :: string
  r_paymentStatus :: string
  r_issuedDate :: string
  r_createdAt :: string

record 'n store =
  users_json :: "user list"
  menu_json :: "'n menu_item list"
  bookings_json :: "'n booking list"
  receipts_json :: "'n receipt list"

text \<open>
  \<open>readData(filename)\<close> yields the parsed array of the file, and the empty array when
  the file is missing or reading or parsing throws. \<open>writeData(filename, data)\<close> yields
  \<open>true\<close> when the file was written and \<open>false\<close> when writing threw; a write that
  threw is taken to leave the file as it was.
\<close>

definition readData :: "'n env \<Rightarrow> string \<Rightarrow> 'a list \<Rightarrow> 'a list" where
  "readData e filename contents = (if read_fails e filename then [] else contents)"

definition writeData :: "'n env \<Rightarrow> string \<Rightarrow> bool" where
  "writeData e filename = (\<not> write_fails e filename)"

definition sampleUsers :: "user list" where
  "sampleUsers =
     [\<lparr>u_id = 1, u_username = ''admin'', u_email = ''admin@dsis.com'',
       u_password = ''admin123'', u_firstName = ''Admin'', u_lastName = ''User'',
       u_phoneNumber = None, u_userType = ''admin'', u_createdAt = None\<rparr>,
      \<lparr>u_id = 2, u_username = ''customer'', u_email = ''customer@test.com'',
       u_password = ''customer123'', u_firstName = ''John'', u_lastName = ''Doe'',
       u_phoneNumber = None, u_userType = ''customer'', u_createdAt = None\<rparr>]"

definition sampleMenu :: "'n env \<Rightarrow> 'n menu_item list" where
  "sampleMenu e =
     [\<lparr>m_id = 1, m_itemName = ''Lechon'',
       m_description = ''Traditional Filipino roasted pig'', m_category = ''Main Course'',
       m_pricePerServing = num_of_int e 500, m_imageUrl = ''/img/lechon.jpg'', m_isAvailable = True\<rparr>,
      \<lparr>m_id = 2, m_itemName = ''Chicken Cordon Bleu'',
       m_description = ''Breaded chicken with ham and cheese'', m_category = ''Main Course'',
       m_pricePerServing = num_of_int e 350, m_imageUrl = ''/img/cordonblue.jpg'', m_isAvailable = True\<rparr>,
      \<lparr>m_id = 3, m_itemName = ''Lasagna'',
       m_description = ''Layered pasta with meat and cheese'', m_category = ''Main Course'',
       m_pricePerServing = num_of_int e 300, m_imageUrl = ''/img/lasagna.jpg'', m_isAvailable = True\<rparr>,
      \<lparr>m_id = 4, m_itemName = ''Shanghai Rolls'',
       m_description = ''Crispy spring rolls with meat filling'', m_category = ''Appetizer'',
       m_pricePerServing = num_of_int e 200, m_imageUrl = ''/img/shanghai.jpg'', m_isAvailable = True\<rparr>,
      \<lparr>m_id = 5, m_itemName = ''Fruit Salad'',
       m_description = ''Fresh mixed fruits with cream'', m_category = ''Dessert'',
       m_pricePerServing = num_of_int e 150, m_imageUrl = ''/img/fruitsalad.jpg'', m_isAvailable = True\<rparr>,
      \<lparr>m_id = 6, m_itemName = ''Rice'',
       m_description = ''Steamed white rice'', m_category = ''Side Dish'',
       m_pricePerServing = num_of_int e 50, m_imageUrl = ''/img/rice.jpg'', m_isAvailable = True\<rparr>,
      \<lparr>m_id = 7, m_itemName = ''Soft Drinks'',
       m_description = ''Assorted soft drinks'', m_category = ''Beverage'',
       m_pricePerServing = num_of_int e 30, m_imageUrl = ''/img/drinks.png'', m_isAvailable = True\<rparr>,
      \<lparr>m_id = 8, m_itemName = ''Cucumber Juice'',
       m_description = ''Fresh cucumber juice'', m_category = ''Beverage'',
       m_pricePerServing = num_of_int e 80, m_imageUrl = ''/img/cucumberjuice.jpg'', m_isAvailable = True\<rparr>]"

text \<open>The store after \<open>initializeData\<close> on an empty data directory.\<close>

definition initializeData :: "'n env \<Rightarrow> 'n store" where
  "initializeData e =
     \<lparr>users_json = sampleUsers, menu_json = sampleMenu e, bookings_json = [],
      receipts_json = []\<rparr>"

section \<open>The JSON-file backend: authentication routes\<close>

definition user_obj :: "user \<Rightarrow> 'n jsobj" where
  "user_obj u =
     [(''id'', JInt (u_id u)),
      (''username'', JStr (u_username u)),
      (''email'', JStr (u_email u)),
      (''password'', JStr (u_password u)),
      (''firstName'', JStr (u_firstName u)),
      (''lastName'', JStr (u_lastName u))]
     @ opt_prop ''phoneNumber'' JStr (u_phoneNumber u)
     @ [(''userType'', JStr (u_userType u))]
     @ opt_prop ''createdAt'' JStr (u_createdAt u)"

definition server_login :: "'n env \<Rightarrow> 'n store \<Rightarrow> login_body \<Rightarrow> 'n auth_reply response" where
  "server_login e st b =
     (if falsy_str (lb_email b) \<or> falsy_str (lb_password b)
      then ErrorJson 400 ''Email and password are required''
      else
        let users = readData e ''users.json'' (users_json st)
        in case find (\<lambda>u. Some (u_email u) = lb_email b \<and> Some (u_password u) = lb_password b)
                     users of
             None \<Rightarrow> ErrorJson 401 ''Invalid email or password''
           | Some user \<Rightarrow>
               let userWithoutPassword = omit ''password'' (user_obj user)
               in Json 200 \<lparr>ar_token = None, ar_user = userWithoutPassword\<rparr>)"

definition server_register ::
  "'n env \<Rightarrow> 'n store \<Rightarrow> register_body \<Rightarrow> 'n auth_reply response \<times> 'n store" where
  "server_register e st b =
     (if falsy_str (rb_firstName b) \<or> falsy_str (rb_lastName b) \<or> falsy_str (rb_email b)
         \<or> falsy_str (rb_password b) \<or> falsy_str (rb_repeatPassword b)
      then (ErrorJson 400 ''All fields are required'', st)
      else if rb_password b \<noteq> rb_repeatPassword b
      then (ErrorJson 400 ''Passwords do not match'', st)
      else if length (the (rb_password b)) < 6
      then (ErrorJson 400 ''Password must be at least 6 characters long'', st)
      else
        let email = the (rb_email b);
            users = readData e ''users.json'' (users_json st)
        in if find (\<lambda>u. u_email u = email) users \<noteq> None
           then (ErrorJson 409 ''User with this email already exists'', st)
           else
             let newUser = \<lparr>u_id = int (length users) + 1,
                            u_username = split_first CHR ''@'' email,
                            u_email = email,
                            u_password = the (rb_password b),
                            u_firstName = the (rb_firstName b),
                            u_lastName = the (rb_lastName b),
                            u_phoneNumber = Some (or_default (rb_mobileNumber b) []),
                            u_userType = ''customer'',
                            u_createdAt = Some (iso_now e)\<rparr>
             in if \<not> writeData e ''users.json''
                then (ErrorJson 500 ''Failed to save user data'', st)
                else
                  let userWithoutPassword = omit ''password'' (user_obj newUser)
                  in (Json 201 \<lparr>ar_token = None, ar_user = userWithoutPassword\<rparr>,
                      st\<lparr>users_json := users @ [newUser]\<rparr>))"

section \<open>The JSON-file backend: booking routes\<close>

text \<open>
  \<open>GET /api/bookings/:id\<close>: the route has no middleware and reads nothing of the
  caller; the path parameter is taken as the integer \<open>parseInt\<close> makes of it.
\<close>

definition server_get_booking :: "'n env \<Rightarrow> 'n store \<Rightarrow> int \<Rightarrow> 'n booking response" where
  "server_get_booking e st ident =
     (let bookings = readData e ''bookings.json'' (bookings_json st)
      in case find (\<lambda>b. b_id b = ident) bookings of
           None \<Rightarrow> ErrorJson 404 ''Booking not found''
         | Some booking \<Rightarrow> Json 200 booking)"

text \<open>
  \<open>menuItems.map(item => ...)\<close> with the running \<open>totalAmount\<close>. When \<open>menuData.find\<close>
  yields \<open>undefined\<close>, reading \<open>menuItem.pricePerServing\<close> throws a TypeError: the
  result is \<open>None\<close>.
\<close>

fun map_items ::
  "'n env \<Rightarrow> 'n menu_item list \<Rightarrow> req_line list \<Rightarrow> 'n
     \<Rightarrow> ('n \<times> 'n booking_item list) option" where
  "map_items e menuData [] totalAmount = Some (totalAmount, [])"
| "map_items e menuData (item # rest) totalAmount =
     (case find (\<lambda>m. m_id m = ln_itemId item) menuData of
        None \<Rightarrow> None
      | Some menuItem \<Rightarrow>
          let itemTotal = num_mul e (m_pricePerServing menuItem)
                            (num_of_int e (ln_quantity item))
          in (case map_items e menuData rest (num_add e totalAmount itemTotal) of
               None \<Rightarrow> None
             | Some (amount, bookingItems) \<Rightarrow>
                 Some (amount,
                       \<lparr>it_itemId = ln_itemId item, it_itemName = m_itemName menuItem,
                        it_quantity = ln_quantity item,
                        it_unitPrice = m_pricePerServing menuItem,
                        it_totalPrice = itemTotal\<rparr> # bookingItems)))"

text \<open>
  \<open>POST /api/bookings\<close>. The result of \<open>writeData\<close> is not looked at: the answer is
  201 whether or not the file was written.
\<close>

definition server_post_bookings ::
  "'n env \<Rightarrow> 'n store \<Rightarrow> booking_body \<Rightarrow> 'n booking response \<times> 'n store" where
  "server_post_bookings e st body =
     (if falsy_str (bb_eventType body) \<or> falsy_str (bb_eventDate body)
         \<or> falsy_str (bb_eventVenue body) \<or> falsy_num (bb_numGuests body)
         \<or> bb_menuItems body = None \<or> falsy_str (bb_customerName body)
         \<or> falsy_str (bb_customerEmail body)
      then (ErrorJson 400
              ''Missing required fields (eventType, eventDate, eventVenue, numGuests, menuItems, customerName, customerEmail)'',
            st)
      else
        let eventDate = the (bb_eventDate body);
            bookings = readData e ''bookings.json'' (bookings_json st);
            menuData = readData e ''menu.json'' (menu_json st);
            dateAlreadyBooked =
              list_ex (\<lambda>b. b_eventDate b = eventDate
                             \<and> b_bookingStatus b \<noteq> Some ''cancelled'')
                      bookings
        in if dateAlreadyBooked
           then (ErrorJson 409
                   ''Sorry, this date is already booked. Please choose another date.'', st)
           else
             case map_items e menuData (the (bb_menuItems body)) (num_of_int e 0) of
               None \<Rightarrow> (Uncaught, st)
             | Some (totalAmount, bookingItems) \<Rightarrow>
                 let newBooking =
                       \<lparr>b_id = int (length bookings) + 1,
                        b_bookingId = ''BK-'' @ show_nat (now e),
                        b_customerName = the (bb_customerName body),
                        b_customerEmail = the (bb_customerEmail body),
                        b_customerPhone = or_default (bb_customerPhone body) [],
                        b_eventType = the (bb_eventType body),
                        b_eventDate = eventDate,
                        b_eventVenue = the (bb_eventVenue body),
                        b_numGuests = the (bb_numGuests body),
                        b_specialInstructions = or_default (bb_specialInstructions body) [],
                        b_bookingStatus = Some ''pending'',
                        b_totalAmount = totalAmount,
                        b_items = bookingItems,
                        b_createdAt = iso_now e\<rparr>
                 in (Json 201 newBooking,
                     if writeData e ''bookings.json''
                     then st\<lparr>bookings_json := bookings @ [newBooking]\<rparr>
                     else st))"

text \<open>
  \<open>PATCH /api/bookings/:id/status\<close>: \<open>bookings.find\<close> yields the first booking with
  the id, whose \<open>bookingStatus\<close> is overwritten in place with whatever \<open>status\<close> the
  body holds (\<open>newStatus\<close>, which is \<open>None\<close> when the body has none); there is no check of the status or of the caller, and the result of
  \<open>writeData\<close> is not looked at.
\<close>

fun update_first :: "('a \<Rightarrow> bool) \<Rightarrow> ('a \<Rightarrow> 'a) \<Rightarrow> 'a list \<Rightarrow> 'a list" where
  "update_first P f [] = []"
| "update_first P f (x # xs) = (if P x then f x # xs else x # update_first P f xs)"

definition server_patch_booking_status ::
  "'n env \<Rightarrow> 'n store \<Rightarrow> int \<Rightarrow> string option \<Rightarrow> string response \<times> 'n store" where
  "server_patch_booking_status e st ident newStatus =
     (let bookings = readData e ''bookings.json'' (bookings_json st)
      in case find (\<lambda>b. b_id b = ident) bookings of
           None \<Rightarrow> (ErrorJson 404 ''Booking not found'', st)
         | Some booking \<Rightarrow>
             (Json 200 ''Booking status updated successfully'',
              if writeData e ''bookings.json''
              then st\<lparr>bookings_json :=
                        update_first (\<lambda>b. b_id b = ident)
                          (\<lambda>b. b\<lparr>b_bookingStatus := newStatus\<rparr>) bookings\<rparr>
              else st))"

section \<open>The JSON-file backend: receipt routes\<close>

text \<open>
  \<open>POST /api/receipts/generate\<close>. \<open>parseInt(bookingId)\<close> of an absent \<open>bookingId\<close> is
  \<open>NaN\<close>, which equals no id. As in the booking route, the result of \<open>writeData\<close> is not
  looked at.
\<close>

definition server_receipts_generate ::
  "'n env \<Rightarrow> 'n store \<Rightarrow> receipt_body \<Rightarrow> 'n receipt response \<times> 'n store" where
  "server_receipts_generate e st body =
     (let paymentMethod = (case gb_paymentMethod body of None \<Rightarrow> ''Cash'' | Some m \<Rightarrow> m);
          paymentStatus = (case gb_paymentStatus body of None \<Rightarrow> ''pending'' | Some s \<Rightarrow> s);
          bookings = readData e ''bookings.json'' (bookings_json st)
      in case find (\<lambda>b. Some (b_id b) = gb_bookingId body) bookings of
           None \<Rightarrow> (ErrorJson 404 ''Booking not found'', st)
         | Some booking \<Rightarrow>
             let subtotal = b_totalAmount booking;
                 taxRate = num_0_12 e;
                 taxAmount = num_mul e subtotal taxRate;
                 totalAmount = num_add e subtotal taxAmount;
                 receipts = readData e ''receipts.json'' (receipts_json st);
                 newReceipt =
                   \<lparr>r_id = int (length receipts) + 1,
                    r_receiptId = ''RCP-'' @ show_nat (now e),
                    r_receiptNumber =
                      ''R'' @ padStart 6 CHR ''0'' (show_nat (length receipts + 1)),
                    r_bookingId = b_bookingId booking,
                    r_customerName = b_customerName booking,
                    r_customerEmail = b_customerEmail booking,
                    r_customerPhone = or_default (Some (b_customerPhone booking)) [],
                    r_eventType = b_eventType booking,
                    r_eventDate = b_eventDate booking,
                    r_eventVenue = b_eventVenue booking,
                    r_numGuests = b_numGuests booking,
                    r_items = b_items booking,
                    r_subtotal = subtotal,
                    r_taxRate = taxRate,
                    r_taxAmount = taxAmount,
                    r_totalAmount = totalAmount,
                    r_paymentMethod = paymentMethod,
                    r_paymentStatus = paymentStatus,
                    r_issuedDate = split_first CHR ''T'' (iso_now e),
                    r_createdAt = iso_now e\<rparr>
             in (Json 201 newReceipt,
                 if writeData e ''receipts.json''
                 then st\<lparr>receipts_json := receipts @ [newReceipt]\<rparr>
                 else st))"

text \<open>
  The integer a receipt number stands for, read the way the client's
  \<open>getNextReceiptNumber\<close> reads it: \<open>parseInt(receipt.receiptNumber.substring(1))\<close>.
\<close>

definition receipt_number_value :: "string \<Rightarrow> nat option" where
  "receipt_number_value receiptNumber = parseInt (drop 1 receiptNumber)"

section \<open>The client: receipt numbering\<close>

text \<open>
  \<open>getNextReceiptNumber\<close> of \<open>receipt.js\<close>, on the receipt numbers of the receipts the
  client holds: one more than the largest number, where a receipt number that does not
  parse (\<open>NaN\<close>) is skipped because \<open>NaN > max\<close> is false.
\<close>

definition getNextReceiptNumber :: "string list \<Rightarrow> nat" where
  "getNextReceiptNumber receiptNumbers =
     foldl (\<lambda>mx receiptNumber.
              case receipt_number_value receiptNumber of
                None \<Rightarrow> mx
              | Some number \<Rightarrow> if number > mx then number else mx)
           0 receiptNumbers + 1"

section \<open>Properties of the stores\<close>

text \<open>
  The sum that \<open>let totalAmount = 0; ... totalAmount += x\<close> computes over a list of
  numbers: the additions of the engine, from zero, from left to right. With rounding
  arithmetic this need not be the exact sum.
\<close>

definition js_sum :: "'n env \<Rightarrow> 'n list \<Rightarrow> 'n" where
  "js_sum e xs = foldl (num_add e) (num_of_int e 0) xs"

text \<open>
  Date exclusivity of a bookings file: no two bookings whose status is not
  \<open>cancelled\<close> have the same event date.
\<close>

definition date_exclusive :: "'n booking list \<Rightarrow> bool" where
  "date_exclusive bs =
     distinct (map b_eventDate (filter (\<lambda>b. b_bookingStatus b \<noteq> Some ''cancelled'') bs))"

text \<open>
  The two routes that write the bookings file, as requests, and the store after a
  sequence of such requests, each served in an environment of its own: the handlers of
  \<open>server.js\<close> are synchronous, so the requests are served one after another.
\<close>

datatype booking_request = PostBooking booking_body | PatchStatus int "string option"

fun server_step :: "'n env \<Rightarrow> 'n store \<Rightarrow> booking_request \<Rightarrow> 'n store" where
  "server_step e st (PostBooking body) = snd (server_post_bookings e st body)"
| "server_step e st (PatchStatus ident newStatus) =
     snd (server_patch_booking_status e st ident newStatus)"

fun server_run :: "'n store \<Rightarrow> ('n env \<times> booking_request) list \<Rightarrow> 'n store" where
  "server_run st [] = st"
| "server_run st ((e, rq) # rest) = server_run (server_step e st rq) rest"

text \<open>
  A change of status revives a booking on a taken date when the booking it addresses is
  cancelled, the new status is not \<open>cancelled\<close>, and a booking that is not cancelled has
  the same event date. A sequence of requests is free of such revivals when none of its
  status changes is one in the store it is served in.
\<close>

definition revives_on_taken_date :: "'n booking list \<Rightarrow> int \<Rightarrow> string option \<Rightarrow> bool" where
  "revives_on_taken_date bs ident newStatus =
     (newStatus \<noteq> Some ''cancelled''
      \<and> (case find (\<lambda>b. b_id b = ident) bs of
            None \<Rightarrow> False
          | Some b \<Rightarrow>
              b_bookingStatus b = Some ''cancelled''
              \<and> list_ex (\<lambda>b'. b_eventDate b' = b_eventDate b
                               \<and> b_bookingStatus b' \<noteq> Some ''cancelled'') bs))"

fun no_revival_on_taken_date :: "'n store \<Rightarrow> ('n env \<times> booking_request) list \<Rightarrow> bool" where
  "no_revival_on_taken_date st [] = True"
| "no_revival_on_taken_date st ((e, PostBooking body) # rest) =
     no_revival_on_taken_date (server_step e st (PostBooking body)) rest"
| "no_revival_on_taken_date st ((e, PatchStatus ident newStatus) # rest) =
     (\<not> revives_on_taken_date (readData e ''bookings.json'' (bookings_json st)) ident newStatus
      \<and> no_revival_on_taken_date (server_step e st (PatchStatus ident newStatus)) rest)"

text \<open>
  A receipts file is numbered in order when its \<open>i\<close>-th receipt (counting from one)
  has the receipt number that stands for \<open>i\<close>.
\<close>

definition numbered_in_order :: "'n receipt list \<Rightarrow> bool" where
  "numbered_in_order rs =
     (map (\<lambda>r. receipt_number_value (r_receiptNumber r)) rs
        = map (\<lambda>i. Some (Suc i)) [0..<length rs])"

text \<open>
  The rows of a relational database that belong to a user: the user's own row, the
  bookings of the user, and the lines of those bookings. The catalog is public, and
  receipts are not read by the booking routes.
\<close>

definition own_rows :: "req_user \<Rightarrow> 'n database \<Rightarrow> 'n database" where
  "own_rows u db =
     db\<lparr>users := filter (\<lambda>r. usr_id r = ru_id u) (users db),
        bookings := filter (\<lambda>b. bk_user_id b = ru_id u) (bookings db),
        booking_items :=
          filter (\<lambda>bi. bi_booking_id bi
                         \<in> set (map bk_id (filter (\<lambda>b. bk_user_id b = ru_id u) (bookings db))))
                 (booking_items db),
        receipts := []\<rparr>"

section \<open>Example data\<close>

text \<open>
  A quiet environment (no storage failure) and a small relational database: an admin and
  two customers, three menu items of which the third is unavailable, and one booking of
  the first customer with two lines. The numbers of the examples are rationals with
  exact arithmetic, and \<open>num_0_12\<close> is the rational 12/100. Every price and quantity
  of the examples is a small integer, whose sums and products doubles compute without
  rounding, and the one product with \<open>0.12\<close> that the examples compute,
  \<open>1000 * 0.12\<close>, is 120 in double arithmetic too.
\<close>

definition demo_env :: "rat env" where
  "demo_env = \<lparr>now = 1700000999999, iso_now = ''2023-11-14T22:29:59.999Z'',
     sql_now = ''2023-11-14 22:29:59'', rnd = ''K3X9Q'',
     db_err = (\<lambda>_. False), read_fails = (\<lambda>_. False), write_fails = (\<lambda>_. False),
     num_add = (\<lambda>a b. a + b), num_mul = (\<lambda>a b. a * b), num_of_int = rat_of_int,
     num_0_12 = 12 / 100, num_le = (\<lambda>a b. a \<le> b), num_falsy = (\<lambda>a. a = 0)\<rparr>"

definition demo_admin :: req_user where
  "demo_admin = \<lparr>ru_id = 1, ru_userType = ''admin''\<rparr>"

definition demo_alice :: req_user where
  "demo_alice = \<lparr>ru_id = 2, ru_userType = ''customer''\<rparr>"

definition demo_bob :: req_user where
  "demo_bob = \<lparr>ru_id = 3, ru_userType = ''customer''\<rparr>"

definition demo_db :: "rat database" where
  "demo_db = \<lparr>
     users =
       [\<lparr>usr_id = 1, usr_username = ''admin'', usr_email = ''admin@dsis.com'',
          usr_password_hash = ''$2a$10$adminhash'', usr_first_name = ''Admin'',
          usr_last_name = ''User'', usr_phone_number = None, usr_user_type = ''admin'',
          usr_is_active = True, usr_created_at = ''2023-01-01 00:00:00'',
          usr_updated_at = ''2023-01-01 00:00:00''\<rparr>,
        \<lparr>usr_id = 2, usr_username = ''alice'', usr_email = ''alice@test.com'',
          usr_password_hash = ''$2a$10$alicehash'', usr_first_name = ''Alice'',
          usr_last_name = ''Reyes'', usr_phone_number = Some ''09170000001'',
          usr_user_type = ''customer'', usr_is_active = True,
          usr_created_at = ''2023-06-01 08:00:00'', usr_updated_at = ''2023-06-01 08:00:00''\<rparr>,
        \<lparr>usr_id = 3, usr_username = ''bob'', usr_email = ''bob@test.com'',
          usr_password_hash = ''$2a$10$bobhash'', usr_first_name = ''Bob'',
          usr_last_name = ''Cruz'', usr_phone_number = None,
          usr_user_type = ''customer'', usr_is_active = True,
          usr_created_at = ''2023-06-01 08:00:00'', usr_updated_at = ''2023-06-01 08:00:00''\<rparr>],
     menu_items =
       [\<lparr>mi_id = 1, mi_item_name = ''Lechon'', mi_description = ''Roasted pig'',
          mi_category = ''Main Course'', mi_price_per_serving = 100, mi_image_url = [],
          mi_is_available = True\<rparr>,
        \<lparr>mi_id = 2, mi_item_name = ''Rice'', mi_description = ''Steamed white rice'',
          mi_category = ''Side Dish'', mi_price_per_serving = 50, mi_image_url = [],
          mi_is_available = True\<rparr>,
        \<lparr>mi_id = 3, mi_item_name = ''Fruit Salad'', mi_description = ''Mixed fruits'',
          mi_category = ''Dessert'', mi_price_per_serving = 150, mi_image_url = [],
          mi_is_available = False\<rparr>],
     bookings =
       [\<lparr>bk_id = 1, bk_booking_id = ''BK-1700000000000-AAAAA'', bk_user_id = 2,
          bk_event_type = ''Wedding'', bk_event_date = ''2024-02-14'',
          bk_event_venue = ''Manila'', bk_num_guests = 50, bk_special_instructions = [],
          bk_booking_status = ''pending'', bk_total_amount = 1000\<rparr>],
     booking_items =
       [\<lparr>bi_booking_id = 1, bi_item_id = 1, bi_quantity = 9, bi_unit_price = 100,
          bi_total_price = 900\<rparr>,
        \<lparr>bi_booking_id = 1, bi_item_id = 2, bi_quantity = 2, bi_unit_price = 50,
          bi_total_price = 100\<rparr>],
     receipts = []\<rparr>"

definition demo_extern :: extern where
  "demo_extern = \<lparr>isEmail = (\<lambda>s. CHR ''@'' \<in> set s), normalizeEmail = (\<lambda>s. s),
     isISO8601 = (\<lambda>s. length s = 10), isMobilePhone = (\<lambda>s. 7 \<le> length s),
     isURL = (\<lambda>s. s \<noteq> []), escape = (\<lambda>s. s), trim = (\<lambda>s. s),
     bcrypt_hash = (\<lambda>p. ''$2a$10$'' @ p), bcrypt_compare = (\<lambda>p h. h = ''$2a$10$'' @ p),
     generateToken = (\<lambda>u. ''token'')\<rparr>"

text \<open>
  The booking of the end-to-end example of the specification: three servings at 100 and
  one at 50.
\<close>

definition demo_body :: booking_body where
  "demo_body = \<lparr>bb_eventType = Some ''Birthday'', bb_eventDate = Some ''2024-03-01'',
     bb_eventVenue = Some ''Cebu'', bb_numGuests = Some 30, bb_specialInstructions = None,
     bb_menuItems = Some [\<lparr>ln_itemId = 1, ln_quantity = 3\<rparr>, \<lparr>ln_itemId = 2, ln_quantity = 1\<rparr>],
     bb_customerName = Some ''Bob Cruz'', bb_customerEmail = Some ''bob@test.com'',
     bb_customerPhone = None\<rparr>"

text \<open>
  A store of the JSON-file backend: the sample data, and one booking of the sample
  customer on 2024-02-14 with total 1000.
\<close>

definition demo_booking :: "rat booking" where
  "demo_booking = \<lparr>b_id = 1, b_bookingId = ''BK-1700000000000'',
     b_customerName = ''John Doe'', b_customerEmail = ''customer@test.com'',
     b_customerPhone = [], b_eventType = ''Wedding'', b_eventDate = ''2024-02-14'',
     b_eventVenue = ''Manila'', b_numGuests = 50, b_specialInstructions = [],
     b_bookingStatus = Some ''pending'', b_totalAmount = 1000,
     b_items = [\<lparr>it_itemId = 1, it_itemName = ''Lechon'', it_quantity = 2,
                 it_unitPrice = 500, it_totalPrice = 1000\<rparr>],
     b_createdAt = ''2023-11-14T22:13:20.000Z''\<rparr>"

definition demo_store :: "rat store" where
  "demo_store = (initializeData demo_env)\<lparr>bookings_json := [demo_booking]\<rparr>"

text \<open>A price change for a menu item.\<close>

definition demo_price_change :: "rat menu_update_body" where
  "demo_price_change = \<lparr>mu_itemName = None, mu_description = None, mu_category = None,
     mu_pricePerServing = Some 120, mu_imageUrl = None, mu_isAvailable = None\<rparr>"

text \<open>
  A request for the receipt of booking 1, whose total is 1000 in both example stores,
  and the relational backend's answer to it when the administrator sends it.
\<close>

definition demo_receipt_body :: receipt_body where
  "demo_receipt_body = \<lparr>gb_bookingId = Some 1, gb_paymentMethod = None, gb_paymentStatus = None\<rparr>"

definition demo_generate :: "rat jsobj response \<times> rat database" where
  "demo_generate =
     receipts_generate demo_extern demo_env demo_db (Some demo_admin) demo_receipt_body"

text \<open>
  The same booking asked for 2024-02-14, the date of the booking that both example
  stores already hold, and the relational backend's answer to it.
\<close>

definition demo_body_same_date :: booking_body where
  "demo_body_same_date = demo_body\<lparr>bb_eventDate := Some ''2024-02-14''\<rparr>"

definition demo_double_booking :: "rat booking_created response \<times> rat database" where
  "demo_double_booking =
     bookings_post demo_extern demo_env demo_db (Some demo_bob) demo_body_same_date"

text \<open>
  In the JSON-file store: booking 1 is cancelled, its date is booked again, and booking 1
  is then confirmed.
\<close>

definition demo_cancelled :: "string response \<times> rat store" where
  "demo_cancelled = server_patch_booking_status demo_env demo_store 1 (Some ''cancelled'')"

definition demo_rebooked :: "rat booking response \<times> rat store" where
  "demo_rebooked = server_post_bookings demo_env (snd demo_cancelled) demo_body_same_date"

definition demo_revived :: "string response \<times> rat store" where
  "demo_revived =
     server_patch_booking_status demo_env (snd demo_rebooked) 1 (Some ''confirmed'')"

text \<open>
  The environment one millisecond later, and the relational backend's answer to a second
  request for a receipt then.
\<close>

definition demo_env_next :: "rat env" where
  "demo_env_next = demo_env\<lparr>now := 1700001000000, iso_now := ''2023-11-14T22:30:00.000Z'',
     sql_now := ''2023-11-14 22:30:00'', rnd := ''P7M2D''\<rparr>"

definition demo_generate_next :: "rat jsobj response \<times> rat database" where
  "demo_generate_next =
     receipts_generate demo_extern demo_env_next (snd demo_generate) (Some demo_admin)
       demo_receipt_body"

text \<open>
  The example booking with an empty list of lines, and the JSON-file store with the
  second menu item marked unavailable.
\<close>

definition demo_body_empty :: booking_body where
  "demo_body_empty = demo_body\<lparr>bb_menuItems := Some []\<rparr>"

definition demo_store_unavailable :: "rat store" where
  "demo_store_unavailable =
     demo_store\<lparr>menu_json :=
       map (\<lambda>m. if m_id m = 2 then m\<lparr>m_isAvailable := False\<rparr> else m) (sampleMenu demo_env)\<rparr>"

text \<open>
  The example booking with a line for item 3, which is unavailable in \<open>demo_db\<close>,
  with a line for item 99, which no catalog holds, and without a list of lines.
\<close>

definition demo_body_unavailable :: booking_body where
  "demo_body_unavailable =
     demo_body\<lparr>bb_menuItems :=
       Some [\<lparr>ln_itemId = 1, ln_quantity = 3\<rparr>, \<lparr>ln_itemId = 3, ln_quantity = 1\<rparr>]\<rparr>"

definition demo_body_unknown :: booking_body where
  "demo_body_unknown =
     demo_body\<lparr>bb_menuItems :=
       Some [\<lparr>ln_itemId = 1, ln_quantity = 3\<rparr>, \<lparr>ln_itemId = 99, ln_quantity = 1\<rparr>]\<rparr>"

definition demo_body_absent :: booking_body where
  "demo_body_absent = demo_body\<lparr>bb_menuItems := None\<rparr>"

text \<open>
  An environment in which the fifth statement of a request fails, and the relational
  backend's answer to the example booking there: with two lines, statements 0 and 1 are
  the SELECTs of the lines, statement 2 is the INSERT of the booking, statements 3 and 4
  are the INSERTs of the lines.
\<close>

definition demo_env_fault :: "rat env" where
  "demo_env_fault = demo_env\<lparr>db_err := (\<lambda>k. k = 4)\<rparr>"

definition demo_partial :: "rat booking_created response \<times> rat database" where
  "demo_partial = bookings_post demo_extern demo_env_fault demo_db (Some demo_bob) demo_body"

text \<open>
  An environment in which the INSERT of the booking (statement 2 of the example request)
  fails, and one in which no file can be written.
\<close>

definition demo_env_insert_fault :: "rat env" where
  "demo_env_insert_fault = demo_env\<lparr>db_err := (\<lambda>k. k = 2)\<rparr>"

definition demo_env_write_fault :: "rat env" where
  "demo_env_write_fault = demo_env\<lparr>write_fails := (\<lambda>f. True)\<rparr>"

text \<open>
  Registrations: one with a new e-mail address, and the same with the address of the
  sample customer of the JSON-file store and with that of the first customer of
  \<open>demo_db\<close>; the user name is new in each.
\<close>

definition demo_register :: register_body where
  "demo_register = \<lparr>rb_username = Some ''jane'', rb_email = Some ''jane@test.com'',
     rb_password = Some ''secret12'', rb_repeatPassword = Some ''secret12'',
     rb_firstName = Some ''Jane'', rb_lastName = Some ''Roe'', rb_phoneNumber = None,
     rb_mobileNumber = None\<rparr>"

definition demo_register_customer :: register_body where
  "demo_register_customer = demo_register\<lparr>rb_email := Some ''customer@test.com''\<rparr>"

definition demo_register_alice :: register_body where
  "demo_register_alice = demo_register\<lparr>rb_email := Some ''alice@test.com''\<rparr>"

text \<open>
  Logins of the sample customer of the JSON-file store and of the first customer of
  \<open>demo_db\<close>, whose password the example \<open>bcrypt_compare\<close> accepts.
\<close>

definition demo_login_customer :: login_body where
  "demo_login_customer = \<lparr>lb_email = Some ''customer@test.com'', lb_password = Some ''customer123''\<rparr>"

definition demo_login_alice :: login_body where
  "demo_login_alice = \<lparr>lb_email = Some ''alice@test.com'', lb_password = Some ''alicehash''\<rparr>"

section \<open>Evaluation of the examples\<close>

lemmas demo_defs =
  demo_env_def demo_extern_def demo_db_def demo_admin_def demo_alice_def demo_bob_def
  demo_body_def demo_store_def demo_booking_def demo_price_change_def
  demo_receipt_body_def demo_generate_def demo_body_same_date_def
  demo_double_booking_def demo_cancelled_def demo_rebooked_def demo_revived_def
  demo_env_next_def demo_generate_next_def
  demo_body_empty_def demo_store_unavailable_def demo_body_unavailable_def
  demo_body_unknown_def demo_body_absent_def demo_env_fault_def demo_partial_def
  demo_env_insert_fault_def demo_env_write_fault_def
  demo_register_def demo_register_customer_def demo_register_alice_def
  demo_login_customer_def demo_login_alice_def
  initializeData_def sampleUsers_def sampleMenu_def

lemmas eval_defs =
  authenticateToken_def requireAdmin_def requireCustomerOrAdmin_def Let_def
  falsy_str_def falsy_num_def or_default_def readData_def writeData_def lastID_def
  show_nat.simps digit_char_def item_row_def split_first_def slice_last_def
  bookings_join_users_def booking_items_join_menu_def

section \<open>Searching a list\<close>

lemma find_SomeD: "find P xs = Some x \<Longrightarrow> x \<in> set xs \<and> P x"
  by (induction xs) (auto split: if_splits)

lemma find_app:
  "find P (xs @ ys) = (case find P xs of None \<Rightarrow> find P ys | Some x \<Rightarrow> Some x)"
  by (induction xs) auto

lemma find_Some_exists: "\<exists>u \<in> set us. P u \<Longrightarrow> find P us \<noteq> None"
  by (auto simp: find_None_iff)

section \<open>What the booking routes do on success\<close>

lemma resolve_items_Inr:
  "resolve_items e menu i ls t0 acc = (Inr (t, vs) :: 'a response + 'n \<times> 'n valid_item list) \<Longrightarrow>
   \<exists>new. vs = acc @ new
     \<and> t = foldl (num_add e) t0 (map vi_totalPrice new)
     \<and> list_all2 (\<lambda>l v. vi_itemId v = ln_itemId l \<and> vi_quantity v = ln_quantity l
           \<and> vi_totalPrice v = num_mul e (vi_unitPrice v) (num_of_int e (vi_quantity v))
           \<and> (\<exists>m. find (\<lambda>m. mi_id m = ln_itemId l \<and> mi_is_available m) menu = Some m
                  \<and> vi_unitPrice v = mi_price_per_serving m)) ls new"
proof (induction ls arbitrary: i t0 acc)
  case Nil
  then show ?case by simp
next
  case (Cons l ls)
  from Cons.prems obtain m where
    ok: "\<not> db_err e i"
    and f: "find (\<lambda>m. mi_id m = ln_itemId l \<and> mi_is_available m) menu = Some m"
    and rest: "resolve_items e menu (Suc i) ls
        (num_add e t0 (num_mul e (mi_price_per_serving m) (num_of_int e (ln_quantity l))))
        (acc @ [\<lparr>vi_itemId = ln_itemId l, vi_quantity = ln_quantity l,
                 vi_unitPrice = mi_price_per_serving m,
                 vi_totalPrice = num_mul e (mi_price_per_serving m)
                                   (num_of_int e (ln_quantity l))\<rparr>])
        = (Inr (t, vs) :: 'a response + 'n \<times> 'n valid_item list)"
    by (auto simp: Let_def split: if_splits option.splits)
  from Cons.IH [OF rest] obtain new where
    n: "vs = (acc @ [\<lparr>vi_itemId = ln_itemId l, vi_quantity = ln_quantity l,
                 vi_unitPrice = mi_price_per_serving m,
                 vi_totalPrice = num_mul e (mi_price_per_serving m)
                                   (num_of_int e (ln_quantity l))\<rparr>]) @ new"
    and s: "t = foldl (num_add e)
                 (num_add e t0 (num_mul e (mi_price_per_serving m) (num_of_int e (ln_quantity l))))
                 (map vi_totalPrice new)"
    and a: "list_all2 (\<lambda>l v. vi_itemId v = ln_itemId l \<and> vi_quantity v = ln_quantity l
           \<and> vi_totalPrice v = num_mul e (vi_unitPrice v) (num_of_int e (vi_quantity v))
           \<and> (\<exists>m. find (\<lambda>m. mi_id m = ln_itemId l \<and> mi_is_available m) menu = Some m
                  \<and> vi_unitPrice v = mi_price_per_serving m)) ls new"
    by blast
  show ?case
    by (rule exI [of _ "\<lparr>vi_itemId = ln_itemId l, vi_quantity = ln_quantity l,
                 vi_unitPrice = mi_price_per_serving m,
                 vi_totalPrice = num_mul e (mi_price_per_serving m)
                                   (num_of_int e (ln_quantity l))\<rparr> # new"])
       (use n s a f in simp)
qed

lemma insert_items_eq:
  "insert_items e k bid vs rows
     = rows @ map (item_row bid) (map snd (filter (\<lambda>(j, v). \<not> db_err e j) (enumerate k vs)))"
  by (induction vs arbitrary: k rows) simp_all

lemma insert_items_all:
  "(\<forall>j < length vs. \<not> db_err e (k + j)) \<Longrightarrow>
   insert_items e k bid vs rows = rows @ map (item_row bid) vs"
proof (induction vs arbitrary: k rows)
  case Nil
  show ?case by simp
next
  case (Cons v vs)
  from Cons.prems have k0: "\<not> db_err e k" by force
  from Cons.prems have "\<forall>j < length vs. \<not> db_err e (Suc k + j)" by force
  from Cons.IH [OF this] k0 show ?case by simp
qed


lemma resolve_items_Inl:
  "resolve_items e menu i ls t0 acc = Inl r \<Longrightarrow>
   r = ErrorJson 500 ''Internal server error'' \<or> (\<exists>msg. r = ErrorJson 400 msg)"
  by (induction ls arbitrary: i t0 acc)
     (auto simp: Let_def split: if_splits option.splits)

lemma bookings_post_Json:
  assumes "bookings_post x (e :: 'n env) db tok body = (Json n bc, db')"
  shows "\<exists>u ls t vs. tok = Some u \<and> bookings_post_valid x body \<and> bb_menuItems body = Some ls
     \<and> resolve_items e (menu_items db) 0 ls (num_of_int e 0) []
          = (Inr (t, vs) :: 'n booking_created response + 'n \<times> 'n valid_item list)
     \<and> \<not> db_err e (length ls) \<and> n = 201
     \<and> bc_id bc = lastID (map bk_id (bookings db))
     \<and> bc_totalAmount bc = t \<and> bc_items bc = vs
     \<and> bookings db' = bookings db @
          [\<lparr>bk_id = bc_id bc, bk_booking_id = bc_bookingId bc, bk_user_id = ru_id u,
            bk_event_type = bc_eventType bc, bk_event_date = bc_eventDate bc,
            bk_event_venue = bc_eventVenue bc, bk_num_guests = bc_numGuests bc,
            bk_special_instructions = or_default (bc_specialInstructions bc) [],
            bk_booking_status = ''pending'', bk_total_amount = t\<rparr>]
     \<and> booking_items db' = insert_items e (Suc (length ls)) (bc_id bc) vs (booking_items db)
     \<and> users db' = users db \<and> menu_items db' = menu_items db \<and> receipts db' = receipts db"
proof -
  from assms obtain u where tok: "tok = Some u"
    by (cases tok) (auto simp: bookings_post_def authenticateToken_def)
  from assms tok have role: "requireCustomerOrAdmin u = (None :: 'n booking_created response option)"
    by (auto simp: bookings_post_def authenticateToken_def requireCustomerOrAdmin_def
          split: if_splits)
  from assms tok role have valid: "bookings_post_valid x body"
    by (auto simp: bookings_post_def authenticateToken_def split: if_splits)
  then obtain ls where ls: "bb_menuItems body = Some ls"
    by (auto simp: bookings_post_valid_def split: option.splits)
  from assms tok role valid ls obtain t vs where
    res: "resolve_items e (menu_items db) 0 ls (num_of_int e 0) []
          = (Inr (t, vs) :: 'n booking_created response + 'n \<times> 'n valid_item list)"
    by (auto simp: bookings_post_def authenticateToken_def Let_def split: sum.splits
          dest: resolve_items_Inl)
  from assms tok role valid ls res have ok: "\<not> db_err e (length ls)"
    by (auto simp: bookings_post_def authenticateToken_def Let_def split: if_splits)
  from assms tok role valid ls res ok show ?thesis
    by (auto simp: bookings_post_def authenticateToken_def Let_def default_booking_status_def)
qed


lemma map_items_Some:
  "map_items e menu ls t0 = Some (t, its) \<Longrightarrow>
   t = foldl (num_add e) t0 (map it_totalPrice its)
   \<and> list_all2 (\<lambda>l it. it_itemId it = ln_itemId l \<and> it_quantity it = ln_quantity l
          \<and> it_totalPrice it = num_mul e (it_unitPrice it) (num_of_int e (it_quantity it))
          \<and> (\<exists>m. find (\<lambda>m. m_id m = ln_itemId l) menu = Some m
                 \<and> it_unitPrice it = m_pricePerServing m
                 \<and> it_itemName it = m_itemName m)) ls its"
proof (induction ls arbitrary: t0 t its)
  case Nil
  then show ?case by simp
next
  case (Cons l ls)
  from Cons.prems obtain m t' its' where
    f: "find (\<lambda>m. m_id m = ln_itemId l) menu = Some m"
    and rest: "map_items e menu ls
        (num_add e t0 (num_mul e (m_pricePerServing m) (num_of_int e (ln_quantity l))))
        = Some (t', its')"
    and t: "t = t'"
    and its: "its = \<lparr>it_itemId = ln_itemId l, it_itemName = m_itemName m,
                      it_quantity = ln_quantity l, it_unitPrice = m_pricePerServing m,
                      it_totalPrice = num_mul e (m_pricePerServing m)
                                        (num_of_int e (ln_quantity l))\<rparr> # its'"
    by (auto simp: Let_def split: option.splits)
  from Cons.IH [OF rest] f t its show ?case by simp
qed

lemma server_post_bookings_Json:
  assumes "server_post_bookings e st body = (Json n b, st')"
  shows "\<exists>ls. n = 201 \<and> bb_menuItems body = Some ls
     \<and> \<not> falsy_str (bb_eventType body) \<and> \<not> falsy_str (bb_eventDate body)
     \<and> \<not> falsy_str (bb_eventVenue body) \<and> \<not> falsy_num (bb_numGuests body)
     \<and> \<not> falsy_str (bb_customerName body) \<and> \<not> falsy_str (bb_customerEmail body)
     \<and> \<not> list_ex (\<lambda>b'. b_eventDate b' = the (bb_eventDate body)
                        \<and> b_bookingStatus b' \<noteq> Some ''cancelled'')
               (readData e ''bookings.json'' (bookings_json st))
     \<and> map_items e (readData e ''menu.json'' (menu_json st)) ls (num_of_int e 0)
          = Some (b_totalAmount b, b_items b)
     \<and> b_bookingStatus b = Some ''pending''
     \<and> b_eventDate b = the (bb_eventDate body)
     \<and> b_id b = int (length (readData e ''bookings.json'' (bookings_json st))) + 1
     \<and> st' = (if writeData e ''bookings.json''
              then st\<lparr>bookings_json := readData e ''bookings.json'' (bookings_json st) @ [b]\<rparr>
              else st)"
  using assms
  by (auto simp: server_post_bookings_def Let_def split: if_splits option.splits)

lemma server_post_bookings_cases:
  "snd (server_post_bookings e st body) = st
   \<or> (\<exists>b. fst (server_post_bookings e st body) = Json 201 b
         \<and> snd (server_post_bookings e st body)
             = st\<lparr>bookings_json := readData e ''bookings.json'' (bookings_json st) @ [b]\<rparr>)"
proof (cases "server_post_bookings e st body")
  case (Pair r st')
  show ?thesis
  proof (cases r)
    case (Json n b)
    from server_post_bookings_Json [OF Pair [unfolded Json]] Pair Json
    show ?thesis by (auto split: if_splits)
  next
    case (ErrorJson n msg)
    with Pair have "st' = st"
      by (auto simp: server_post_bookings_def Let_def split: if_splits option.splits)
    with Pair show ?thesis by simp
  next
    case ValidationErrors
    with Pair have "st' = st"
      by (auto simp: server_post_bookings_def Let_def split: if_splits option.splits)
    with Pair show ?thesis by simp
  next
    case Uncaught
    with Pair have "st' = st"
      by (auto simp: server_post_bookings_def Let_def split: if_splits option.splits)
    with Pair show ?thesis by simp
  qed
qed

lemma bookings_post_not_created:
  assumes "bookings_post x e db tok body = (r, db')" and "\<forall>n bc. r \<noteq> Json n bc"
  shows "db' = db"
proof -
  have "db' = db \<or> (\<exists>n bc. r = Json n bc)"
    using assms(1)
    by (auto simp: bookings_post_def Let_def split: sum.splits option.splits if_splits prod.splits)
  with assms(2) show ?thesis by blast
qed

section \<open>Booking totals\<close>

lemma js_sum_exact:
  assumes "num_add e = (\<lambda>a b. a + b)" and "num_of_int e 0 = 0"
  shows "js_sum e xs = sum_list xs"
proof -
  have "foldl (\<lambda>a b. a + b) a xs = a + sum_list xs" for a :: "'a :: monoid_add"
    by (induction xs arbitrary: a) (simp_all add: add.assoc)
  from this [of 0] assms show ?thesis by (simp add: js_sum_def)
qed

lemma lastID_above: "i \<in> set ids \<Longrightarrow> i < lastID ids"
  unfolding lastID_def by (induction ids) auto

lemma enumerate_all_kept:
  "(\<forall>j < length vs. \<not> db_err e (k + j)) \<Longrightarrow>
   map snd (filter (\<lambda>(j, v). \<not> db_err e j) (enumerate k vs)) = vs"
proof (induction vs arbitrary: k)
  case Nil
  show ?case by simp
next
  case (Cons v vs)
  from Cons.prems have k0: "\<not> db_err e k" by force
  from Cons.prems have "\<forall>j < length vs. \<not> db_err e (Suc k + j)" by force
  from Cons.IH [OF this] k0 show ?case by simp
qed

lemma kept_subset:
  "set (map snd (filter P (enumerate k vs))) \<subseteq> set vs"
  by (auto simp: in_set_enumerate_eq)

text \<open>
  C1 (as stated): for every successfully created booking the total of the booking is the
  sum over its lines of unit price times quantity, and every persisted line carries its
  unit price times its quantity. Read of the rows that are persisted, this fails in the
  relational backend: the booking row is written with the total of all requested lines,
  and the line rows are written afterwards, each by a statement whose failure nobody
  looks at. When the INSERT of the second line of the example booking fails, the answer
  is 201 with the total 350 and the two lines 300 and 50, the stored booking has the
  total 350, and its only stored line has the total 300.
\<close>

theorem C1_stored_total_without_its_lines:
  "status (fst demo_partial) = 201
   \<and> map_option bc_totalAmount (payload (fst demo_partial)) = Some 350
   \<and> map_option (\<lambda>bc. map vi_totalPrice (bc_items bc)) (payload (fst demo_partial))
       = Some [300, 50]
   \<and> map bk_total_amount (filter (\<lambda>row. bk_id row = 2) (bookings (snd demo_partial))) = [350]
   \<and> map (\<lambda>row. (bi_item_id row, bi_quantity row, bi_unit_price row, bi_total_price row))
         (filter (\<lambda>row. bi_booking_id row = 2) (booking_items (snd demo_partial)))
       = [(1, 3, 100, 300)]
   \<and> js_sum demo_env
         (map bi_total_price
            (filter (\<lambda>row. bi_booking_id row = 2) (booking_items (snd demo_partial)))) = 300"
  by (simp add: bookings_post_def bookings_post_valid_def js_sum_def demo_defs eval_defs)

text \<open>
  C1 (amended): amounts are JavaScript numbers, and what holds is stated for the
  arithmetic of the engine (\<open>num_mul\<close>, \<open>num_add\<close>), of which nothing is assumed, so that
  it holds with the rounding of doubles: "the sum" is \<open>js_sum\<close>, the additions from zero
  in the order of the lines, which is the exact sum when the arithmetic is exact
  (\<open>js_sum_exact\<close>).

  Relational backend, for every booking that is answered with 201: the total of the
  answer is the \<open>js_sum\<close> of the line totals of the answer; line by line, the answer has
  the item and quantity of the request, as unit price the price that the catalog holds
  for the available item at the time of the request, and as line total the product of
  that unit price and the quantity; the booking row that is appended stores that total;
  the line rows that are appended are, in order, one row for each line whose INSERT did
  not fail, holding the new booking's id and the item, quantity, unit price and line
  total of the line, so that every appended row stores the product of its unit price and
  its quantity and a unit price taken from the catalog. Only when no line INSERT fails
  (and no earlier row refers to a booking that does not exist) do the stored lines of
  the booking add up to the stored total. The stored values are copies: the route that
  changes a catalog price, \<open>PUT /menu/:id\<close>, leaves \<open>bookings\<close> and \<open>booking_items\<close> as
  they are.

  JSON-file backend, for every booking that is answered with 201: the same holds of the
  total and the lines of the booking object, with the price of the first menu entry
  that has the line's item id, available or not; the object is appended to the bookings
  file with its lines inside, unless the file cannot be written. No route writes the
  menu file, and whatever the menu file becomes, reading a booking and generating its
  receipt answer the same.
\<close>

theorem C1_booking_totals:
  "(bookings_post x (e :: 'n env) db tok body = (Json n bc, db') \<longrightarrow>
      bc_totalAmount bc = js_sum e (map vi_totalPrice (bc_items bc))
    \<and> list_all2 (\<lambda>l v. vi_itemId v = ln_itemId l \<and> vi_quantity v = ln_quantity l
          \<and> vi_totalPrice v = num_mul e (vi_unitPrice v) (num_of_int e (vi_quantity v))
          \<and> (\<exists>m. find (\<lambda>m. mi_id m = ln_itemId l \<and> mi_is_available m) (menu_items db) = Some m
                 \<and> vi_unitPrice v = mi_price_per_serving m))
        (the (bb_menuItems body)) (bc_items bc)
    \<and> (\<exists>row. bookings db' = bookings db @ [row] \<and> bk_id row = bc_id bc
           \<and> bk_total_amount row = bc_totalAmount bc)
    \<and> booking_items db' = booking_items db @
         map (\<lambda>v. \<lparr>bi_booking_id = bc_id bc, bi_item_id = vi_itemId v,
                    bi_quantity = vi_quantity v, bi_unit_price = vi_unitPrice v,
                    bi_total_price = vi_totalPrice v\<rparr>)
           (map snd (filter (\<lambda>(j, v). \<not> db_err e j)
                       (enumerate (Suc (length (bc_items bc))) (bc_items bc))))
    \<and> (\<forall>row \<in> set (drop (length (booking_items db)) (booking_items db')).
          bi_booking_id row = bc_id bc
        \<and> bi_total_price row = num_mul e (bi_unit_price row) (num_of_int e (bi_quantity row))
        \<and> (\<exists>m. find (\<lambda>m. mi_id m = bi_item_id row \<and> mi_is_available m) (menu_items db)
                  = Some m
               \<and> bi_unit_price row = mi_price_per_serving m))
    \<and> ((\<forall>j < length (bc_items bc). \<not> db_err e (Suc (length (bc_items bc)) + j))
        \<and> (\<forall>row \<in> set (booking_items db). bi_booking_id row \<in> set (map bk_id (bookings db)))
       \<longrightarrow> map (\<lambda>row. (bi_item_id row, bi_quantity row, bi_unit_price row, bi_total_price row))
              (filter (\<lambda>row. bi_booking_id row = bc_id bc) (booking_items db'))
            = map (\<lambda>v. (vi_itemId v, vi_quantity v, vi_unitPrice v, vi_totalPrice v))
                (bc_items bc)
         \<and> map bk_total_amount (filter (\<lambda>row. bk_id row = bc_id bc) (bookings db'))
            = [js_sum e (map bi_total_price
                  (filter (\<lambda>row. bi_booking_id row = bc_id bc) (booking_items db')))]))
   \<and> (menu_put x e db tok' itemId mb = (r, db'') \<longrightarrow>
         bookings db'' = bookings db \<and> booking_items db'' = booking_items db)
   \<and> (server_post_bookings e st body = (Json n b, st') \<longrightarrow>
         b_totalAmount b = js_sum e (map it_totalPrice (b_items b))
       \<and> list_all2 (\<lambda>l it. it_itemId it = ln_itemId l \<and> it_quantity it = ln_quantity l
             \<and> it_totalPrice it = num_mul e (it_unitPrice it) (num_of_int e (it_quantity it))
             \<and> (\<exists>m. find (\<lambda>m. m_id m = ln_itemId l) (readData e ''menu.json'' (menu_json st))
                      = Some m
                    \<and> it_unitPrice it = m_pricePerServing m))
           (the (bb_menuItems body)) (b_items b)
       \<and> st' = (if writeData e ''bookings.json''
                then st\<lparr>bookings_json := readData e ''bookings.json'' (bookings_json st) @ [b]\<rparr>
                else st))
   \<and> server_get_booking e (st\<lparr>menu_json := menu'\<rparr>) ident = server_get_booking e st ident
   \<and> fst (server_receipts_generate e (st\<lparr>menu_json := menu'\<rparr>) rb)
       = fst (server_receipts_generate e st rb)"
proof (intro conjI impI)
  assume a: "bookings_post x e db tok body = (Json n bc, db')"
  from bookings_post_Json [OF a] obtain u :: req_user and ls t vs where
    ls: "bb_menuItems body = Some ls"
    and res: "resolve_items e (menu_items db) 0 ls (num_of_int e 0) []
          = (Inr (t, vs) :: 'n booking_created response + 'n \<times> 'n valid_item list)"
    and t: "bc_totalAmount bc = t" and vs: "bc_items bc = vs"
    and fresh: "bc_id bc = lastID (map bk_id (bookings db))"
    and bk: "bookings db' = bookings db @
          [\<lparr>bk_id = bc_id bc, bk_booking_id = bc_bookingId bc, bk_user_id = ru_id u,
            bk_event_type = bc_eventType bc, bk_event_date = bc_eventDate bc,
            bk_event_venue = bc_eventVenue bc, bk_num_guests = bc_numGuests bc,
            bk_special_instructions = or_default (bc_specialInstructions bc) [],
            bk_booking_status = ''pending'', bk_total_amount = t\<rparr>]"
    and bi: "booking_items db'
          = insert_items e (Suc (length ls)) (bc_id bc) vs (booking_items db)"
    by blast
  let ?row = "\<lambda>v. \<lparr>bi_booking_id = bc_id bc, bi_item_id = vi_itemId v,
                    bi_quantity = vi_quantity v, bi_unit_price = vi_unitPrice v,
                    bi_total_price = vi_totalPrice v\<rparr>"
  let ?kept = "map snd (filter (\<lambda>(j, v). \<not> db_err e j) (enumerate (Suc (length vs)) vs))"
  from resolve_items_Inr [OF res] have
    sum: "t = foldl (num_add e) (num_of_int e 0) (map vi_totalPrice vs)"
    and all: "list_all2 (\<lambda>l v. vi_itemId v = ln_itemId l \<and> vi_quantity v = ln_quantity l
          \<and> vi_totalPrice v = num_mul e (vi_unitPrice v) (num_of_int e (vi_quantity v))
          \<and> (\<exists>m. find (\<lambda>m. mi_id m = ln_itemId l \<and> mi_is_available m) (menu_items db) = Some m
                 \<and> vi_unitPrice v = mi_price_per_serving m)) ls vs"
    by auto
  from all have len: "length ls = length vs" by (rule list_all2_lengthD)
  have rows: "booking_items db' = booking_items db @ map ?row ?kept"
    unfolding bi insert_items_eq len by (simp add: item_row_def comp_def)
  from all have each: "\<forall>v \<in> set vs.
      vi_totalPrice v = num_mul e (vi_unitPrice v) (num_of_int e (vi_quantity v))
      \<and> (\<exists>m. find (\<lambda>m. mi_id m = vi_itemId v \<and> mi_is_available m) (menu_items db) = Some m
             \<and> vi_unitPrice v = mi_price_per_serving m)"
    by (auto simp: list_all2_conv_all_nth in_set_conv_nth)
  show "bc_totalAmount bc = js_sum e (map vi_totalPrice (bc_items bc))"
    using sum t vs by (simp add: js_sum_def)
  show "list_all2 (\<lambda>l v. vi_itemId v = ln_itemId l \<and> vi_quantity v = ln_quantity l
          \<and> vi_totalPrice v = num_mul e (vi_unitPrice v) (num_of_int e (vi_quantity v))
          \<and> (\<exists>m. find (\<lambda>m. mi_id m = ln_itemId l \<and> mi_is_available m) (menu_items db) = Some m
                 \<and> vi_unitPrice v = mi_price_per_serving m))
        (the (bb_menuItems body)) (bc_items bc)"
    using all ls vs by simp
  show "\<exists>row. bookings db' = bookings db @ [row] \<and> bk_id row = bc_id bc
           \<and> bk_total_amount row = bc_totalAmount bc"
    using bk t by simp
  show "booking_items db' = booking_items db @
         map ?row (map snd (filter (\<lambda>(j, v). \<not> db_err e j)
                       (enumerate (Suc (length (bc_items bc))) (bc_items bc))))"
    using rows vs by simp
  show "\<forall>row \<in> set (drop (length (booking_items db)) (booking_items db')).
          bi_booking_id row = bc_id bc
        \<and> bi_total_price row = num_mul e (bi_unit_price row) (num_of_int e (bi_quantity row))
        \<and> (\<exists>m. find (\<lambda>m. mi_id m = bi_item_id row \<and> mi_is_available m) (menu_items db)
                  = Some m
               \<and> bi_unit_price row = mi_price_per_serving m)"
  proof
    fix row
    assume "row \<in> set (drop (length (booking_items db)) (booking_items db'))"
    then have "row \<in> set (map ?row ?kept)" by (simp add: rows)
    then obtain v where v: "v \<in> set ?kept" and row: "row = ?row v" by auto
    from v kept_subset [of "\<lambda>(j, v). \<not> db_err e j" "Suc (length vs)" vs] have "v \<in> set vs"
      by blast
    with each row show "bi_booking_id row = bc_id bc
        \<and> bi_total_price row = num_mul e (bi_unit_price row) (num_of_int e (bi_quantity row))
        \<and> (\<exists>m. find (\<lambda>m. mi_id m = bi_item_id row \<and> mi_is_available m) (menu_items db)
                  = Some m
               \<and> bi_unit_price row = mi_price_per_serving m)"
      by simp
  qed
  assume q: "(\<forall>j < length (bc_items bc). \<not> db_err e (Suc (length (bc_items bc)) + j))
        \<and> (\<forall>row \<in> set (booking_items db). bi_booking_id row \<in> set (map bk_id (bookings db)))"
  then have "\<forall>j < length vs. \<not> db_err e (Suc (length vs) + j)" using vs by simp
  from enumerate_all_kept [OF this] have kept: "?kept = vs" .
  have old_items: "filter (\<lambda>row. bi_booking_id row = bc_id bc) (booking_items db) = []"
  proof -
    have "bi_booking_id row \<noteq> bc_id bc" if "row \<in> set (booking_items db)" for row
    proof -
      from q that have "bi_booking_id row \<in> set (map bk_id (bookings db))" by blast
      from lastID_above [OF this] fresh show ?thesis by simp
    qed
    then show ?thesis by (simp add: filter_empty_conv)
  qed
  have old_bookings: "filter (\<lambda>row. bk_id row = bc_id bc) (bookings db) = []"
  proof -
    have "bk_id row \<noteq> bc_id bc" if "row \<in> set (bookings db)" for row
    proof -
      from that have "bk_id row \<in> set (map bk_id (bookings db))" by simp
      from lastID_above [OF this] fresh show ?thesis by simp
    qed
    then show ?thesis by (simp add: filter_empty_conv)
  qed
  have new_items: "filter (\<lambda>row. bi_booking_id row = bc_id bc) (booking_items db')
      = map ?row vs"
    unfolding rows kept by (simp add: old_items filter_map comp_def)
  show "map (\<lambda>row. (bi_item_id row, bi_quantity row, bi_unit_price row, bi_total_price row))
              (filter (\<lambda>row. bi_booking_id row = bc_id bc) (booking_items db'))
            = map (\<lambda>v. (vi_itemId v, vi_quantity v, vi_unitPrice v, vi_totalPrice v))
                (bc_items bc)"
    unfolding new_items vs by (simp add: comp_def)
  show "map bk_total_amount (filter (\<lambda>row. bk_id row = bc_id bc) (bookings db'))
            = [js_sum e (map bi_total_price
                  (filter (\<lambda>row. bi_booking_id row = bc_id bc) (booking_items db')))]"
    unfolding new_items bk by (simp add: old_bookings js_sum_def sum comp_def)
next
  assume "menu_put x e db tok' itemId mb = (r, db'')"
  then show "bookings db'' = bookings db" and "booking_items db'' = booking_items db"
    by (auto simp: menu_put_def split: sum.splits option.splits if_splits)
next
  assume a: "server_post_bookings e st body = (Json n b, st')"
  from server_post_bookings_Json [OF a] obtain ls where
    ls: "bb_menuItems body = Some ls"
    and m: "map_items e (readData e ''menu.json'' (menu_json st)) ls (num_of_int e 0)
          = Some (b_totalAmount b, b_items b)"
    and st': "st' = (if writeData e ''bookings.json''
              then st\<lparr>bookings_json := readData e ''bookings.json'' (bookings_json st) @ [b]\<rparr>
              else st)"
    by blast
  from map_items_Some [OF m]
  show "b_totalAmount b = js_sum e (map it_totalPrice (b_items b))"
    by (simp add: js_sum_def)
  from map_items_Some [OF m] ls
  show "list_all2 (\<lambda>l it. it_itemId it = ln_itemId l \<and> it_quantity it = ln_quantity l
             \<and> it_totalPrice it = num_mul e (it_unitPrice it) (num_of_int e (it_quantity it))
             \<and> (\<exists>m. find (\<lambda>m. m_id m = ln_itemId l) (readData e ''menu.json'' (menu_json st))
                      = Some m
                    \<and> it_unitPrice it = m_pricePerServing m))
           (the (bb_menuItems body)) (b_items b)"
    by (auto elim!: list_all2_mono)
  show "st' = (if writeData e ''bookings.json''
                then st\<lparr>bookings_json := readData e ''bookings.json'' (bookings_json st) @ [b]\<rparr>
                else st)"
    by (rule st')
next
  show "server_get_booking e (st\<lparr>menu_json := menu'\<rparr>) ident = server_get_booking e st ident"
    by (simp add: server_get_booking_def)
  show "fst (server_receipts_generate e (st\<lparr>menu_json := menu'\<rparr>) rb)
       = fst (server_receipts_generate e st rb)"
    by (simp add: server_receipts_generate_def Let_def split: option.splits)
qed

theorem C1_booking_totals_witness:
  "(\<exists>bc db'. bookings_post demo_extern demo_env demo_db (Some demo_bob) demo_body
        = (Json 201 bc, db')
      \<and> bc_totalAmount bc = 350
      \<and> bc_totalAmount bc = js_sum demo_env (map vi_totalPrice (bc_items bc))
      \<and> map (\<lambda>v. (vi_itemId v, vi_quantity v, vi_unitPrice v, vi_totalPrice v)) (bc_items bc)
          = [(1, 3, 100, 300), (2, 1, 50, 50)]
      \<and> map (\<lambda>row. (bi_item_id row, bi_quantity row, bi_unit_price row, bi_total_price row))
            (filter (\<lambda>row. bi_booking_id row = bc_id bc) (booking_items db'))
          = [(1, 3, 100, 300), (2, 1, 50, 50)]
      \<and> map bk_total_amount (filter (\<lambda>row. bk_id row = bc_id bc) (bookings db')) = [350]
      \<and> (\<exists>r db''. menu_put demo_extern demo_env db' (Some demo_admin) 1 demo_price_change
              = (r, db'')
            \<and> status r = 200
            \<and> map mi_price_per_serving (menu_items db'') = [120, 50, 150]
            \<and> bookings db'' = bookings db' \<and> booking_items db'' = booking_items db'))
   \<and> (\<exists>b st'. server_post_bookings demo_env demo_store demo_body = (Json 201 b, st')
      \<and> b_totalAmount b = 1850
      \<and> b_totalAmount b = js_sum demo_env (map it_totalPrice (b_items b))
      \<and> map (\<lambda>it. (it_itemId it, it_quantity it, it_unitPrice it, it_totalPrice it)) (b_items b)
          = [(1, 3, 500, 1500), (2, 1, 350, 350)]
      \<and> bookings_json st' = bookings_json demo_store @ [b]
      \<and> server_get_booking demo_env (st'\<lparr>menu_json := []\<rparr>) 2 = Json 200 b)
   \<and> (\<exists>bc db'. bookings_post demo_extern demo_env_fault demo_db (Some demo_bob) demo_body
        = (Json 201 bc, db')
      \<and> booking_items db' = booking_items demo_db @
            [\<lparr>bi_booking_id = 2, bi_item_id = 1, bi_quantity = 3, bi_unit_price = 100,
              bi_total_price = 300\<rparr>])"
proof -
  have "\<exists>bc db'. bookings_post demo_extern demo_env demo_db (Some demo_bob) demo_body
        = (Json 201 bc, db') \<and> bc_totalAmount bc = 350
      \<and> map (\<lambda>v. (vi_itemId v, vi_quantity v, vi_unitPrice v, vi_totalPrice v)) (bc_items bc)
          = [(1, 3, 100, 300), (2, 1, 50, 50)]"
    by (simp add: bookings_post_def bookings_post_valid_def demo_defs eval_defs)
  then obtain bc :: "rat booking_created" and db' :: "rat database" where
    p: "bookings_post demo_extern demo_env demo_db (Some demo_bob) demo_body = (Json 201 bc, db')"
    and t: "bc_totalAmount bc = 350"
    and its: "map (\<lambda>v. (vi_itemId v, vi_quantity v, vi_unitPrice v, vi_totalPrice v))
                (bc_items bc) = [(1, 3, 100, 300), (2, 1, 50, 50)]"
    by (elim exE conjE) (rule that, assumption+)
  have quiet: "\<forall>j < length (bc_items bc). \<not> db_err demo_env (Suc (length (bc_items bc)) + j)"
    by (simp add: demo_env_def)
  have refs: "\<forall>row \<in> set (booking_items demo_db).
      bi_booking_id row \<in> set (map bk_id (bookings demo_db))"
    by (simp add: demo_db_def)
  have m: "menu_items db' = menu_items demo_db"
    using bookings_post_Json [OF p] by blast
  have "\<exists>r db''. menu_put demo_extern demo_env db' (Some demo_admin) 1 demo_price_change
              = (r, db'') \<and> status r = 200
            \<and> map mi_price_per_serving (menu_items db'') = [120, 50, 150]"
    by (simp add: menu_put_def menu_put_valid_def menu_put_row_def m demo_defs eval_defs)
  then obtain r :: "string response" and db'' :: "rat database" where
    q: "menu_put demo_extern demo_env db' (Some demo_admin) 1 demo_price_change = (r, db'')"
    and r: "status r = 200"
    and pr: "map mi_price_per_serving (menu_items db'') = [120, 50, 150]"
    by (elim exE conjE) (rule that, assumption+)
  have "\<exists>b st'. server_post_bookings demo_env demo_store demo_body = (Json 201 b, st')
      \<and> b_totalAmount b = 1850
      \<and> map (\<lambda>it. (it_itemId it, it_quantity it, it_unitPrice it, it_totalPrice it)) (b_items b)
          = [(1, 3, 500, 1500), (2, 1, 350, 350)]
      \<and> bookings_json st' = bookings_json demo_store @ [b]
      \<and> server_get_booking demo_env st' 2 = Json 200 b"
    by (simp add: server_post_bookings_def server_get_booking_def demo_defs eval_defs)
  then obtain b :: "rat booking" and st' :: "rat store" where
    j: "server_post_bookings demo_env demo_store demo_body = (Json 201 b, st')"
    and jt: "b_totalAmount b = 1850"
    and jits: "map (\<lambda>it. (it_itemId it, it_quantity it, it_unitPrice it, it_totalPrice it))
                 (b_items b) = [(1, 3, 500, 1500), (2, 1, 350, 350)]"
    and js: "bookings_json st' = bookings_json demo_store @ [b]"
    and jg: "server_get_booking demo_env st' 2 = Json 200 b"
    by (elim exE conjE) (rule that, assumption+)
  note rel = C1_booking_totals [where x = demo_extern and e = demo_env and db = demo_db
      and tok = "Some demo_bob" and body = demo_body and n = 201 and bc = bc and db' = db',
      THEN conjunct1, rule_format, OF p]
  note frame = C1_booking_totals [where x = demo_extern and e = demo_env and db = db'
      and tok' = "Some demo_admin" and itemId = 1 and mb = demo_price_change
      and r = r and db'' = db'', THEN conjunct2, THEN conjunct1, rule_format, OF q]
  note json = C1_booking_totals [where e = demo_env and st = demo_store and body = demo_body
      and n = 201 and b = b and st' = st',
      THEN conjunct2, THEN conjunct2, THEN conjunct1, rule_format, OF j]
  note indep = C1_booking_totals [where e = demo_env and st = st' and menu' = "[]"
      and ident = 2, THEN conjunct2, THEN conjunct2, THEN conjunct2, THEN conjunct1]
  from rel have
    r1: "bc_totalAmount bc = js_sum demo_env (map vi_totalPrice (bc_items bc))"
    by blast
  from rel quiet refs have
    r2: "map (\<lambda>row. (bi_item_id row, bi_quantity row, bi_unit_price row, bi_total_price row))
            (filter (\<lambda>row. bi_booking_id row = bc_id bc) (booking_items db'))
          = map (\<lambda>v. (vi_itemId v, vi_quantity v, vi_unitPrice v, vi_totalPrice v)) (bc_items bc)"
    and r3: "map bk_total_amount (filter (\<lambda>row. bk_id row = bc_id bc) (bookings db'))
          = [js_sum demo_env (map bi_total_price
                (filter (\<lambda>row. bi_booking_id row = bc_id bc) (booking_items db')))]"
    by blast+
  from r2 its have
    r2': "map (\<lambda>row. (bi_item_id row, bi_quantity row, bi_unit_price row, bi_total_price row))
            (filter (\<lambda>row. bi_booking_id row = bc_id bc) (booking_items db'))
          = [(1, 3, 100, 300), (2, 1, 50, 50)]"
    by simp
  from r2' have "map bi_total_price
      (filter (\<lambda>row. bi_booking_id row = bc_id bc) (booking_items db')) = [300, 50]"
    by (auto simp: map_eq_Cons_conv)
  with r3 have
    r3': "map bk_total_amount (filter (\<lambda>row. bk_id row = bc_id bc) (bookings db')) = [350]"
    by (simp add: js_sum_def demo_env_def)
  from json have
    j1: "b_totalAmount b = js_sum demo_env (map it_totalPrice (b_items b))"
    by blast
  from indep jg have
    j2: "server_get_booking demo_env (st'\<lparr>menu_json := []\<rparr>) 2 = Json 200 b"
    by simp
  from frame have f1: "bookings db'' = bookings db'" and f2: "booking_items db'' = booking_items db'"
    by simp_all
  have inner: "\<exists>r db''. menu_put demo_extern demo_env db' (Some demo_admin) 1 demo_price_change
              = (r, db'')
            \<and> status r = 200
            \<and> map mi_price_per_serving (menu_items db'') = [120, 50, 150]
            \<and> bookings db'' = bookings db' \<and> booking_items db'' = booking_items db'"
    by (intro exI [of _ r] exI [of _ db''] conjI q r pr f1 f2)
  have first: "\<exists>bc db'. bookings_post demo_extern demo_env demo_db (Some demo_bob) demo_body
        = (Json 201 bc, db')
      \<and> bc_totalAmount bc = 350
      \<and> bc_totalAmount bc = js_sum demo_env (map vi_totalPrice (bc_items bc))
      \<and> map (\<lambda>v. (vi_itemId v, vi_quantity v, vi_unitPrice v, vi_totalPrice v)) (bc_items bc)
          = [(1, 3, 100, 300), (2, 1, 50, 50)]
      \<and> map (\<lambda>row. (bi_item_id row, bi_quantity row, bi_unit_price row, bi_total_price row))
            (filter (\<lambda>row. bi_booking_id row = bc_id bc) (booking_items db'))
          = [(1, 3, 100, 300), (2, 1, 50, 50)]
      \<and> map bk_total_amount (filter (\<lambda>row. bk_id row = bc_id bc) (bookings db')) = [350]
      \<and> (\<exists>r db''. menu_put demo_extern demo_env db' (Some demo_admin) 1 demo_price_change
              = (r, db'')
            \<and> status r = 200
            \<and> map mi_price_per_serving (menu_items db'') = [120, 50, 150]
            \<and> bookings db'' = bookings db' \<and> booking_items db'' = booking_items db')"
    by (intro exI [of _ bc] exI [of _ db'] conjI p t r1 its r2' r3' inner)
  have second: "\<exists>b st'. server_post_bookings demo_env demo_store demo_body = (Json 201 b, st')
      \<and> b_totalAmount b = 1850
      \<and> b_totalAmount b = js_sum demo_env (map it_totalPrice (b_items b))
      \<and> map (\<lambda>it. (it_itemId it, it_quantity it, it_unitPrice it, it_totalPrice it)) (b_items b)
          = [(1, 3, 500, 1500), (2, 1, 350, 350)]
      \<and> bookings_json st' = bookings_json demo_store @ [b]
      \<and> server_get_booking demo_env (st'\<lparr>menu_json := []\<rparr>) 2 = Json 200 b"
    by (intro exI [of _ b] exI [of _ st'] conjI j jt j1 jits js j2)
  have "\<exists>bc db'. bookings_post demo_extern demo_env_fault demo_db (Some demo_bob) demo_body
        = (Json 201 bc, db') \<and> bc_id bc = 2
      \<and> bc_items bc = [\<lparr>vi_itemId = 1, vi_quantity = 3, vi_unitPrice = 100, vi_totalPrice = 300\<rparr>,
                        \<lparr>vi_itemId = 2, vi_quantity = 1, vi_unitPrice = 50, vi_totalPrice = 50\<rparr>]"
    by (simp add: bookings_post_def bookings_post_valid_def demo_defs eval_defs)
  then obtain bcf :: "rat booking_created" and dbf :: "rat database" where
    pf: "bookings_post demo_extern demo_env_fault demo_db (Some demo_bob) demo_body
        = (Json 201 bcf, dbf)"
    and idf: "bc_id bcf = 2"
    and itf: "bc_items bcf
        = [\<lparr>vi_itemId = 1, vi_quantity = 3, vi_unitPrice = 100, vi_totalPrice = 300\<rparr>,
           \<lparr>vi_itemId = 2, vi_quantity = 1, vi_unitPrice = 50, vi_totalPrice = 50\<rparr>]"
    by (elim exE conjE) (rule that, assumption+)
  note fault = C1_booking_totals [where x = demo_extern and e = demo_env_fault and db = demo_db
      and tok = "Some demo_bob" and body = demo_body and n = 201 and bc = bcf and db' = dbf,
      THEN conjunct1, rule_format, OF pf]
  from fault have "booking_items dbf = booking_items demo_db @
         map (\<lambda>v. \<lparr>bi_booking_id = bc_id bcf, bi_item_id = vi_itemId v,
                    bi_quantity = vi_quantity v, bi_unit_price = vi_unitPrice v,
                    bi_total_price = vi_totalPrice v\<rparr>)
           (map snd (filter (\<lambda>(j, v). \<not> db_err demo_env_fault j)
                       (enumerate (Suc (length (bc_items bcf))) (bc_items bcf))))"
    by blast
  then have lost: "booking_items dbf = booking_items demo_db @
            [\<lparr>bi_booking_id = 2, bi_item_id = 1, bi_quantity = 3, bi_unit_price = 100,
              bi_total_price = 300\<rparr>]"
    by (simp add: idf itf demo_env_fault_def)
  have third: "\<exists>bc db'. bookings_post demo_extern demo_env_fault demo_db (Some demo_bob) demo_body
        = (Json 201 bc, db')
      \<and> booking_items db' = booking_items demo_db @
            [\<lparr>bi_booking_id = 2, bi_item_id = 1, bi_quantity = 3, bi_unit_price = 100,
              bi_total_price = 300\<rparr>]"
    by (intro exI [of _ bcf] exI [of _ dbf] conjI pf lost)
  from first second third show ?thesis by (intro conjI)
qed

section \<open>Receipt amounts\<close>

text \<open>
  The JSON-file backend does what the specification says of receipt generation: the
  receipt it answers with and stores has the booking's total as subtotal, the product of
  the subtotal and \<open>0.12\<close> as tax amount and the sum of the two as total, each computed
  by the arithmetic of the engine, whatever else the request and the store hold. For the
  subtotal 1000 the amounts are 120 and 1120.
\<close>

lemma server_receipts_generate_amounts:
  assumes "server_receipts_generate (e :: 'n env) st body = (Json n r, st')"
  shows "\<exists>booking. find (\<lambda>b. Some (b_id b) = gb_bookingId body)
                       (readData e ''bookings.json'' (bookings_json st)) = Some booking
     \<and> n = 201
     \<and> r_subtotal r = b_totalAmount booking
     \<and> r_taxRate r = num_0_12 e
     \<and> r_taxAmount r = num_mul e (b_totalAmount booking) (num_0_12 e)
     \<and> r_totalAmount r = num_add e (r_subtotal r) (r_taxAmount r)
     \<and> (st' = st \<or> receipts_json st'
           = readData e ''receipts.json'' (receipts_json st) @ [r])"
  using assms
  by (auto simp: server_receipts_generate_def Let_def split: option.splits if_splits)

lemma server_receipts_generate_1000:
  "\<exists>r st'. server_receipts_generate demo_env demo_store demo_receipt_body = (Json 201 r, st')
     \<and> r_subtotal r = 1000 \<and> r_taxAmount r = 120 \<and> r_totalAmount r = 1120
     \<and> receipts_json st' = [r]"
  by (simp add: server_receipts_generate_def demo_defs eval_defs)

text \<open>
  The relational backend computes the same three amounts, but the receipt it produces
  never carries the tax amount: the answer has no \<open>taxAmount\<close> property, and the INSERT
  binds eight values to ten columns, so that \<open>tax_rate\<close> receives the total,
  \<open>tax_amount\<close> the payment method and \<open>total_amount\<close> the payment status.
\<close>

lemma receipts_generate_Json:
  assumes "receipts_generate x (e :: 'n env) db tok b = (Json n rcpt, db')"
  shows "map_of rcpt ''taxAmount'' = None
     \<and> (\<exists>row. receipts db' = receipts db @ [row]
           \<and> column row ''tax_rate'' = map_of rcpt ''totalAmount''
           \<and> column row ''tax_amount'' = map_of rcpt ''paymentMethod''
           \<and> (\<exists>method. map_of rcpt ''paymentMethod'' = Some (JStr method)))"
proof -
  from assms obtain u :: req_user where tok: "tok = Some u"
    by (cases tok) (auto simp: receipts_generate_def authenticateToken_def)
  from assms tok have role: "requireCustomerOrAdmin u = (None :: 'n jsobj response option)"
    by (auto simp: receipts_generate_def authenticateToken_def requireCustomerOrAdmin_def
          split: if_splits)
  from assms tok role have valid: "receipts_generate_valid b" and e0: "\<not> db_err e 0"
    by (auto simp: receipts_generate_def authenticateToken_def Let_def split: if_splits)
  from assms tok role valid e0 obtain booking owner where
    f: "find (\<lambda>(bk, owner). bk_id bk = the (gb_bookingId b)) (bookings_join_users db)
          = Some (booking, owner)"
    by (auto simp: receipts_generate_def authenticateToken_def Let_def split: option.splits)
  from assms tok role valid e0 f have
    acc: "\<not> (ru_userType u \<noteq> ''admin'' \<and> bk_user_id booking \<noteq> ru_id u)"
    by (auto simp: receipts_generate_def authenticateToken_def Let_def split: if_splits)
  from assms tok role valid e0 f acc have e1: "\<not> db_err e 1"
    by (auto simp: receipts_generate_def authenticateToken_def Let_def split: if_splits)
  from assms tok role valid e0 f acc e1 have e2: "\<not> db_err e 2"
    by (auto simp: receipts_generate_def authenticateToken_def Let_def split: if_splits)
  from assms tok role valid e0 f acc e1 e2 show ?thesis
    by (auto simp: receipts_generate_def authenticateToken_def Let_def
          bind_columns_def column_def)
qed

lemma demo_generate_eval:
  "\<exists>rcpt row. demo_generate = (Json 201 rcpt, demo_db\<lparr>receipts := [row]\<rparr>)
     \<and> map_of rcpt ''subtotal'' = Some (JNum 1000)
     \<and> map_of rcpt ''totalAmount'' = Some (JNum 1120)
     \<and> map_of rcpt ''taxAmount'' = None
     \<and> column row ''subtotal'' = Some (JNum 1000)
     \<and> column row ''tax_rate'' = Some (JNum 1120)
     \<and> column row ''tax_amount'' = Some (JStr ''Cash/Card'')
     \<and> column row ''total_amount'' = Some (JStr ''pending'')
     \<and> column row ''payment_method'' = Some (JStr ''2023-11-14'')
     \<and> column row ''payment_status'' = Some JNull
     \<and> column row ''issued_date'' = Some JNull"
  by (simp add: receipts_generate_def receipts_generate_valid_def bind_columns_def column_def
        demo_defs eval_defs)

text \<open>
  C2 (the code departs from it): receipt generation for a booking with total 1000 should
  produce a receipt with subtotal 1000, tax amount 120 and total 1120. The relational
  backend, asked by the administrator for the receipt of booking 1 of \<open>demo_db\<close> (total
  1000), answers 201 with subtotal 1000 and total 1120 but no tax amount, and stores a
  row whose \<open>tax_rate\<close> is 1120, whose \<open>tax_amount\<close> is the text "Cash/Card", whose
  \<open>total_amount\<close> is the text "pending", whose \<open>payment_method\<close> is the issue date and
  whose \<open>payment_status\<close> and \<open>issued_date\<close> are NULL.
\<close>

theorem C2_relational_receipt_loses_tax:
  "status (fst demo_generate) = 201
   \<and> map_of (the (payload (fst demo_generate))) ''subtotal'' = Some (JNum 1000)
   \<and> map_of (the (payload (fst demo_generate))) ''totalAmount'' = Some (JNum 1120)
   \<and> map_of (the (payload (fst demo_generate))) ''taxAmount'' = None
   \<and> map (\<lambda>row. column row ''subtotal'') (receipts (snd demo_generate)) = [Some (JNum 1000)]
   \<and> map (\<lambda>row. column row ''tax_rate'') (receipts (snd demo_generate)) = [Some (JNum 1120)]
   \<and> map (\<lambda>row. column row ''tax_amount'') (receipts (snd demo_generate))
       = [Some (JStr ''Cash/Card'')]
   \<and> map (\<lambda>row. column row ''total_amount'') (receipts (snd demo_generate))
       = [Some (JStr ''pending'')]
   \<and> map (\<lambda>row. column row ''payment_method'') (receipts (snd demo_generate))
       = [Some (JStr ''2023-11-14'')]
   \<and> map (\<lambda>row. column row ''payment_status'') (receipts (snd demo_generate)) = [Some JNull]
   \<and> map (\<lambda>row. column row ''issued_date'') (receipts (snd demo_generate)) = [Some JNull]"
proof -
  from demo_generate_eval obtain rcpt row where
    ev: "demo_generate = (Json 201 rcpt, demo_db\<lparr>receipts := [row]\<rparr>)"
    and rest: "map_of rcpt ''subtotal'' = Some (JNum 1000)"
      "map_of rcpt ''totalAmount'' = Some (JNum 1120)"
      "map_of rcpt ''taxAmount'' = None"
      "column row ''subtotal'' = Some (JNum 1000)"
      "column row ''tax_rate'' = Some (JNum 1120)"
      "column row ''tax_amount'' = Some (JStr ''Cash/Card'')"
      "column row ''total_amount'' = Some (JStr ''pending'')"
      "column row ''payment_method'' = Some (JStr ''2023-11-14'')"
      "column row ''payment_status'' = Some JNull"
      "column row ''issued_date'' = Some JNull"
    by blast
  show ?thesis unfolding ev using rest by simp
qed

section \<open>One booking per date\<close>

text \<open>
  Date exclusivity in the words of the specification: for every date, at most one
  booking whose status is not \<open>cancelled\<close> has that event date.
\<close>

lemma distinct_iff_at_most_one:
  "distinct xs \<longleftrightarrow> (\<forall>x. length (filter (\<lambda>y. y = x) xs) \<le> 1)"
proof (induction xs)
  case Nil
  show ?case by simp
next
  case (Cons a xs)
  have "a \<notin> set xs \<longleftrightarrow> filter (\<lambda>y. y = a) xs = []"
    by (auto simp: filter_empty_conv)
  with Cons show ?case by (auto simp: filter_empty_conv)
qed

lemma date_exclusive_iff:
  "date_exclusive bs \<longleftrightarrow>
     (\<forall>d. length (filter (\<lambda>b. b_eventDate b = d \<and> b_bookingStatus b \<noteq> Some ''cancelled'') bs)
            \<le> 1)"
proof -
  have "length (filter (\<lambda>y. y = d) (map b_eventDate (filter Q bs)))
      = length (filter (\<lambda>b. b_eventDate b = d \<and> Q b) bs)" for d and Q :: "'a booking \<Rightarrow> bool"
    by (induction bs) auto
  then show ?thesis
    unfolding date_exclusive_def distinct_iff_at_most_one by simp
qed

lemma date_exclusive_snoc:
  assumes "date_exclusive bs"
    and "\<not> list_ex (\<lambda>b'. b_eventDate b' = b_eventDate b
                        \<and> b_bookingStatus b' \<noteq> Some ''cancelled'') bs"
  shows "date_exclusive (bs @ [b])"
  using assms by (auto simp: date_exclusive_def list_ex_iff)

lemma date_exclusive_readData:
  "date_exclusive bs \<Longrightarrow> date_exclusive (readData e f bs)"
  by (simp add: readData_def date_exclusive_def)

lemma update_first_None: "find P bs = None \<Longrightarrow> update_first P f bs = bs"
  by (induction bs) (auto split: if_splits)

lemma update_first_mem: "find P bs = Some b \<Longrightarrow> f b \<in> set (update_first P f bs)"
  by (induction bs) (auto split: if_splits)

lemma update_first_dates:
  assumes "find P bs = Some b" and "b_eventDate (f b) = b_eventDate b"
  shows "set (map b_eventDate (filter Q (update_first P f bs)))
           \<subseteq> insert (b_eventDate b) (set (map b_eventDate (filter Q bs)))"
  using assms by (induction bs) (auto split: if_splits)

lemma update_first_cancel:
  assumes "distinct (map b_eventDate (filter Q bs))" and "\<And>b. \<not> Q (f b)"
  shows "distinct (map b_eventDate (filter Q (update_first P f bs)))"
    and "set (map b_eventDate (filter Q (update_first P f bs)))
           \<subseteq> set (map b_eventDate (filter Q bs))"
proof -
  have sub: "set (map b_eventDate (filter Q (update_first P f xs)))
           \<subseteq> set (map b_eventDate (filter Q xs))" for xs
    using assms(2) by (induction xs) auto
  show "set (map b_eventDate (filter Q (update_first P f bs)))
           \<subseteq> set (map b_eventDate (filter Q bs))"
    by (rule sub)
  from assms(1) show "distinct (map b_eventDate (filter Q (update_first P f bs)))"
  proof (induction bs)
    case Nil
    show ?case by simp
  next
    case (Cons x xs)
    show ?case
    proof (cases "P x")
      case True
      with Cons.prems assms(2) show ?thesis by (auto split: if_splits)
    next
      case False
      from Cons.prems have "distinct (map b_eventDate (filter Q xs))"
        by (auto split: if_splits)
      from Cons.IH [OF this] Cons.prems False sub [of xs] show ?thesis
        by (auto split: if_splits)
    qed
  qed
qed

lemma update_first_keep:
  assumes "find P bs = Some b" and "Q b" and "Q (f b)" and "b_eventDate (f b) = b_eventDate b"
  shows "map b_eventDate (filter Q (update_first P f bs)) = map b_eventDate (filter Q bs)"
  using assms by (induction bs) (auto split: if_splits)

lemma update_first_revive_free:
  assumes "find P bs = Some b" and "b_eventDate (f b) = b_eventDate b"
    and "distinct (map b_eventDate (filter Q bs))"
    and "\<forall>b' \<in> set bs. Q b' \<longrightarrow> b_eventDate b' \<noteq> b_eventDate b"
  shows "distinct (map b_eventDate (filter Q (update_first P f bs)))"
  using assms
proof (induction bs)
  case Nil
  then show ?case by simp
next
  case (Cons x xs)
  show ?case
  proof (cases "P x")
    case True
    with Cons.prems have "x = b" by simp
    with True Cons.prems show ?thesis by (auto split: if_splits)
  next
    case False
    with Cons.prems have f: "find P xs = Some b" by simp
    from Cons.prems have d: "distinct (map b_eventDate (filter Q xs))"
      by (auto split: if_splits)
    from Cons.prems have n: "\<forall>b' \<in> set xs. Q b' \<longrightarrow> b_eventDate b' \<noteq> b_eventDate b"
      by simp
    from Cons.IH [OF f Cons.prems(2) d n]
    have ih: "distinct (map b_eventDate (filter Q (update_first P f xs)))" .
    show ?thesis
    proof (cases "Q x")
      case True
      with Cons.prems have "b_eventDate x \<noteq> b_eventDate b"
        and "b_eventDate x \<notin> set (map b_eventDate (filter Q xs))"
        by auto
      with update_first_dates [where P = P and bs = xs and b = b and f = f and Q = Q,
          OF f Cons.prems(2)]
      have "b_eventDate x \<notin> set (map b_eventDate (filter Q (update_first P f xs)))"
        by blast
      with ih True False show ?thesis by simp
    next
      case no: False
      with ih False show ?thesis by simp
    qed
  qed
qed

lemma update_first_revive_clash:
  assumes "find P bs = Some b" and "\<not> Q b" and "Q (f b)"
    and "b_eventDate (f b) = b_eventDate b"
    and "\<exists>b' \<in> set bs. Q b' \<and> b_eventDate b' = b_eventDate b"
  shows "\<not> distinct (map b_eventDate (filter Q (update_first P f bs)))"
  using assms
proof (induction bs)
  case Nil
  then show ?case by simp
next
  case (Cons x xs)
  from Cons.prems(5) obtain b' where
    m: "b' \<in> set (x # xs)" and q: "Q b'" and d: "b_eventDate b' = b_eventDate b"
    by blast
  show ?case
  proof (cases "P x")
    case True
    with Cons.prems have xb: "x = b" by simp
    with m q Cons.prems(2) have "b' \<in> set xs" by auto
    with q have "b' \<in> set (filter Q xs)" by simp
    then have "b_eventDate b' \<in> set (map b_eventDate (filter Q xs))" by simp
    with d have "b_eventDate b \<in> set (map b_eventDate (filter Q xs))" by simp
    with True xb Cons.prems(3,4) show ?thesis by simp
  next
    case False
    with Cons.prems have f: "find P xs = Some b" by simp
    show ?thesis
    proof (cases "b' = x")
      case True
      from update_first_mem [where P = P and bs = xs and b = b and f = f, OF f]
        Cons.prems(3)
      have "f b \<in> set (filter Q (update_first P f xs))" by simp
      then have "b_eventDate (f b) \<in> set (map b_eventDate (filter Q (update_first P f xs)))"
        by simp
      with Cons.prems(4)
      have "b_eventDate b \<in> set (map b_eventDate (filter Q (update_first P f xs)))"
        by simp
      with True q d False show ?thesis by simp
    next
      case other: False
      with m have "b' \<in> set xs" by simp
      with q d have "\<exists>b' \<in> set xs. Q b' \<and> b_eventDate b' = b_eventDate b" by blast
      from Cons.IH [OF f Cons.prems(2,3,4) this] False show ?thesis by simp
    qed
  qed
qed

lemma patch_status_preserves:
  assumes "date_exclusive bs" and "\<not> revives_on_taken_date bs ident newStatus"
  shows "date_exclusive (update_first (\<lambda>b. b_id b = ident)
                           (\<lambda>b. b\<lparr>b_bookingStatus := newStatus\<rparr>) bs)"
proof (cases "find (\<lambda>b. b_id b = ident) bs")
  case None
  from update_first_None [OF None] assms(1) show ?thesis by simp
next
  case (Some b)
  let ?Q = "\<lambda>b :: 'a booking. b_bookingStatus b \<noteq> Some ''cancelled''"
  let ?f = "\<lambda>b :: 'a booking. b\<lparr>b_bookingStatus := newStatus\<rparr>"
  from assms(1) have d: "distinct (map b_eventDate (filter ?Q bs))"
    by (simp add: date_exclusive_def)
  show ?thesis
  proof (cases "newStatus = Some ''cancelled''")
    case True
    then have "\<And>b. \<not> ?Q (?f b)" by simp
    from update_first_cancel(1) [of ?Q bs ?f, OF d this] show ?thesis
      by (simp add: date_exclusive_def)
  next
    case False
    show ?thesis
    proof (cases "?Q b")
      case True
      from update_first_keep [of "\<lambda>b. b_id b = ident" bs b ?Q ?f, OF Some True] False d
      show ?thesis by (simp add: date_exclusive_def)
    next
      case cancelled: False
      with assms(2) Some False have
        "\<forall>b' \<in> set bs. ?Q b' \<longrightarrow> b_eventDate b' \<noteq> b_eventDate b"
        by (auto simp: revives_on_taken_date_def list_ex_iff)
      from update_first_revive_free [of "\<lambda>b. b_id b = ident" bs b ?f ?Q, OF Some _ d this]
      show ?thesis by (simp add: date_exclusive_def)
    qed
  qed
qed

lemma patch_status_breaks:
  assumes "revives_on_taken_date bs ident newStatus"
  shows "\<not> date_exclusive (update_first (\<lambda>b. b_id b = ident)
                             (\<lambda>b. b\<lparr>b_bookingStatus := newStatus\<rparr>) bs)"
proof -
  let ?Q = "\<lambda>b :: 'a booking. b_bookingStatus b \<noteq> Some ''cancelled''"
  let ?f = "\<lambda>b :: 'a booking. b\<lparr>b_bookingStatus := newStatus\<rparr>"
  from assms obtain b where f: "find (\<lambda>b. b_id b = ident) bs = Some b"
    and c: "\<not> ?Q b" and n: "newStatus \<noteq> Some ''cancelled''"
    and t: "\<exists>b' \<in> set bs. ?Q b' \<and> b_eventDate b' = b_eventDate b"
    by (auto simp: revives_on_taken_date_def list_ex_iff split: option.splits)
  from n have q: "?Q (?f b)" by simp
  from update_first_revive_clash [of "\<lambda>b. b_id b = ident" bs b ?Q ?f, OF f c q _ t]
  show ?thesis by (simp add: date_exclusive_def)
qed

lemma server_post_bookings_exclusive:
  assumes inv: "date_exclusive (bookings_json st)"
  shows "date_exclusive (bookings_json (snd (server_post_bookings e st body)))"
  using server_post_bookings_cases [of e st body]
proof
  assume "snd (server_post_bookings e st body) = st"
  with inv show ?thesis by simp
next
  assume "\<exists>b. fst (server_post_bookings e st body) = Json 201 b
       \<and> snd (server_post_bookings e st body)
           = st\<lparr>bookings_json := readData e ''bookings.json'' (bookings_json st) @ [b]\<rparr>"
  then obtain b where
    r: "fst (server_post_bookings e st body) = Json 201 b"
    and s: "snd (server_post_bookings e st body)
           = st\<lparr>bookings_json := readData e ''bookings.json'' (bookings_json st) @ [b]\<rparr>"
    by blast
  from r s have p: "server_post_bookings e st body = (Json 201 b,
      st\<lparr>bookings_json := readData e ''bookings.json'' (bookings_json st) @ [b]\<rparr>)"
    by (metis prod.collapse)
  from server_post_bookings_Json [OF p] have
    free: "\<not> list_ex (\<lambda>b'. b_eventDate b' = b_eventDate b
                          \<and> b_bookingStatus b' \<noteq> Some ''cancelled'')
             (readData e ''bookings.json'' (bookings_json st))"
    by auto
  from date_exclusive_snoc [OF date_exclusive_readData [OF inv] free] s
  show ?thesis by simp
qed

lemma server_patch_exclusive:
  assumes "date_exclusive (bookings_json st)"
    and "\<not> revives_on_taken_date (readData e ''bookings.json'' (bookings_json st)) ident newStatus"
  shows "date_exclusive (bookings_json (snd (server_patch_booking_status e st ident newStatus)))"
  using patch_status_preserves [OF date_exclusive_readData [OF assms(1)] assms(2)] assms(1)
  by (simp add: server_patch_booking_status_def Let_def split: option.splits)

lemma server_run_exclusive:
  "date_exclusive (bookings_json st) \<Longrightarrow> no_revival_on_taken_date st rqs \<Longrightarrow>
   date_exclusive (bookings_json (server_run st rqs))"
proof (induction st rqs rule: no_revival_on_taken_date.induct)
  case (1 st)
  then show ?case by simp
next
  case (2 st e body rest)
  from 2 server_post_bookings_exclusive [of st e body] show ?case by simp
next
  case (3 st e ident newStatus rest)
  from 3 server_patch_exclusive [of st e ident newStatus] show ?case by simp
qed

text \<open>
  C3 (as stated): for every date at most one booking that is not cancelled exists, and
  creating a booking on an occupied date is rejected with 409. Neither backend keeps
  that invariant. The relational backend has no check of the date: in \<open>demo_db\<close> the
  first customer holds a pending booking on 2024-02-14, and the second customer's
  booking for the same date is created with status 201, leaving two pending bookings on
  that date. The JSON-file backend checks the date only when a booking is created, and
  its route \<open>PATCH /api/bookings/:id/status\<close> writes any status to any booking: starting
  from a store that is date exclusive, booking 1 on 2024-02-14 is cancelled, the date is
  booked again with status 201, booking 1 is set to \<open>confirmed\<close>, and the bookings file
  then holds a confirmed and a pending booking on 2024-02-14.
\<close>

theorem C3_two_bookings_on_one_date:
  "status (fst demo_double_booking) = 201
   \<and> map (\<lambda>b. (bk_event_date b, bk_booking_status b)) (bookings (snd demo_double_booking))
       = [(''2024-02-14'', ''pending''), (''2024-02-14'', ''pending'')]
   \<and> date_exclusive (bookings_json demo_store)
   \<and> status (fst demo_cancelled) = 200
   \<and> status (fst demo_rebooked) = 201
   \<and> status (fst demo_revived) = 200
   \<and> map (\<lambda>b. (b_id b, b_eventDate b, b_bookingStatus b)) (bookings_json (snd demo_revived))
       = [(1, ''2024-02-14'', Some ''confirmed''), (2, ''2024-02-14'', Some ''pending'')]
   \<and> \<not> date_exclusive (bookings_json (snd demo_revived))"
proof -
  have rel: "status (fst demo_double_booking) = 201
   \<and> map (\<lambda>b. (bk_event_date b, bk_booking_status b)) (bookings (snd demo_double_booking))
       = [(''2024-02-14'', ''pending''), (''2024-02-14'', ''pending'')]"
    by (simp add: bookings_post_def bookings_post_valid_def default_booking_status_def
          demo_defs eval_defs)
  have d0: "date_exclusive (bookings_json demo_store)"
    by (simp add: date_exclusive_def demo_defs)
  have c: "status (fst demo_cancelled) = 200"
    by (simp add: server_patch_booking_status_def demo_defs eval_defs)
  have r: "status (fst demo_rebooked) = 201"
    by (simp add: server_post_bookings_def server_patch_booking_status_def demo_defs eval_defs)
  have v: "status (fst demo_revived) = 200"
    by (simp add: server_post_bookings_def server_patch_booking_status_def demo_defs eval_defs)
  have m:
    "map (\<lambda>b. (b_id b, b_eventDate b, b_bookingStatus b)) (bookings_json (snd demo_revived))
       = [(1, ''2024-02-14'', Some ''confirmed''), (2, ''2024-02-14'', Some ''pending'')]"
    by (simp add: server_post_bookings_def server_patch_booking_status_def demo_defs eval_defs)
  have "map b_eventDate (filter (\<lambda>b. b_bookingStatus b \<noteq> Some ''cancelled'')
          (bookings_json (snd demo_revived))) = [''2024-02-14'', ''2024-02-14'']"
    by (simp add: server_post_bookings_def server_patch_booking_status_def demo_defs eval_defs)
  then have n: "\<not> date_exclusive (bookings_json (snd demo_revived))"
    by (simp add: date_exclusive_def)
  from rel d0 c r v m n show ?thesis by (intro conjI) simp_all
qed

text \<open>
  C3 (amended): the relational backend never rejects a booking for its date. In the
  JSON-file backend,
  \<^item> a request that carries every required field and whose event date is that of a
    booking which \<open>readData\<close> yields from the bookings file and whose status is not
    \<open>cancelled\<close> is answered with status 409 and the store is unchanged;
  \<^item> any request for such a date, complete or not, is rejected with 400 or 409 and
    leaves the store unchanged;
  \<^item> the store of \<open>initializeData\<close> is date exclusive, and creating a booking preserves
    date exclusivity of the bookings file, whatever the request and whichever reads or
    writes fail;
  \<^item> a change of status preserves date exclusivity unless it revives a booking on a
    taken date, and when it does and the file is written, the bookings file is no longer
    date exclusive;
  \<^item> hence "at most one booking that is not cancelled per date" holds of the bookings
    file after every sequence of booking creations and status changes that starts from
    a date exclusive store and in which no status change revives a booking on a taken
    date, and it can fail otherwise.
\<close>

theorem C3_date_exclusive:
  "(\<not> falsy_str (bb_eventType body) \<and> \<not> falsy_str (bb_eventVenue body)
      \<and> \<not> falsy_num (bb_numGuests body) \<and> bb_menuItems body \<noteq> None
      \<and> \<not> falsy_str (bb_customerName body) \<and> \<not> falsy_str (bb_customerEmail body)
      \<and> bb_eventDate body = Some d \<and> d \<noteq> []
      \<and> (\<exists>b \<in> set (readData e ''bookings.json'' (bookings_json st)).
            b_eventDate b = d \<and> b_bookingStatus b \<noteq> Some ''cancelled'')
    \<longrightarrow> server_post_bookings e st body
          = (ErrorJson 409 ''Sorry, this date is already booked. Please choose another date.'',
             st))
   \<and> (bb_eventDate body = Some d
      \<and> (\<exists>b \<in> set (readData e ''bookings.json'' (bookings_json st)).
            b_eventDate b = d \<and> b_bookingStatus b \<noteq> Some ''cancelled'')
    \<longrightarrow> snd (server_post_bookings e st body) = st
        \<and> status (fst (server_post_bookings e st body)) \<in> {400, 409})
   \<and> (date_exclusive (bookings_json st)
    \<longrightarrow> date_exclusive (bookings_json (snd (server_post_bookings e st body))))
   \<and> date_exclusive (bookings_json (initializeData e))
   \<and> (date_exclusive (bookings_json st)
      \<and> \<not> revives_on_taken_date (readData e ''bookings.json'' (bookings_json st)) ident newStatus
    \<longrightarrow> date_exclusive
          (bookings_json (snd (server_patch_booking_status e st ident newStatus))))
   \<and> (revives_on_taken_date (readData e ''bookings.json'' (bookings_json st)) ident newStatus
      \<and> writeData e ''bookings.json''
    \<longrightarrow> \<not> date_exclusive
            (bookings_json (snd (server_patch_booking_status e st ident newStatus))))
   \<and> (date_exclusive (bookings_json st) \<and> no_revival_on_taken_date st rqs
    \<longrightarrow> date_exclusive (bookings_json (server_run st rqs)))"
proof (intro conjI impI)
  assume "\<not> falsy_str (bb_eventType body) \<and> \<not> falsy_str (bb_eventVenue body)
      \<and> \<not> falsy_num (bb_numGuests body) \<and> bb_menuItems body \<noteq> None
      \<and> \<not> falsy_str (bb_customerName body) \<and> \<not> falsy_str (bb_customerEmail body)
      \<and> bb_eventDate body = Some d \<and> d \<noteq> []
      \<and> (\<exists>b \<in> set (readData e ''bookings.json'' (bookings_json st)).
            b_eventDate b = d \<and> b_bookingStatus b \<noteq> Some ''cancelled'')"
  then show "server_post_bookings e st body
          = (ErrorJson 409 ''Sorry, this date is already booked. Please choose another date.'',
             st)"
    by (auto simp: server_post_bookings_def Let_def list_ex_iff falsy_str_def)
next
  assume a: "bb_eventDate body = Some d
      \<and> (\<exists>b \<in> set (readData e ''bookings.json'' (bookings_json st)).
            b_eventDate b = d \<and> b_bookingStatus b \<noteq> Some ''cancelled'')"
  then show "snd (server_post_bookings e st body) = st"
    by (auto simp: server_post_bookings_def Let_def list_ex_iff)
  from a show "status (fst (server_post_bookings e st body)) \<in> {400, 409}"
    by (auto simp: server_post_bookings_def Let_def list_ex_iff)
next
  assume "date_exclusive (bookings_json st)"
  then show "date_exclusive (bookings_json (snd (server_post_bookings e st body)))"
    by (rule server_post_bookings_exclusive)
next
  show "date_exclusive (bookings_json (initializeData e))"
    by (simp add: date_exclusive_def initializeData_def)
next
  assume "date_exclusive (bookings_json st)
      \<and> \<not> revives_on_taken_date (readData e ''bookings.json'' (bookings_json st)) ident newStatus"
  then show "date_exclusive
          (bookings_json (snd (server_patch_booking_status e st ident newStatus)))"
    by (simp add: server_patch_exclusive)
next
  assume a: "revives_on_taken_date (readData e ''bookings.json'' (bookings_json st)) ident newStatus
      \<and> writeData e ''bookings.json''"
  then obtain b where "find (\<lambda>b. b_id b = ident) (readData e ''bookings.json'' (bookings_json st))
      = Some b"
    by (auto simp: revives_on_taken_date_def split: option.splits)
  with a patch_status_breaks [of "readData e ''bookings.json'' (bookings_json st)" ident newStatus]
  show "\<not> date_exclusive
            (bookings_json (snd (server_patch_booking_status e st ident newStatus)))"
    by (simp add: server_patch_booking_status_def Let_def)
next
  assume "date_exclusive (bookings_json st) \<and> no_revival_on_taken_date st rqs"
  then show "date_exclusive (bookings_json (server_run st rqs))"
    by (simp add: server_run_exclusive)
qed

theorem C3_date_exclusive_witness:
  "server_post_bookings demo_env demo_store demo_body_same_date
     = (ErrorJson 409 ''Sorry, this date is already booked. Please choose another date.'',
        demo_store)
   \<and> status (fst (server_post_bookings demo_env demo_store demo_body_same_date)) \<in> {400, 409}
   \<and> date_exclusive (bookings_json demo_store)
   \<and> length (bookings_json (snd (server_post_bookings demo_env demo_store demo_body))) = 2
   \<and> date_exclusive (bookings_json (snd (server_post_bookings demo_env demo_store demo_body)))
   \<and> map b_bookingStatus (bookings_json (snd demo_cancelled)) = [Some ''cancelled'']
   \<and> date_exclusive (bookings_json (snd demo_cancelled))
   \<and> revives_on_taken_date (bookings_json (snd demo_rebooked)) 1 (Some ''confirmed'')
   \<and> \<not> date_exclusive (bookings_json (snd demo_revived))
   \<and> map (\<lambda>b. (b_eventDate b, b_bookingStatus b))
        (bookings_json (server_run (initializeData demo_env)
           [(demo_env, PostBooking demo_body), (demo_env, PatchStatus 1 (Some ''cancelled'')),
            (demo_env, PostBooking demo_body), (demo_env, PatchStatus 2 (Some ''confirmed''))]))
       = [(''2024-03-01'', Some ''cancelled''), (''2024-03-01'', Some ''confirmed'')]
   \<and> date_exclusive
        (bookings_json (server_run (initializeData demo_env)
           [(demo_env, PostBooking demo_body), (demo_env, PatchStatus 1 (Some ''cancelled'')),
            (demo_env, PostBooking demo_body), (demo_env, PatchStatus 2 (Some ''confirmed''))]))"
proof -
  have h1: "\<not> falsy_str (bb_eventType demo_body_same_date)
      \<and> \<not> falsy_str (bb_eventVenue demo_body_same_date)
      \<and> \<not> falsy_num (bb_numGuests demo_body_same_date)
      \<and> bb_menuItems demo_body_same_date \<noteq> None
      \<and> \<not> falsy_str (bb_customerName demo_body_same_date)
      \<and> \<not> falsy_str (bb_customerEmail demo_body_same_date)
      \<and> bb_eventDate demo_body_same_date = Some ''2024-02-14'' \<and> ''2024-02-14'' \<noteq> []
      \<and> (\<exists>b \<in> set (readData demo_env ''bookings.json'' (bookings_json demo_store)).
            b_eventDate b = ''2024-02-14'' \<and> b_bookingStatus b \<noteq> Some ''cancelled'')"
    by (simp add: demo_defs eval_defs)
  then have h2: "bb_eventDate demo_body_same_date = Some ''2024-02-14''
      \<and> (\<exists>b \<in> set (readData demo_env ''bookings.json'' (bookings_json demo_store)).
            b_eventDate b = ''2024-02-14'' \<and> b_bookingStatus b \<noteq> Some ''cancelled'')"
    by simp
  have h3: "date_exclusive (bookings_json demo_store)"
    by (simp add: date_exclusive_def demo_defs)
  have len: "length (bookings_json (snd (server_post_bookings demo_env demo_store demo_body))) = 2"
    by (simp add: server_post_bookings_def demo_defs eval_defs)
  have stat: "map b_bookingStatus (bookings_json (snd demo_cancelled)) = [Some ''cancelled'']"
    by (simp add: server_patch_booking_status_def demo_defs eval_defs)
  have h4: "\<not> revives_on_taken_date (readData demo_env ''bookings.json'' (bookings_json demo_store))
      1 (Some ''cancelled'')"
    by (simp add: revives_on_taken_date_def)
  have rd: "readData demo_env ''bookings.json'' (bookings_json (snd demo_rebooked))
      = bookings_json (snd demo_rebooked)"
    by (simp add: readData_def demo_env_def)
  have h5: "revives_on_taken_date (bookings_json (snd demo_rebooked)) 1 (Some ''confirmed'')"
    by (simp add: revives_on_taken_date_def server_post_bookings_def
          server_patch_booking_status_def demo_defs eval_defs)
  have wr: "writeData demo_env ''bookings.json''"
    by (simp add: writeData_def demo_env_def)
  let ?rqs = "[(demo_env, PostBooking demo_body), (demo_env, PatchStatus 1 (Some ''cancelled'')),
            (demo_env, PostBooking demo_body), (demo_env, PatchStatus 2 (Some ''confirmed''))]"
  have run: "map (\<lambda>b. (b_eventDate b, b_bookingStatus b))
        (bookings_json (server_run (initializeData demo_env) ?rqs))
       = [(''2024-03-01'', Some ''cancelled''), (''2024-03-01'', Some ''confirmed'')]"
    by (simp add: server_post_bookings_def server_patch_booking_status_def demo_defs eval_defs)
  have h6: "no_revival_on_taken_date (initializeData demo_env) ?rqs"
    by (simp add: revives_on_taken_date_def server_post_bookings_def
          server_patch_booking_status_def demo_defs eval_defs)
  note c = C3_date_exclusive [where e = demo_env and st = demo_store and d = "''2024-02-14''"
      and body = demo_body_same_date]
  note c' = C3_date_exclusive [where e = demo_env and st = demo_store and body = demo_body
      and ident = 1 and newStatus = "Some ''cancelled''"]
  note c'' = C3_date_exclusive [where e = demo_env and st = "snd demo_rebooked"
      and ident = 1 and newStatus = "Some ''confirmed''"]
  note c''' = C3_date_exclusive [where e = demo_env and st = "initializeData demo_env"
      and rqs = ?rqs]
  from c h1 have r1: "server_post_bookings demo_env demo_store demo_body_same_date
     = (ErrorJson 409 ''Sorry, this date is already booked. Please choose another date.'',
        demo_store)"
    by blast
  from c h2 have r2:
    "status (fst (server_post_bookings demo_env demo_store demo_body_same_date)) \<in> {400, 409}"
    by blast
  from c' h3 have r3:
    "date_exclusive (bookings_json (snd (server_post_bookings demo_env demo_store demo_body)))"
    by blast
  from c' h3 h4 have r4: "date_exclusive (bookings_json (snd demo_cancelled))"
    unfolding demo_cancelled_def by blast
  from c'' h5 wr have r5: "\<not> date_exclusive (bookings_json (snd demo_revived))"
    unfolding demo_revived_def rd by blast
  from c''' have i0: "date_exclusive (bookings_json (initializeData demo_env))"
    by blast
  from c''' i0 h6 have r6:
    "date_exclusive (bookings_json (server_run (initializeData demo_env) ?rqs))"
    by blast
  from r1 r2 h3 len r3 stat r4 h5 r5 run r6 show ?thesis by (intro conjI)
qed

section \<open>Receipt numbers\<close>

text \<open>Printing a number and reading it back, with leading zeros.\<close>

lemma digit_char_cases: "d < 10 \<Longrightarrow> is_digit (digit_char d) \<and> digit_val (digit_char d) = d"
proof -
  assume "d < 10"
  then have "d \<in> {0,1,2,3,4,5,6,7,8,9}" by auto
  then show ?thesis
    by (auto simp: digit_char_def is_digit_def digit_val_def)
qed

lemma show_nat_digits: "list_all is_digit (show_nat n)"
proof (induction n rule: show_nat.induct)
  case (1 n)
  show ?case
  proof (cases "n < 10")
    case True
    then show ?thesis by (simp add: show_nat.simps [of n] digit_char_cases)
  next
    case False
    with 1 show ?thesis by (simp add: show_nat.simps [of n] digit_char_cases)
  qed
qed

lemma show_nat_value: "foldl (\<lambda>acc c. 10 * acc + digit_val c) 0 (show_nat n) = n"
proof (induction n rule: show_nat.induct)
  case (1 n)
  show ?case
  proof (cases "n < 10")
    case True
    then show ?thesis by (simp add: show_nat.simps [of n] digit_char_cases)
  next
    case False
    with 1 show ?thesis by (simp add: show_nat.simps [of n] digit_char_cases)
  qed
qed

lemma show_nat_nonempty: "show_nat n \<noteq> []"
  by (simp add: show_nat.simps [of n])

lemma foldl_zeros: "foldl (\<lambda>acc c. 10 * acc + digit_val c) 0 (replicate k (CHR ''0'') @ s)
   = foldl (\<lambda>acc c. 10 * acc + digit_val c) 0 s"
  by (induction k) (simp_all add: digit_val_def)

lemma parseInt_padStart: "parseInt (padStart k (CHR ''0'') (show_nat n)) = Some n"
proof -
  have z: "is_digit (CHR ''0'')" by (simp add: is_digit_def)
  have "list_all is_digit (padStart k (CHR ''0'') (show_nat n))"
    using show_nat_digits [of n] z by (auto simp: padStart_def list_all_iff)
  then have tw: "takeWhile is_digit (padStart k (CHR ''0'') (show_nat n))
      = padStart k (CHR ''0'') (show_nat n)"
    by (simp add: list_all_iff)
  have ne: "padStart k (CHR ''0'') (show_nat n) \<noteq> []"
    by (simp add: padStart_def show_nat_nonempty)
  have v: "foldl (\<lambda>acc c. 10 * acc + digit_val c) 0 (padStart k (CHR ''0'') (show_nat n)) = n"
    unfolding padStart_def foldl_zeros by (rule show_nat_value)
  show ?thesis
    unfolding parseInt_def Let_def tw using ne by (simp add: v)
qed

lemma receipt_number_value_padStart:
  "receipt_number_value (''R'' @ padStart 6 CHR ''0'' (show_nat n)) = Some n"
  by (simp add: receipt_number_value_def parseInt_padStart)

lemma numbered_in_order_snoc:
  "numbered_in_order (rs @ [r]) \<longleftrightarrow>
     numbered_in_order rs \<and> receipt_number_value (r_receiptNumber r) = Some (Suc (length rs))"
  by (auto simp: numbered_in_order_def)

lemma numbered_in_order_next:
  "numbered_in_order rs \<Longrightarrow> getNextReceiptNumber (map r_receiptNumber rs) = length rs + 1"
proof (induction rs rule: rev_induct)
  case Nil
  show ?case by (simp add: getNextReceiptNumber_def)
next
  case (snoc r rs)
  from snoc.prems have inv: "numbered_in_order rs"
    and v: "receipt_number_value (r_receiptNumber r) = Some (Suc (length rs))"
    by (simp_all add: numbered_in_order_snoc)
  from snoc.IH [OF inv] v show ?case
    by (simp add: getNextReceiptNumber_def)
qed

lemma numbered_in_order_below:
  assumes "numbered_in_order rs" and "r \<in> set rs"
  shows "\<exists>k. receipt_number_value (r_receiptNumber r) = Some k \<and> k < length rs + 1"
proof -
  from assms(2) obtain i where i: "i < length rs" and r: "rs ! i = r"
    by (auto simp: in_set_conv_nth)
  from assms(1) have "map (\<lambda>r. receipt_number_value (r_receiptNumber r)) rs ! i
      = map (\<lambda>i. Some (Suc i)) [0..<length rs] ! i"
    by (simp add: numbered_in_order_def)
  with i r have "receipt_number_value (r_receiptNumber r) = Some (Suc i)" by simp
  with i show ?thesis by simp
qed

lemma demo_generate_number:
  "map_of (the (payload (fst demo_generate))) ''receiptNumber'' = Some (JStr ''R999999'')"
  by (simp add: receipts_generate_def receipts_generate_valid_def demo_defs eval_defs)


text \<open>
  C4 (as stated): each newly allocated receipt number is larger than every number issued
  before, being the largest of them plus one. The relational backend takes the last six
  digits of the clock instead: a receipt generated at millisecond 1700000999999 gets
  number R999999 and the next one, generated one millisecond later, gets R000000, where
  the largest number issued so far plus one is 1000000.
\<close>

theorem C4_relational_number_wraps:
  "now demo_env < now demo_env_next
   \<and> map_of (the (payload (fst demo_generate))) ''receiptNumber'' = Some (JStr ''R999999'')
   \<and> map_of (the (payload (fst demo_generate_next))) ''receiptNumber'' = Some (JStr ''R000000'')
   \<and> receipt_number_value ''R999999'' = Some 999999
   \<and> receipt_number_value ''R000000'' = Some 0
   \<and> getNextReceiptNumber [''R999999''] = 1000000"
proof -
  have t: "now demo_env < now demo_env_next"
    by (simp add: demo_env_def demo_env_next_def)
  have n2: "map_of (the (payload (fst demo_generate_next))) ''receiptNumber''
      = Some (JStr ''R000000'')"
    by (simp add: receipts_generate_def receipts_generate_valid_def demo_defs eval_defs)
  have v1: "receipt_number_value ''R999999'' = Some 999999"
    by (simp add: receipt_number_value_def parseInt_def is_digit_def digit_val_def)
  have v2: "receipt_number_value ''R000000'' = Some 0"
    by (simp add: receipt_number_value_def parseInt_def is_digit_def digit_val_def)
  have nx: "getNextReceiptNumber [''R999999''] = 1000000"
    by (simp add: getNextReceiptNumber_def v1)
  from t demo_generate_number n2 v1 v2 nx show ?thesis by (intro conjI)
qed

text \<open>
  C4 (amended): in the JSON-file backend the receipts file of a fresh store is numbered
  in order, and when the receipts file is numbered in order and can be read, a generated
  receipt gets the number of the receipts stored so far plus one; that number is what
  \<open>getNextReceiptNumber\<close> (largest stored number plus one) yields, it is larger than the
  number of every stored receipt, and when the write succeeds the receipt is appended
  and the file is again numbered in order.
\<close>

theorem C4_receipt_numbers:
  "numbered_in_order (receipts_json (initializeData e))
   \<and> (numbered_in_order (receipts_json st) \<and> \<not> read_fails e ''receipts.json''
      \<and> server_receipts_generate e st body = (Json n r, st')
    \<longrightarrow> receipt_number_value (r_receiptNumber r) = Some (length (receipts_json st) + 1)
        \<and> length (receipts_json st) + 1
            = getNextReceiptNumber (map r_receiptNumber (receipts_json st))
        \<and> (\<forall>r' \<in> set (receipts_json st).
              \<exists>k. receipt_number_value (r_receiptNumber r') = Some k
                 \<and> k < length (receipts_json st) + 1)
        \<and> (\<not> write_fails e ''receipts.json''
            \<longrightarrow> receipts_json st' = receipts_json st @ [r]
                \<and> numbered_in_order (receipts_json st')))"
proof (intro conjI impI)
  show "numbered_in_order (receipts_json (initializeData e))"
    by (simp add: numbered_in_order_def initializeData_def)
next
  assume a: "numbered_in_order (receipts_json st) \<and> \<not> read_fails e ''receipts.json''
      \<and> server_receipts_generate e st body = (Json n r, st')"
  then have inv: "numbered_in_order (receipts_json st)"
    and rd: "readData e ''receipts.json'' (receipts_json st) = receipts_json st"
    and g: "server_receipts_generate e st body = (Json n r, st')"
    by (simp_all add: readData_def)
  from g rd have num: "r_receiptNumber r
      = ''R'' @ padStart 6 CHR ''0'' (show_nat (length (receipts_json st) + 1))"
    and st': "st' = (if writeData e ''receipts.json''
                     then st\<lparr>receipts_json := receipts_json st @ [r]\<rparr> else st)"
    by (auto simp: server_receipts_generate_def Let_def split: option.splits)
  show v: "receipt_number_value (r_receiptNumber r) = Some (length (receipts_json st) + 1)"
    unfolding num by (rule receipt_number_value_padStart)
  show "length (receipts_json st) + 1
            = getNextReceiptNumber (map r_receiptNumber (receipts_json st))"
    using numbered_in_order_next [OF inv] by simp
  show "\<forall>r' \<in> set (receipts_json st).
              \<exists>k. receipt_number_value (r_receiptNumber r') = Some k
                 \<and> k < length (receipts_json st) + 1"
    using numbered_in_order_below [OF inv] by blast
  assume w: "\<not> write_fails e ''receipts.json''"
  with st' show "receipts_json st' = receipts_json st @ [r]"
    by (simp add: writeData_def)
  with inv v show "numbered_in_order (receipts_json st')"
    by (simp add: numbered_in_order_snoc)
qed

lemma padStart_6_single: "padStart 6 c [d] = [c, c, c, c, c, d]"
  by (simp add: padStart_def eval_nat_numeral)

theorem C4_receipt_numbers_witness:
  "\<exists>r st'. server_receipts_generate demo_env demo_store demo_receipt_body = (Json 201 r, st')
     \<and> r_receiptNumber r = ''R000001''
     \<and> receipt_number_value (r_receiptNumber r) = Some 1
     \<and> numbered_in_order (receipts_json st')
     \<and> (\<exists>r2 st2. server_receipts_generate demo_env_next st' demo_receipt_body
                     = (Json 201 r2, st2)
           \<and> r_receiptNumber r2 = ''R000002''
           \<and> receipt_number_value (r_receiptNumber r2) = Some 2
           \<and> getNextReceiptNumber (map r_receiptNumber (receipts_json st')) = 2)"
proof -
  have "\<exists>r. server_receipts_generate demo_env demo_store demo_receipt_body
          = (Json 201 r, demo_store\<lparr>receipts_json := [r]\<rparr>)
        \<and> r_receiptNumber r = ''R000001''"
    by (simp add: server_receipts_generate_def padStart_6_single demo_defs eval_defs)
  then obtain r :: "rat receipt" where
    g1: "server_receipts_generate demo_env demo_store demo_receipt_body
          = (Json 201 r, demo_store\<lparr>receipts_json := [r]\<rparr>)"
    and n1: "r_receiptNumber r = ''R000001''"
    by blast
  have "\<exists>r2 st2. server_receipts_generate demo_env_next (demo_store\<lparr>receipts_json := [r]\<rparr>)
            demo_receipt_body = (Json 201 r2, st2)
        \<and> r_receiptNumber r2 = ''R000002''"
    by (simp add: server_receipts_generate_def padStart_6_single demo_defs eval_defs)
  then obtain r2 :: "rat receipt" and st2 :: "rat store" where
    g2: "server_receipts_generate demo_env_next (demo_store\<lparr>receipts_json := [r]\<rparr>)
            demo_receipt_body = (Json 201 r2, st2)"
    and n2: "r_receiptNumber r2 = ''R000002''"
    by blast
  have i0: "numbered_in_order (receipts_json demo_store)"
    by (simp add: numbered_in_order_def demo_defs)
  have q1: "\<not> read_fails demo_env ''receipts.json''"
    and w1: "\<not> write_fails demo_env ''receipts.json''"
    and q2: "\<not> read_fails demo_env_next ''receipts.json''"
    by (simp_all add: demo_env_def demo_env_next_def)
  have len0: "length (receipts_json demo_store) + 1 = 1"
    by (simp add: demo_defs)
  note c1 = C4_receipt_numbers [where st = demo_store and e = demo_env
      and body = demo_receipt_body and n = 201 and r = r
      and st' = "demo_store\<lparr>receipts_json := [r]\<rparr>", THEN conjunct2, rule_format]
  from c1 i0 q1 g1 w1 len0 have
    v1: "receipt_number_value (r_receiptNumber r) = Some 1"
    and i1: "numbered_in_order (receipts_json (demo_store\<lparr>receipts_json := [r]\<rparr>))"
    by simp_all
  note c2 = C4_receipt_numbers [where st = "demo_store\<lparr>receipts_json := [r]\<rparr>"
      and e = demo_env_next and body = demo_receipt_body and n = 201 and r = r2
      and st' = st2, THEN conjunct2, rule_format]
  from c2 i1 q2 g2 have
    v2: "receipt_number_value (r_receiptNumber r2) = Some 2"
    and nx: "getNextReceiptNumber (map r_receiptNumber
               (receipts_json (demo_store\<lparr>receipts_json := [r]\<rparr>))) = 2"
    by simp_all
  have inner: "\<exists>r2 st2. server_receipts_generate demo_env_next
                     (demo_store\<lparr>receipts_json := [r]\<rparr>) demo_receipt_body
                     = (Json 201 r2, st2)
           \<and> r_receiptNumber r2 = ''R000002''
           \<and> receipt_number_value (r_receiptNumber r2) = Some 2
           \<and> getNextReceiptNumber (map r_receiptNumber
                (receipts_json (demo_store\<lparr>receipts_json := [r]\<rparr>))) = 2"
    by (intro exI [of _ r2] exI [of _ st2] conjI g2 n2 v2 nx)
  show ?thesis
    by (intro exI [of _ r] exI [of _ "demo_store\<lparr>receipts_json := [r]\<rparr>"] conjI
          g1 n1 v1 i1 inner)
qed

section \<open>Rejecting bookings without resolvable lines\<close>

lemma resolve_items_bad:
  "\<exists>l \<in> set ls. find (\<lambda>m. mi_id m = ln_itemId l \<and> mi_is_available m) menu = None \<Longrightarrow>
   \<exists>r. resolve_items e menu i ls t acc = (Inl r :: 'a response + 'n \<times> 'n valid_item list)
      \<and> ((\<forall>k. \<not> db_err e k) \<longrightarrow> (\<exists>msg. r = ErrorJson 400 msg))"
proof (induction ls arbitrary: i t acc)
  case Nil
  then show ?case by simp
next
  case (Cons l ls)
  show ?case
  proof (cases "db_err e i")
    case True
    then show ?thesis by auto
  next
    case False
    show ?thesis
    proof (cases "find (\<lambda>m. mi_id m = ln_itemId l \<and> mi_is_available m) menu")
      case None
      with False show ?thesis by simp
    next
      case (Some m)
      with Cons.prems have
        "\<exists>l \<in> set ls. find (\<lambda>m. mi_id m = ln_itemId l \<and> mi_is_available m) menu = None"
        by auto
      from Cons.IH [OF this] False Some show ?thesis by (simp add: Let_def)
    qed
  qed
qed

lemma map_items_bad:
  "\<exists>l \<in> set ls. find (\<lambda>m. m_id m = ln_itemId l) menu = None \<Longrightarrow> map_items e menu ls t = None"
proof (induction ls arbitrary: t)
  case Nil
  then show ?case by simp
next
  case (Cons l ls)
  show ?case
  proof (cases "find (\<lambda>m. m_id m = ln_itemId l) menu")
    case None
    then show ?thesis by simp
  next
    case (Some m)
    with Cons.prems have "\<exists>l \<in> set ls. find (\<lambda>m. m_id m = ln_itemId l) menu = None"
      by auto
    from Cons.IH [OF this] Some show ?thesis by (simp add: Let_def)
  qed
qed

text \<open>
  C5 (as stated): creating a booking is rejected with status 400 when the list of lines
  is empty or some line's item does not resolve to an available menu item, and nothing
  is persisted. The JSON-file backend tests only that the list is present and never
  reads the availability flag: it answers 201 and stores the booking both for an empty
  list and for a line whose item is marked unavailable.
\<close>

theorem C5_json_accepts_empty_and_unavailable:
  "bb_menuItems demo_body_empty = Some []
   \<and> status (fst (server_post_bookings demo_env demo_store demo_body_empty)) = 201
   \<and> length (bookings_json (snd (server_post_bookings demo_env demo_store demo_body_empty))) = 2
   \<and> map m_isAvailable (filter (\<lambda>m. m_id m = 2) (menu_json demo_store_unavailable)) = [False]
   \<and> map ln_itemId (the (bb_menuItems demo_body)) = [1, 2]
   \<and> status (fst (server_post_bookings demo_env demo_store_unavailable demo_body)) = 201
   \<and> length (bookings_json (snd (server_post_bookings demo_env demo_store_unavailable demo_body)))
       = 2"
  by (simp add: server_post_bookings_def demo_defs eval_defs)


text \<open>
  C5 (amended): in the relational backend, a request of an authenticated customer or
  admin whose list of lines is absent or empty is rejected with the validation answer
  (status 400) and the database is unchanged; a request with a line whose item is not an
  available row of \<open>menu_items\<close> never creates a booking: the database is unchanged, the
  status is not 201, and it is 400 when the caller is an authenticated customer or admin
  and no statement fails. In the JSON-file backend a request without a list of lines is
  rejected with status 400, and a request with a line whose item id is not in the menu
  file leaves the store unchanged.
\<close>

theorem C5_rejects_bad_lines:
  "((ru_userType u = ''admin'' \<or> ru_userType u = ''customer'')
      \<and> (bb_menuItems body = None \<or> bb_menuItems body = Some [])
    \<longrightarrow> bookings_post x (e :: 'n env) db (Some u) body = (ValidationErrors, db))
   \<and> (bb_menuItems body = Some ls
      \<and> (\<exists>l \<in> set ls. find (\<lambda>m. mi_id m = ln_itemId l \<and> mi_is_available m) (menu_items db)
                          = None)
    \<longrightarrow> snd (bookings_post x e db tok body) = db
        \<and> status (fst (bookings_post x e db tok body)) \<noteq> 201
        \<and> (tok = Some u \<and> (ru_userType u = ''admin'' \<or> ru_userType u = ''customer'')
             \<and> (\<forall>k. \<not> db_err e k)
           \<longrightarrow> status (fst (bookings_post x e db tok body)) = 400))
   \<and> (bb_menuItems body = None
    \<longrightarrow> status (fst (server_post_bookings e st body)) = 400
        \<and> snd (server_post_bookings e st body) = st)
   \<and> (bb_menuItems body = Some ls
      \<and> (\<exists>l \<in> set ls. find (\<lambda>m. m_id m = ln_itemId l) (readData e ''menu.json'' (menu_json st))
                          = None)
    \<longrightarrow> snd (server_post_bookings e st body) = st)"
proof (intro conjI impI)
  assume "(ru_userType u = ''admin'' \<or> ru_userType u = ''customer'')
      \<and> (bb_menuItems body = None \<or> bb_menuItems body = Some [])"
  then show "bookings_post x e db (Some u) body = (ValidationErrors, db)"
    by (auto simp: bookings_post_def authenticateToken_def requireCustomerOrAdmin_def
          bookings_post_valid_def)
next
  assume a: "bb_menuItems body = Some ls
      \<and> (\<exists>l \<in> set ls. find (\<lambda>m. mi_id m = ln_itemId l \<and> mi_is_available m) (menu_items db)
                          = None)"
  then have ls: "bb_menuItems body = Some ls"
    and bad: "\<exists>l \<in> set ls. find (\<lambda>m. mi_id m = ln_itemId l \<and> mi_is_available m) (menu_items db)
                          = None"
    by simp_all
  from resolve_items_bad [OF bad, of e 0 "num_of_int e 0" "[]"]
  obtain r :: "'n booking_created response" where
    res: "resolve_items e (menu_items db) 0 ls (num_of_int e 0) [] = Inl r"
    and quiet: "(\<forall>k. \<not> db_err e k) \<longrightarrow> (\<exists>msg. r = ErrorJson 400 msg)"
    by blast
  have notjson: "\<forall>n bc. fst (bookings_post x e db tok body) \<noteq> Json n bc"
  proof (intro allI notI)
    fix n bc
    assume "fst (bookings_post x e db tok body) = Json n bc"
    then have "bookings_post x e db tok body = (Json n bc, snd (bookings_post x e db tok body))"
      by (metis prod.collapse)
    from bookings_post_Json [OF this] ls res show False by auto
  qed
  show "snd (bookings_post x e db tok body) = db"
    by (rule bookings_post_not_created [OF _ notjson]) simp
  from resolve_items_Inl [OF res] have sr: "status r = 500 \<or> status r = 400"
    by auto
  have "status (fst (bookings_post x e db tok body)) \<in> {401, 403, 400, 500}"
    using sr
    by (auto simp: bookings_post_def authenticateToken_def requireCustomerOrAdmin_def Let_def
          ls res split: option.splits)
  then show "status (fst (bookings_post x e db tok body)) \<noteq> 201"
    by auto
  show "status (fst (bookings_post x e db tok body)) = 400"
    if "tok = Some u \<and> (ru_userType u = ''admin'' \<or> ru_userType u = ''customer'')
             \<and> (\<forall>k. \<not> db_err e k)"
    using that quiet res ls
    by (auto simp: bookings_post_def authenticateToken_def requireCustomerOrAdmin_def Let_def)
next
  assume "bb_menuItems body = None"
  then show "status (fst (server_post_bookings e st body)) = 400"
    and "snd (server_post_bookings e st body) = st"
    by (simp_all add: server_post_bookings_def)
next
  assume a: "bb_menuItems body = Some ls
      \<and> (\<exists>l \<in> set ls. find (\<lambda>m. m_id m = ln_itemId l) (readData e ''menu.json'' (menu_json st))
                          = None)"
  then have "map_items e (readData e ''menu.json'' (menu_json st)) ls (num_of_int e 0) = None"
    by (intro map_items_bad) simp
  with a show "snd (server_post_bookings e st body) = st"
    by (simp add: server_post_bookings_def Let_def)
qed

theorem C5_rejects_bad_lines_witness:
  "bookings_post demo_extern demo_env demo_db (Some demo_bob) demo_body_empty
     = (ValidationErrors, demo_db)
   \<and> snd (bookings_post demo_extern demo_env demo_db (Some demo_bob) demo_body_unavailable)
       = demo_db
   \<and> status (fst (bookings_post demo_extern demo_env demo_db (Some demo_bob)
                     demo_body_unavailable)) = 400
   \<and> snd (bookings_post demo_extern demo_env demo_db (Some demo_bob) demo_body_unknown)
       = demo_db
   \<and> status (fst (server_post_bookings demo_env demo_store demo_body_absent)) = 400
   \<and> snd (server_post_bookings demo_env demo_store demo_body_absent) = demo_store
   \<and> snd (server_post_bookings demo_env demo_store demo_body_unknown) = demo_store"
proof -
  have role: "ru_userType demo_bob = ''admin'' \<or> ru_userType demo_bob = ''customer''"
    by (simp add: demo_bob_def)
  have quiet: "\<forall>k. \<not> db_err demo_env k" by (simp add: demo_env_def)
  have empty: "bb_menuItems demo_body_empty = None \<or> bb_menuItems demo_body_empty = Some []"
    by (simp add: demo_body_empty_def)
  have unav: "bb_menuItems demo_body_unavailable
        = Some [\<lparr>ln_itemId = 1, ln_quantity = 3\<rparr>, \<lparr>ln_itemId = 3, ln_quantity = 1\<rparr>]
      \<and> (\<exists>l \<in> set [\<lparr>ln_itemId = 1, ln_quantity = 3\<rparr>, \<lparr>ln_itemId = 3, ln_quantity = 1\<rparr>].
            find (\<lambda>m. mi_id m = ln_itemId l \<and> mi_is_available m) (menu_items demo_db) = None)"
    by (simp add: demo_body_unavailable_def demo_db_def)
  have unk: "bb_menuItems demo_body_unknown
        = Some [\<lparr>ln_itemId = 1, ln_quantity = 3\<rparr>, \<lparr>ln_itemId = 99, ln_quantity = 1\<rparr>]
      \<and> (\<exists>l \<in> set [\<lparr>ln_itemId = 1, ln_quantity = 3\<rparr>, \<lparr>ln_itemId = 99, ln_quantity = 1\<rparr>].
            find (\<lambda>m. mi_id m = ln_itemId l \<and> mi_is_available m) (menu_items demo_db) = None)"
    by (simp add: demo_body_unknown_def demo_db_def)
  have junk: "bb_menuItems demo_body_unknown
        = Some [\<lparr>ln_itemId = 1, ln_quantity = 3\<rparr>, \<lparr>ln_itemId = 99, ln_quantity = 1\<rparr>]
      \<and> (\<exists>l \<in> set [\<lparr>ln_itemId = 1, ln_quantity = 3\<rparr>, \<lparr>ln_itemId = 99, ln_quantity = 1\<rparr>].
            find (\<lambda>m. m_id m = ln_itemId l)
                 (readData demo_env ''menu.json'' (menu_json demo_store)) = None)"
    by (simp add: demo_defs eval_defs)
  have absent: "bb_menuItems demo_body_absent = None"
    by (simp add: demo_body_absent_def)
  note a = C5_rejects_bad_lines [where u = demo_bob and body = demo_body_empty
      and x = demo_extern and e = demo_env and db = demo_db, THEN conjunct1, rule_format, OF
      conjI [OF role empty]]
  note b = C5_rejects_bad_lines [where u = demo_bob and body = demo_body_unavailable
      and x = demo_extern and e = demo_env and db = demo_db and tok = "Some demo_bob",
      THEN conjunct2, THEN conjunct1, rule_format, OF unav]
  note b' = C5_rejects_bad_lines [where u = demo_bob and body = demo_body_unknown
      and x = demo_extern and e = demo_env and db = demo_db and tok = "Some demo_bob",
      THEN conjunct2, THEN conjunct1, rule_format, OF unk]
  note c = C5_rejects_bad_lines [where body = demo_body_absent and e = demo_env
      and st = demo_store, THEN conjunct2, THEN conjunct2, THEN conjunct1, rule_format,
      OF absent]
  note d = C5_rejects_bad_lines [where body = demo_body_unknown and e = demo_env
      and st = demo_store, THEN conjunct2, THEN conjunct2, THEN conjunct2, rule_format,
      OF junk]
  from b role quiet have b400:
    "status (fst (bookings_post demo_extern demo_env demo_db (Some demo_bob)
                     demo_body_unavailable)) = 400"
    by blast
  from a b b400 b' c d show ?thesis by simp
qed

section \<open>Persisting a booking with its lines\<close>

text \<open>
  C6 (as stated): after creating a booking, either the booking and every one of its
  lines exist in the store or none of them does. The relational backend inserts the
  booking and then each line in a statement of its own, outside any transaction and
  without looking at the outcome of the line statements: when the INSERT of the second
  line of the example booking fails, the answer is still 201 with both lines, the
  booking row exists, and only the first line row does.
\<close>

theorem C6_relational_line_lost:
  "status (fst demo_partial) = 201
   \<and> map vi_itemId (bc_items (the (payload (fst demo_partial)))) = [1, 2]
   \<and> map bk_id (bookings (snd demo_partial)) = [1, 2]
   \<and> map bi_item_id (filter (\<lambda>row. bi_booking_id row = 2) (booking_items (snd demo_partial)))
       = [1]"
  by (simp add: bookings_post_def bookings_post_valid_def demo_defs eval_defs)

text \<open>
  C6 (amended): in the JSON-file backend a booking and its lines are one record of the
  bookings file: after the request either the store is unchanged, or the answer is 201
  and the bookings file holds the bookings that \<open>readData\<close> yielded followed by
  exactly the new booking, with status \<open>pending\<close> and one line per requested line;
  the other files are unchanged. In the relational backend, a request that is
  not answered with a created booking leaves the database unchanged (this includes a
  failing INSERT of the booking); a request answered with a created booking has status
  201, has appended one booking row with status \<open>pending\<close>, answers with one line per
  requested line, and, when none of the line INSERTs fails, has appended exactly the row
  of every line.
\<close>

theorem C6_all_or_nothing:
  "(server_post_bookings (e :: 'n env) st body = (r, st') \<longrightarrow>
      st' = st
      \<or> (\<exists>b. r = Json 201 b \<and> b_bookingStatus b = Some ''pending''
            \<and> st' = st\<lparr>bookings_json := readData e ''bookings.json'' (bookings_json st) @ [b]\<rparr>
            \<and> list_all2 (\<lambda>l it. it_itemId it = ln_itemId l \<and> it_quantity it = ln_quantity l)
                 (the (bb_menuItems body)) (b_items b)))
   \<and> (bookings_post x e db tok body = (r', db') \<longrightarrow>
        ((\<forall>n bc. r' \<noteq> Json n bc) \<longrightarrow> db' = db)
      \<and> (\<forall>n bc. r' = Json n bc \<longrightarrow>
            n = 201
          \<and> (\<exists>row. bookings db' = bookings db @ [row] \<and> bk_id row = bc_id bc
                 \<and> bk_booking_status row = ''pending'')
          \<and> list_all2 (\<lambda>l v. vi_itemId v = ln_itemId l \<and> vi_quantity v = ln_quantity l)
               (the (bb_menuItems body)) (bc_items bc)
          \<and> ((\<forall>j < length (bc_items bc). \<not> db_err e (Suc (length (bc_items bc)) + j))
              \<longrightarrow> booking_items db'
                    = booking_items db @ map (item_row (bc_id bc)) (bc_items bc))))"
proof (intro conjI impI allI)
  assume a: "server_post_bookings e st body = (r, st')"
  from server_post_bookings_cases [of e st body]
  show "st' = st
      \<or> (\<exists>b. r = Json 201 b \<and> b_bookingStatus b = Some ''pending''
            \<and> st' = st\<lparr>bookings_json := readData e ''bookings.json'' (bookings_json st) @ [b]\<rparr>
            \<and> list_all2 (\<lambda>l it. it_itemId it = ln_itemId l \<and> it_quantity it = ln_quantity l)
                 (the (bb_menuItems body)) (b_items b))"
  proof
    assume "snd (server_post_bookings e st body) = st"
    with a show ?thesis by simp
  next
    assume "\<exists>b. fst (server_post_bookings e st body) = Json 201 b
         \<and> snd (server_post_bookings e st body)
             = st\<lparr>bookings_json := readData e ''bookings.json'' (bookings_json st) @ [b]\<rparr>"
    with a obtain b where r: "r = Json 201 b"
      and s: "st' = st\<lparr>bookings_json := readData e ''bookings.json'' (bookings_json st) @ [b]\<rparr>"
      by auto
    from server_post_bookings_Json [OF a [unfolded r]] obtain ls where
      ls: "bb_menuItems body = Some ls"
      and m: "map_items e (readData e ''menu.json'' (menu_json st)) ls (num_of_int e 0)
          = Some (b_totalAmount b, b_items b)"
      and p: "b_bookingStatus b = Some ''pending''"
      by blast
    from map_items_Some [OF m] have
      "list_all2 (\<lambda>l it. it_itemId it = ln_itemId l \<and> it_quantity it = ln_quantity l)
         ls (b_items b)"
      by (auto elim: list_all2_mono)
    with r s p ls show ?thesis by simp
  qed
next
  assume a: "bookings_post x e db tok body = (r', db')" and "\<forall>n bc. r' \<noteq> Json n bc"
  then show "db' = db" by (rule bookings_post_not_created)
next
  fix n bc
  assume a: "bookings_post x e db tok body = (r', db')" and r: "r' = Json n bc"
  from bookings_post_Json [OF a [unfolded r]] obtain u :: req_user and ls t vs where
    ls: "bb_menuItems body = Some ls"
    and res: "resolve_items e (menu_items db) 0 ls (num_of_int e 0) []
          = (Inr (t, vs) :: 'n booking_created response + 'n \<times> 'n valid_item list)"
    and n: "n = 201" and vs: "bc_items bc = vs"
    and bk: "bookings db' = bookings db @
          [\<lparr>bk_id = bc_id bc, bk_booking_id = bc_bookingId bc, bk_user_id = ru_id u,
            bk_event_type = bc_eventType bc, bk_event_date = bc_eventDate bc,
            bk_event_venue = bc_eventVenue bc, bk_num_guests = bc_numGuests bc,
            bk_special_instructions = or_default (bc_specialInstructions bc) [],
            bk_booking_status = ''pending'', bk_total_amount = t\<rparr>]"
    and bi: "booking_items db'
          = insert_items e (Suc (length ls)) (bc_id bc) vs (booking_items db)"
    by blast
  from resolve_items_Inr [OF res] have
    all: "list_all2 (\<lambda>l v. vi_itemId v = ln_itemId l \<and> vi_quantity v = ln_quantity l) ls vs"
    by (auto elim: list_all2_mono)
  then have len: "length vs = length ls" by (simp add: list_all2_lengthD)
  show "n = 201" by (rule n)
  show "\<exists>row. bookings db' = bookings db @ [row] \<and> bk_id row = bc_id bc
                 \<and> bk_booking_status row = ''pending''"
    using bk by simp
  show "list_all2 (\<lambda>l v. vi_itemId v = ln_itemId l \<and> vi_quantity v = ln_quantity l)
               (the (bb_menuItems body)) (bc_items bc)"
    using all ls vs by simp
  show "booking_items db' = booking_items db @ map (item_row (bc_id bc)) (bc_items bc)"
    if "\<forall>j < length (bc_items bc). \<not> db_err e (Suc (length (bc_items bc)) + j)"
    using that bi vs len by (simp add: insert_items_all)
qed


theorem C6_all_or_nothing_witness:
  "(\<exists>b. server_post_bookings demo_env demo_store demo_body
          = (Json 201 b, demo_store\<lparr>bookings_json := bookings_json demo_store @ [b]\<rparr>)
        \<and> b_bookingStatus b = Some ''pending''
        \<and> list_all2 (\<lambda>l it. it_itemId it = ln_itemId l \<and> it_quantity it = ln_quantity l)
             (the (bb_menuItems demo_body)) (b_items b))
   \<and> snd (server_post_bookings demo_env_write_fault demo_store demo_body) = demo_store
   \<and> (\<exists>bc db'. bookings_post demo_extern demo_env demo_db (Some demo_bob) demo_body
          = (Json 201 bc, db')
        \<and> map bk_booking_status (bookings db') = [''pending'', ''pending'']
        \<and> length (bc_items bc) = 2
        \<and> booking_items db' = booking_items demo_db @ map (item_row (bc_id bc)) (bc_items bc))
   \<and> bookings_post demo_extern demo_env_insert_fault demo_db (Some demo_bob) demo_body
       = (ErrorJson 500 ''Failed to create booking'', demo_db)"
proof -
  \<comment> \<open>the JSON-file backend, writing\<close>
  have "\<exists>b. server_post_bookings demo_env demo_store demo_body
          = (Json 201 b, demo_store\<lparr>bookings_json := bookings_json demo_store @ [b]\<rparr>)"
    by (simp add: server_post_bookings_def demo_defs eval_defs)
  then obtain b :: "rat booking" where
    j: "server_post_bookings demo_env demo_store demo_body
          = (Json 201 b, demo_store\<lparr>bookings_json := bookings_json demo_store @ [b]\<rparr>)"
    by blast
  have changed: "demo_store\<lparr>bookings_json := bookings_json demo_store @ [b]\<rparr> \<noteq> demo_store"
  proof
    assume "demo_store\<lparr>bookings_json := bookings_json demo_store @ [b]\<rparr> = demo_store"
    then have "bookings_json (demo_store\<lparr>bookings_json := bookings_json demo_store @ [b]\<rparr>)
        = bookings_json demo_store"
      by simp
    then show False by simp
  qed
  from C6_all_or_nothing [where e = demo_env and st = demo_store and body = demo_body
      and r = "Json 201 b"
      and st' = "demo_store\<lparr>bookings_json := bookings_json demo_store @ [b]\<rparr>",
      THEN conjunct1, rule_format, OF j] changed
  have jp: "b_bookingStatus b = Some ''pending''
      \<and> list_all2 (\<lambda>l it. it_itemId it = ln_itemId l \<and> it_quantity it = ln_quantity l)
           (the (bb_menuItems demo_body)) (b_items b)"
    by auto
  have first: "\<exists>b. server_post_bookings demo_env demo_store demo_body
          = (Json 201 b, demo_store\<lparr>bookings_json := bookings_json demo_store @ [b]\<rparr>)
        \<and> b_bookingStatus b = Some ''pending''
        \<and> list_all2 (\<lambda>l it. it_itemId it = ln_itemId l \<and> it_quantity it = ln_quantity l)
             (the (bb_menuItems demo_body)) (b_items b)"
    using j jp by (intro exI [of _ b]) simp
  \<comment> \<open>the JSON-file backend, failing to write\<close>
  have second: "snd (server_post_bookings demo_env_write_fault demo_store demo_body) = demo_store"
    by (simp add: server_post_bookings_def demo_defs eval_defs)
  \<comment> \<open>the relational backend, no statement failing\<close>
  have "\<exists>bc db'. bookings_post demo_extern demo_env demo_db (Some demo_bob) demo_body
        = (Json 201 bc, db') \<and> length (bc_items bc) = 2"
    by (simp add: bookings_post_def bookings_post_valid_def demo_defs eval_defs)
  then obtain bc db' where
    p: "bookings_post demo_extern demo_env demo_db (Some demo_bob) demo_body = (Json 201 bc, db')"
    and len: "length (bc_items bc) = 2"
    by blast
  have quiet: "\<forall>j < length (bc_items bc). \<not> db_err demo_env (Suc (length (bc_items bc)) + j)"
    by (simp add: demo_env_def)
  note rel = C6_all_or_nothing [where x = demo_extern and e = demo_env and db = demo_db
      and tok = "Some demo_bob" and body = demo_body and r' = "Json 201 bc" and db' = db',
      THEN conjunct2, rule_format, OF p, THEN conjunct2, rule_format, OF refl]
  from rel quiet have
    items: "booking_items db' = booking_items demo_db @ map (item_row (bc_id bc)) (bc_items bc)"
    by blast
  from rel obtain row where "bookings db' = bookings demo_db @ [row]"
    and "bk_booking_status row = ''pending''"
    by blast
  then have st: "map bk_booking_status (bookings db') = [''pending'', ''pending'']"
    by (simp add: demo_db_def)
  have third: "\<exists>bc db'. bookings_post demo_extern demo_env demo_db (Some demo_bob) demo_body
          = (Json 201 bc, db')
        \<and> map bk_booking_status (bookings db') = [''pending'', ''pending'']
        \<and> length (bc_items bc) = 2
        \<and> booking_items db' = booking_items demo_db @ map (item_row (bc_id bc)) (bc_items bc)"
    by (intro exI [of _ bc] exI [of _ db'] conjI p st len items)
  \<comment> \<open>the relational backend, the INSERT of the booking failing\<close>
  have r500: "fst (bookings_post demo_extern demo_env_insert_fault demo_db (Some demo_bob)
                    demo_body) = ErrorJson 500 ''Failed to create booking''"
    by (simp add: bookings_post_def bookings_post_valid_def demo_defs eval_defs)
  have q: "bookings_post demo_extern demo_env_insert_fault demo_db (Some demo_bob) demo_body
      = (ErrorJson 500 ''Failed to create booking'',
         snd (bookings_post demo_extern demo_env_insert_fault demo_db (Some demo_bob) demo_body))"
    using r500 by (metis prod.collapse)
  have nj: "\<forall>n bc. ErrorJson 500 ''Failed to create booking''
                 \<noteq> (Json n bc :: rat booking_created response)"
    by simp
  from C6_all_or_nothing [where x = demo_extern and e = demo_env_insert_fault
      and db = demo_db and tok = "Some demo_bob" and body = demo_body
      and r' = "ErrorJson 500 ''Failed to create booking''"
      and db' = "snd (bookings_post demo_extern demo_env_insert_fault demo_db (Some demo_bob)
                       demo_body)",
      THEN conjunct2, rule_format, OF q, THEN conjunct1, rule_format, OF nj [rule_format]]
  have unchanged: "snd (bookings_post demo_extern demo_env_insert_fault demo_db (Some demo_bob)
                        demo_body) = demo_db" .
  have fourth: "bookings_post demo_extern demo_env_insert_fault demo_db (Some demo_bob) demo_body
       = (ErrorJson 500 ''Failed to create booking'', demo_db)"
    using q unchanged by simp
  from first second third fourth show ?thesis by (intro conjI)
qed

section \<open>Deleting a menu item\<close>

lemma menu_delete_admin:
  assumes "ru_userType u = ''admin''" and "\<not> db_err e 0" and "\<not> db_err e 1"
  shows "menu_delete e db (Some u) itemId =
     (if \<exists>bi \<in> set (booking_items db). bi_item_id bi = itemId
      then (ErrorJson 400 ''Cannot delete menu item that is used in existing bookings'', db)
      else (Json 200 ''Menu item deleted successfully'',
            db\<lparr>menu_items := filter (\<lambda>m. mi_id m \<noteq> itemId) (menu_items db)\<rparr>))"
proof -
  have "(0 < length (filter (\<lambda>bi. bi_item_id bi = itemId) (booking_items db)))
        = (\<exists>bi \<in> set (booking_items db). bi_item_id bi = itemId)"
    by (simp add: filter_empty_conv)
  with assms show ?thesis
    by (simp add: menu_delete_def authenticateToken_def requireAdmin_def Let_def)
qed

text \<open>
  C7 (as stated): deleting a menu item that a booking line references fails with
  Conflict, HTTP 409. In \<open>demo_db\<close> item 1 is referenced by the first booking line;
  the administrator's DELETE is rejected, but with status 400, not 409.
\<close>

theorem C7_delete_referenced_is_400_not_409:
  "bi_item_id (hd (booking_items demo_db)) = 1
   \<and> status (fst (menu_delete demo_env demo_db (Some demo_admin) 1)) = 400
   \<and> status (fst (menu_delete demo_env demo_db (Some demo_admin) 1)) \<noteq> 409"
  by (simp add: menu_delete_def authenticateToken_def requireAdmin_def Let_def
        demo_env_def demo_db_def demo_admin_def)

text \<open>
  C7 (amended): when an administrator deletes a menu item and no statement fails, then
  \<^item> if some booking line references the item, the answer is the error
    "Cannot delete menu item that is used in existing bookings" with status 400 and the
    database is unchanged (the item stays in place);
  \<^item> if no booking line references it, the answer has status 200, no row with that id
    remains in \<open>menu_items\<close>, every other menu row is kept, and the other tables are
    unchanged.
\<close>

theorem C7_menu_delete:
  assumes "ru_userType u = ''admin''" and "\<not> db_err e 0" and "\<not> db_err e 1"
    and "menu_delete e db (Some u) itemId = (r, db')"
  shows "((\<exists>bi \<in> set (booking_items db). bi_item_id bi = itemId) \<longrightarrow>
            r = ErrorJson 400 ''Cannot delete menu item that is used in existing bookings''
            \<and> status r = 400 \<and> db' = db)
       \<and> ((\<forall>bi \<in> set (booking_items db). bi_item_id bi \<noteq> itemId) \<longrightarrow>
            status r = 200
            \<and> (\<forall>m \<in> set (menu_items db'). mi_id m \<noteq> itemId)
            \<and> (\<forall>m \<in> set (menu_items db). mi_id m \<noteq> itemId \<longrightarrow> m \<in> set (menu_items db'))
            \<and> users db' = users db \<and> bookings db' = bookings db
            \<and> booking_items db' = booking_items db \<and> receipts db' = receipts db)"
  using assms(4) unfolding menu_delete_admin [OF assms(1-3)]
  by (auto split: if_splits)

theorem C7_menu_delete_witness:
  "(\<exists>bi \<in> set (booking_items demo_db). bi_item_id bi = 1)
   \<and> status (fst (menu_delete demo_env demo_db (Some demo_admin) 1)) = 400
   \<and> snd (menu_delete demo_env demo_db (Some demo_admin) 1) = demo_db
   \<and> 3 \<notin> bi_item_id ` set (booking_items demo_db)
   \<and> status (fst (menu_delete demo_env demo_db (Some demo_admin) 3)) = 200
   \<and> map mi_id (menu_items (snd (menu_delete demo_env demo_db (Some demo_admin) 3))) = [1, 2]"
proof -
  have a: "ru_userType demo_admin = ''admin''" by (simp add: demo_admin_def)
  have e0: "\<not> db_err demo_env 0" and e1: "\<not> db_err demo_env 1"
    by (simp_all add: demo_env_def)
  have ref: "\<exists>bi \<in> set (booking_items demo_db). bi_item_id bi = 1"
    by (simp add: demo_db_def)
  have unref: "\<forall>bi \<in> set (booking_items demo_db). bi_item_id bi \<noteq> 3"
    by (simp add: demo_db_def)
  obtain r1 d1 where p1: "menu_delete demo_env demo_db (Some demo_admin) 1 = (r1, d1)"
    by (cases "menu_delete demo_env demo_db (Some demo_admin) 1")
  obtain r3 d3 where p3: "menu_delete demo_env demo_db (Some demo_admin) 3 = (r3, d3)"
    by (cases "menu_delete demo_env demo_db (Some demo_admin) 3")
  from C7_menu_delete [OF a e0 e1 p1] ref have c1: "status r1 = 400 \<and> d1 = demo_db"
    by blast
  from C7_menu_delete [OF a e0 e1 p3] unref have c3: "status r3 = 200"
    by blast
  have m3: "map mi_id (menu_items (snd (menu_delete demo_env demo_db (Some demo_admin) 3)))
            = [1, 2]"
    by (simp add: menu_delete_def authenticateToken_def requireAdmin_def Let_def
          demo_env_def demo_db_def demo_admin_def)
  have unref': "3 \<notin> bi_item_id ` set (booking_items demo_db)"
    by (simp add: demo_db_def)
  from ref unref' c1 c3 m3 show ?thesis by (simp add: p1 p3)
qed

section \<open>Registering with an e-mail address that is taken\<close>

lemma server_register_duplicate:
  assumes "\<not> read_fails e ''users.json''" and "rb_email b = Some em"
    and "\<exists>u \<in> set (users_json st). u_email u = em"
  shows "snd (server_register e st b) = st"
    and "status (fst (server_register e st b)) \<in> {400, 409}"
    and "\<not> falsy_str (rb_firstName b) \<and> \<not> falsy_str (rb_lastName b)
         \<and> \<not> falsy_str (rb_password b) \<and> rb_repeatPassword b = rb_password b
         \<and> 6 \<le> length (the (rb_password b)) \<and> em \<noteq> []
       \<Longrightarrow> fst (server_register e st b) = ErrorJson 409 ''User with this email already exists''"
proof -
  from assms(1) have rd: "readData e ''users.json'' (users_json st) = users_json st"
    by (simp add: readData_def)
  from assms(3) have f: "find (\<lambda>u. u_email u = em) (users_json st) \<noteq> None"
    by (rule find_Some_exists)
  show "snd (server_register e st b) = st"
    using f by (simp add: server_register_def Let_def rd assms(2))
  show "status (fst (server_register e st b)) \<in> {400, 409}"
    using f by (simp add: server_register_def Let_def rd assms(2))
  show "fst (server_register e st b) = ErrorJson 409 ''User with this email already exists''"
    if "\<not> falsy_str (rb_firstName b) \<and> \<not> falsy_str (rb_lastName b)
         \<and> \<not> falsy_str (rb_password b) \<and> rb_repeatPassword b = rb_password b
         \<and> 6 \<le> length (the (rb_password b)) \<and> em \<noteq> []"
    using that f by (auto simp: server_register_def Let_def rd assms(2) falsy_str_def)
qed

lemma auth_register_duplicate:
  assumes "rb_email b = Some em"
    and "\<exists>u \<in> set (users db). usr_email u = normalizeEmail x em"
  shows "snd (auth_register x e db b) = db"
    and "status (fst (auth_register x e db b)) \<in> {400, 409, 500}"
    and "auth_register_valid x b \<and> \<not> db_err e 0
       \<Longrightarrow> fst (auth_register x e db b) = ErrorJson 409 ''User already exists''"
proof -
  from assms(2) have f: "find (\<lambda>u. usr_email u = normalizeEmail x em
        \<or> usr_username u = escape x (trim x (the (rb_username b)))) (users db) \<noteq> None"
    by (auto simp: find_None_iff)
  show "snd (auth_register x e db b) = db"
    using f by (simp add: auth_register_def Let_def assms(1))
  show "status (fst (auth_register x e db b)) \<in> {400, 409, 500}"
    using f by (simp add: auth_register_def Let_def assms(1))
  show "fst (auth_register x e db b) = ErrorJson 409 ''User already exists''"
    if "auth_register_valid x b \<and> \<not> db_err e 0"
    using that f by (simp add: auth_register_def Let_def assms(1))
qed

text \<open>
  C8: a registration whose e-mail address already belongs to a user fails with status
  409 whatever user name it supplies, and creates no user. In the JSON-file backend
  (whose users file is readable) and in the relational backend (where the address is
  compared after \<open>normalizeEmail\<close>), for every user name put into the request: the store
  is unchanged; the answer is an error, 409 or the 400 of a request that is invalid on
  other grounds (or 500 when the relational lookup fails); and it is 409 whenever the
  request passes the route's validation and the lookup does not fail.
\<close>

theorem C8_duplicate_email:
  "(\<not> read_fails e ''users.json'' \<and> rb_email b = Some em
      \<and> (\<exists>u \<in> set (users_json st). u_email u = em)
    \<longrightarrow> (\<forall>un. snd (server_register e st (b\<lparr>rb_username := un\<rparr>)) = st
            \<and> status (fst (server_register e st (b\<lparr>rb_username := un\<rparr>))) \<in> {400, 409}
            \<and> (\<not> falsy_str (rb_firstName b) \<and> \<not> falsy_str (rb_lastName b)
                 \<and> \<not> falsy_str (rb_password b) \<and> rb_repeatPassword b = rb_password b
                 \<and> 6 \<le> length (the (rb_password b)) \<and> em \<noteq> []
               \<longrightarrow> fst (server_register e st (b\<lparr>rb_username := un\<rparr>))
                     = ErrorJson 409 ''User with this email already exists'')))
   \<and> (rb_email b = Some em
      \<and> (\<exists>u \<in> set (users db). usr_email u = normalizeEmail x em)
    \<longrightarrow> (\<forall>un. snd (auth_register x e db (b\<lparr>rb_username := un\<rparr>)) = db
            \<and> status (fst (auth_register x e db (b\<lparr>rb_username := un\<rparr>))) \<in> {400, 409, 500}
            \<and> (auth_register_valid x (b\<lparr>rb_username := un\<rparr>) \<and> \<not> db_err e 0
               \<longrightarrow> fst (auth_register x e db (b\<lparr>rb_username := un\<rparr>))
                     = ErrorJson 409 ''User already exists'')))"
proof (intro conjI impI allI)
  fix un
  assume a: "\<not> read_fails e ''users.json'' \<and> rb_email b = Some em
      \<and> (\<exists>u \<in> set (users_json st). u_email u = em)"
  then have r: "\<not> read_fails e ''users.json''"
    and m: "rb_email (b\<lparr>rb_username := un\<rparr>) = Some em"
    and d: "\<exists>u \<in> set (users_json st). u_email u = em"
    by simp_all
  show "snd (server_register e st (b\<lparr>rb_username := un\<rparr>)) = st"
    by (rule server_register_duplicate(1) [OF r m d])
  show "status (fst (server_register e st (b\<lparr>rb_username := un\<rparr>))) \<in> {400, 409}"
    by (rule server_register_duplicate(2) [OF r m d])
  show "fst (server_register e st (b\<lparr>rb_username := un\<rparr>))
          = ErrorJson 409 ''User with this email already exists''"
    if "\<not> falsy_str (rb_firstName b) \<and> \<not> falsy_str (rb_lastName b)
         \<and> \<not> falsy_str (rb_password b) \<and> rb_repeatPassword b = rb_password b
         \<and> 6 \<le> length (the (rb_password b)) \<and> em \<noteq> []"
    using that by (intro server_register_duplicate(3) [OF r m d]) simp
next
  fix un
  assume a: "rb_email b = Some em
      \<and> (\<exists>u \<in> set (users db). usr_email u = normalizeEmail x em)"
  then have m: "rb_email (b\<lparr>rb_username := un\<rparr>) = Some em"
    and d: "\<exists>u \<in> set (users db). usr_email u = normalizeEmail x em"
    by simp_all
  show "snd (auth_register x e db (b\<lparr>rb_username := un\<rparr>)) = db"
    by (rule auth_register_duplicate(1) [OF m d])
  show "status (fst (auth_register x e db (b\<lparr>rb_username := un\<rparr>))) \<in> {400, 409, 500}"
    by (rule auth_register_duplicate(2) [OF m d])
  show "fst (auth_register x e db (b\<lparr>rb_username := un\<rparr>)) = ErrorJson 409 ''User already exists''"
    if "auth_register_valid x (b\<lparr>rb_username := un\<rparr>) \<and> \<not> db_err e 0"
    using that by (rule auth_register_duplicate(3) [OF m d])
qed

theorem C8_duplicate_email_witness:
  "u_username (sampleUsers ! 1) = ''customer''
   \<and> server_register demo_env demo_store (demo_register_customer\<lparr>rb_username := Some ''jane''\<rparr>)
       = (ErrorJson 409 ''User with this email already exists'', demo_store)
   \<and> usr_username (users demo_db ! 1) = ''alice''
   \<and> auth_register demo_extern demo_env demo_db (demo_register_alice\<lparr>rb_username := Some ''jane''\<rparr>)
       = (ErrorJson 409 ''User already exists'', demo_db)"
proof -
  have h1: "\<not> read_fails demo_env ''users.json''
      \<and> rb_email demo_register_customer = Some ''customer@test.com''
      \<and> (\<exists>u \<in> set (users_json demo_store). u_email u = ''customer@test.com'')"
    by (simp add: demo_defs)
  have v1: "\<not> falsy_str (rb_firstName demo_register_customer)
      \<and> \<not> falsy_str (rb_lastName demo_register_customer)
      \<and> \<not> falsy_str (rb_password demo_register_customer)
      \<and> rb_repeatPassword demo_register_customer = rb_password demo_register_customer
      \<and> 6 \<le> length (the (rb_password demo_register_customer))
      \<and> ''customer@test.com'' \<noteq> []"
    by (simp add: demo_defs falsy_str_def)
  have h2: "rb_email demo_register_alice = Some ''alice@test.com''
      \<and> (\<exists>u \<in> set (users demo_db). usr_email u = normalizeEmail demo_extern ''alice@test.com'')"
    by (simp add: demo_defs)
  have v2: "auth_register_valid demo_extern (demo_register_alice\<lparr>rb_username := Some ''jane''\<rparr>)
      \<and> \<not> db_err demo_env 0"
    by (simp add: auth_register_valid_def isLength_min_def demo_defs)
  note j = C8_duplicate_email [where e = demo_env and st = demo_store
      and b = demo_register_customer and em = "''customer@test.com''",
      THEN conjunct1, rule_format, OF h1, of "Some ''jane''"]
  note r = C8_duplicate_email [where x = demo_extern and e = demo_env and db = demo_db
      and b = demo_register_alice and em = "''alice@test.com''",
      THEN conjunct2, rule_format, OF h2, of "Some ''jane''"]
  from j v1 have j1: "server_register demo_env demo_store
        (demo_register_customer\<lparr>rb_username := Some ''jane''\<rparr>)
       = (ErrorJson 409 ''User with this email already exists'', demo_store)"
    by (metis prod.collapse)
  from r v2 have r1: "auth_register demo_extern demo_env demo_db
        (demo_register_alice\<lparr>rb_username := Some ''jane''\<rparr>)
       = (ErrorJson 409 ''User already exists'', demo_db)"
    by (metis prod.collapse)
  have n1: "u_username (sampleUsers ! 1) = ''customer''" by (simp add: sampleUsers_def)
  have n2: "usr_username (users demo_db ! 1) = ''alice''" by (simp add: demo_db_def)
  from n1 j1 n2 r1 show ?thesis by (intro conjI)
qed

section \<open>Reading a booking by id\<close>

lemma distinct_bk_id:
  assumes "distinct (map bk_id bs)" and "b \<in> set bs" and "b' \<in> set bs" and "bk_id b' = bk_id b"
  shows "b' = b"
proof -
  from assms(1) have "inj_on bk_id (set bs)" by (simp add: distinct_map)
  with assms(2-4) show ?thesis by (auto dest: inj_onD)
qed

lemma set_bookings_join_users:
  "(b, owner) \<in> set (bookings_join_users db)
     \<longleftrightarrow> b \<in> set (bookings db) \<and> owner \<in> set (users db) \<and> bk_user_id b = usr_id owner"
  by (auto simp: bookings_join_users_def)

lemma find_join_filter:
  assumes "\<And>b owner. P (b, owner) \<Longrightarrow> Q b"
  shows "find P (concat (map (\<lambda>b. map (\<lambda>u. (b, u)) (filter (\<lambda>u. bk_user_id b = usr_id u) us)) bs))
       = find P (concat (map (\<lambda>b. map (\<lambda>u. (b, u)) (filter (\<lambda>u. bk_user_id b = usr_id u) us))
                       (filter Q bs)))"
proof (induction bs)
  case Nil
  show ?case by simp
next
  case (Cons b bs)
  show ?case
  proof (cases "Q b")
    case True
    with Cons show ?thesis by (simp add: find_app split: option.splits)
  next
    case False
    with assms have "find P (map (\<lambda>u. (b, u)) (filter (\<lambda>u. bk_user_id b = usr_id u) us)) = None"
      by (auto simp: find_None_iff)
    with False Cons show ?thesis by (simp add: find_app)
  qed
qed

lemma bookings_get_id_own_rows:
  assumes "ru_userType u \<noteq> ''admin''"
  shows "bookings_get_id e db (Some u) i = bookings_get_id e (own_rows u db) (Some u) i"
proof -
  let ?P = "\<lambda>(b :: 'a booking_row, owner :: user_row). bk_id b = i \<and> bk_user_id b = ru_id u"
  let ?own = "filter (\<lambda>b. bk_user_id b = ru_id u) (bookings db)"
  have j: "bookings_join_users (own_rows u db)
      = concat (map (\<lambda>b. map (\<lambda>r. (b, r)) (filter (\<lambda>r. bk_user_id b = usr_id r) (users db)))
                  ?own)"
  proof -
    have "filter (\<lambda>r. bk_user_id b = usr_id r) (filter (\<lambda>r. usr_id r = ru_id u) (users db))
        = filter (\<lambda>r. bk_user_id b = usr_id r) (users db)"
      if "b \<in> set ?own" for b
      using that by (auto intro: filter_cong)
    then show ?thesis
      unfolding bookings_join_users_def own_rows_def
      by (auto intro!: arg_cong [where f = concat] map_cong)
  qed
  have f: "find ?P (bookings_join_users db) = find ?P (bookings_join_users (own_rows u db))"
    unfolding j unfolding bookings_join_users_def
    by (rule find_join_filter) auto
  have items: "booking_items_join_menu (own_rows u db) i = booking_items_join_menu db i"
    if "find ?P (bookings_join_users db) = Some (b, owner)" for b owner
  proof -
    from find_SomeD [OF that] have "b \<in> set (bookings db)" and "bk_id b = i"
      and "bk_user_id b = ru_id u"
      by (simp_all add: set_bookings_join_users)
    then have "i \<in> set (map bk_id ?own)" by force
    then have "filter (\<lambda>bi. bi_booking_id bi = i)
         (filter (\<lambda>bi. bi_booking_id bi \<in> set (map bk_id ?own)) (booking_items db))
       = filter (\<lambda>bi. bi_booking_id bi = i) (booking_items db)"
      by (auto intro: filter_cong)
    then show ?thesis
      by (simp add: booking_items_join_menu_def own_rows_def)
  qed
  show ?thesis
  proof (cases "requireCustomerOrAdmin u :: 'a booking_view response option")
    case None
    show ?thesis
    proof (cases "find ?P (bookings_join_users db)")
      case none: None
      with None assms f show ?thesis
        by (simp add: bookings_get_id_def authenticateToken_def Let_def)
    next
      case (Some p)
      obtain b owner where p: "p = (b, owner)" by (cases p)
      from Some p f have "find ?P (bookings_join_users (own_rows u db)) = Some (b, owner)"
        by simp
      with None assms Some p items [of b owner] show ?thesis
        by (simp add: bookings_get_id_def authenticateToken_def Let_def)
    qed
  next
    case (Some r)
    then show ?thesis
      by (simp add: bookings_get_id_def authenticateToken_def)
  qed
qed

lemma bookings_get_id_other:
  assumes "distinct (map bk_id (bookings db))" and "b \<in> set (bookings db)"
    and "ru_userType u = ''customer''" and "ru_id u \<noteq> bk_user_id b"
  shows "bookings_get_id e db (Some u) (bk_id b)
       = (if db_err e 0 then ErrorJson 500 ''Database error''
          else ErrorJson 404 ''Booking not found'')"
proof -
  have "find (\<lambda>(b', owner). bk_id b' = bk_id b \<and> (False \<or> bk_user_id b' = ru_id u))
          (bookings_join_users db) = None"
  proof (rule ccontr)
    assume "find (\<lambda>(b', owner). bk_id b' = bk_id b \<and> (False \<or> bk_user_id b' = ru_id u))
          (bookings_join_users db) \<noteq> None"
    then obtain b' owner' where
      f: "find (\<lambda>(b', owner). bk_id b' = bk_id b \<and> (False \<or> bk_user_id b' = ru_id u))
          (bookings_join_users db) = Some (b', owner')"
      by auto
    from find_SomeD [OF f] have m: "b' \<in> set (bookings db)" and i: "bk_id b' = bk_id b"
      and o: "bk_user_id b' = ru_id u"
      by (simp_all add: set_bookings_join_users)
    from distinct_bk_id [OF assms(1) assms(2) m i] o assms(4) show False by simp
  qed
  with assms(3) show ?thesis
    by (simp add: bookings_get_id_def authenticateToken_def requireCustomerOrAdmin_def Let_def)
qed

lemma bookings_get_id_admin:
  assumes "distinct (map bk_id (bookings db))" and "b \<in> set (bookings db)"
    and "ru_userType a = ''admin''"
    and "\<exists>owner \<in> set (users db). usr_id owner = bk_user_id b"
    and "\<not> db_err e 0" and "\<not> db_err e 1"
  shows "\<exists>v. bookings_get_id e db (Some a) (bk_id b) = Json 200 v \<and> bv_row v = b"
proof -
  let ?P = "\<lambda>(b', owner :: user_row). bk_id b' = bk_id b \<and> (True \<or> bk_user_id b' = ru_id a)"
  from assms(4) obtain owner where "owner \<in> set (users db)" and "bk_user_id b = usr_id owner"
    by auto
  with assms(2) have mem: "(b, owner) \<in> set (bookings_join_users db)"
    by (simp add: set_bookings_join_users)
  have "find ?P (bookings_join_users db) \<noteq> None"
  proof
    assume "find ?P (bookings_join_users db) = None"
    then have "\<not> ?P (b, owner)" using mem unfolding find_None_iff by blast
    then show False by simp
  qed
  then obtain b' owner' where f: "find ?P (bookings_join_users db) = Some (b', owner')"
    by auto
  from find_SomeD [OF f] have m: "b' \<in> set (bookings db)" and i: "bk_id b' = bk_id b"
    by (simp_all add: set_bookings_join_users)
  have "b' = b" by (rule distinct_bk_id [OF assms(1) assms(2) m i])
  with f assms(3,5,6) show ?thesis
    by (simp add: bookings_get_id_def authenticateToken_def requireCustomerOrAdmin_def Let_def)
qed

text \<open>
  C9 (as stated): a customer who asks for another customer's booking by id gets
  Forbidden or NotFound and none of the booking's data. The route of the JSON-file
  backend takes nothing but the id: it has no authentication and reads no identity of
  the caller, so whoever sends \<open>GET /api/bookings/1\<close> is answered 200 with the booking
  of the sample customer.
\<close>

theorem C9_json_booking_open_to_all:
  "b_customerEmail demo_booking = ''customer@test.com''
   \<and> server_get_booking demo_env demo_store 1 = Json 200 demo_booking"
  by (simp add: server_get_booking_def demo_defs eval_defs)


text \<open>
  C9 (amended): in the relational backend, where booking ids are distinct,
  \<^item> an authenticated customer who asks for a booking that another user owns gets no
    booking: the answer is "Booking not found" with status 404 (or "Database error"
    with status 500 when the query fails);
  \<^item> what a caller who is not an admin is answered, for any id, is what the same
    request is answered on the database that holds, besides the catalog, only the
    caller's own user row, the caller's own bookings and the lines of those bookings:
    two databases with the same catalog that agree on these rows give the same answer,
    whatever rows of other users they hold;
  \<^item> an admin who asks for a booking whose owner has a user row gets it with status
    200, when no query fails.
\<close>

theorem C9_booking_access:
  "(distinct (map bk_id (bookings db)) \<and> b \<in> set (bookings db)
      \<and> ru_userType u = ''customer'' \<and> ru_id u \<noteq> bk_user_id b
    \<longrightarrow> payload (bookings_get_id e db (Some u) (bk_id b)) = None
        \<and> status (bookings_get_id e db (Some u) (bk_id b)) \<in> {404, 500}
        \<and> (\<not> db_err e 0
           \<longrightarrow> bookings_get_id e db (Some u) (bk_id b) = ErrorJson 404 ''Booking not found''))
   \<and> (ru_userType u \<noteq> ''admin''
    \<longrightarrow> bookings_get_id e db (Some u) i = bookings_get_id e (own_rows u db) (Some u) i)
   \<and> (ru_userType u \<noteq> ''admin'' \<and> own_rows u db = own_rows u db'
    \<longrightarrow> bookings_get_id e db (Some u) i = bookings_get_id e db' (Some u) i)
   \<and> (distinct (map bk_id (bookings db)) \<and> b \<in> set (bookings db)
      \<and> ru_userType a = ''admin''
      \<and> (\<exists>owner \<in> set (users db). usr_id owner = bk_user_id b)
      \<and> \<not> db_err e 0 \<and> \<not> db_err e 1
    \<longrightarrow> (\<exists>v. bookings_get_id e db (Some a) (bk_id b) = Json 200 v \<and> bv_row v = b))"
proof (intro conjI impI)
  assume a: "distinct (map bk_id (bookings db)) \<and> b \<in> set (bookings db)
      \<and> ru_userType u = ''customer'' \<and> ru_id u \<noteq> bk_user_id b"
  then have eq: "bookings_get_id e db (Some u) (bk_id b)
       = (if db_err e 0 then ErrorJson 500 ''Database error''
          else ErrorJson 404 ''Booking not found'')"
    by (intro bookings_get_id_other) simp_all
  show "payload (bookings_get_id e db (Some u) (bk_id b)) = None"
    unfolding eq by simp
  show "status (bookings_get_id e db (Some u) (bk_id b)) \<in> {404, 500}"
    unfolding eq by simp
  show "bookings_get_id e db (Some u) (bk_id b) = ErrorJson 404 ''Booking not found''"
    if "\<not> db_err e 0"
    unfolding eq using that by simp
next
  assume "ru_userType u \<noteq> ''admin''"
  then show "bookings_get_id e db (Some u) i = bookings_get_id e (own_rows u db) (Some u) i"
    by (rule bookings_get_id_own_rows)
next
  assume a: "ru_userType u \<noteq> ''admin'' \<and> own_rows u db = own_rows u db'"
  then have n: "ru_userType u \<noteq> ''admin''" by simp
  from bookings_get_id_own_rows [OF n, of e db i] bookings_get_id_own_rows [OF n, of e db' i] a
  show "bookings_get_id e db (Some u) i = bookings_get_id e db' (Some u) i"
    by simp
next
  assume "distinct (map bk_id (bookings db)) \<and> b \<in> set (bookings db)
      \<and> ru_userType a = ''admin''
      \<and> (\<exists>owner \<in> set (users db). usr_id owner = bk_user_id b)
      \<and> \<not> db_err e 0 \<and> \<not> db_err e 1"
  then show "\<exists>v. bookings_get_id e db (Some a) (bk_id b) = Json 200 v \<and> bv_row v = b"
    by (intro bookings_get_id_admin) simp_all
qed

theorem C9_booking_access_witness:
  "bk_user_id (hd (bookings demo_db)) = ru_id demo_alice
   \<and> bookings_get_id demo_env demo_db (Some demo_bob) 1 = ErrorJson 404 ''Booking not found''
   \<and> payload (bookings_get_id demo_env demo_db (Some demo_bob) 1) = None
   \<and> bookings (own_rows demo_bob demo_db) = []
   \<and> booking_items (own_rows demo_bob demo_db) = []
   \<and> map usr_id (users (own_rows demo_bob demo_db)) = [3]
   \<and> bookings_get_id demo_env demo_db (Some demo_bob) 1
       = bookings_get_id demo_env (own_rows demo_bob demo_db) (Some demo_bob) 1
   \<and> map bk_user_id (bookings (snd demo_double_booking)) = [2, 3]
   \<and> map bi_booking_id (booking_items (snd demo_double_booking)) = [1, 1, 2, 2]
   \<and> bookings_get_id demo_env (snd demo_double_booking) (Some demo_alice) 1
       = bookings_get_id demo_env demo_db (Some demo_alice) 1
   \<and> (\<exists>v. bookings_get_id demo_env demo_db (Some demo_alice) 1 = Json 200 v
          \<and> map (\<lambda>l. bi_booking_id (biv_row l)) (bv_items v) = [1, 1])
   \<and> (\<exists>v. bookings_get_id demo_env demo_db (Some demo_admin) 1 = Json 200 v
          \<and> bv_row v = hd (bookings demo_db))"
proof -
  have own: "bk_user_id (hd (bookings demo_db)) = ru_id demo_alice"
    by (simp add: demo_db_def demo_alice_def)
  have i: "bk_id (hd (bookings demo_db)) = 1" by (simp add: demo_db_def)
  have h1: "distinct (map bk_id (bookings demo_db)) \<and> hd (bookings demo_db) \<in> set (bookings demo_db)
      \<and> ru_userType demo_bob = ''customer'' \<and> ru_id demo_bob \<noteq> bk_user_id (hd (bookings demo_db))"
    by (simp add: demo_db_def demo_bob_def)
  have e0: "\<not> db_err demo_env 0" by (simp add: demo_env_def)
  have h2: "ru_userType demo_bob \<noteq> ''admin''" by (simp add: demo_bob_def)
  have h3: "distinct (map bk_id (bookings demo_db)) \<and> hd (bookings demo_db) \<in> set (bookings demo_db)
      \<and> ru_userType demo_admin = ''admin''
      \<and> (\<exists>owner \<in> set (users demo_db). usr_id owner = bk_user_id (hd (bookings demo_db)))
      \<and> \<not> db_err demo_env 0 \<and> \<not> db_err demo_env 1"
    by (simp add: demo_db_def demo_admin_def demo_env_def)
  have o1: "bookings (own_rows demo_bob demo_db) = []"
    and o2: "booking_items (own_rows demo_bob demo_db) = []"
    and o3: "map usr_id (users (own_rows demo_bob demo_db)) = [3]"
    by (simp_all add: own_rows_def demo_db_def demo_bob_def)
  have d1: "map bk_user_id (bookings (snd demo_double_booking)) = [2, 3]"
    and d2: "map bi_booking_id (booking_items (snd demo_double_booking)) = [1, 1, 2, 2]"
    by (simp_all add: bookings_post_def bookings_post_valid_def demo_defs eval_defs)
  have h4: "ru_userType demo_alice \<noteq> ''admin''
      \<and> own_rows demo_alice (snd demo_double_booking) = own_rows demo_alice demo_db"
    by (simp add: own_rows_def bookings_post_def bookings_post_valid_def demo_defs eval_defs)
  have al: "\<exists>v. bookings_get_id demo_env demo_db (Some demo_alice) 1 = Json 200 v
          \<and> map (\<lambda>l. bi_booking_id (biv_row l)) (bv_items v) = [1, 1]"
    by (simp add: bookings_get_id_def demo_defs eval_defs)
  note c = C9_booking_access [where db = demo_db and b = "hd (bookings demo_db)"
      and e = demo_env and u = demo_bob and a = demo_admin and i = 1, unfolded i]
  note c' = C9_booking_access [where db = "snd demo_double_booking" and db' = demo_db
      and e = demo_env and u = demo_alice and i = 1]
  from c h1 e0 have r1:
    "bookings_get_id demo_env demo_db (Some demo_bob) 1 = ErrorJson 404 ''Booking not found''"
    and r2: "payload (bookings_get_id demo_env demo_db (Some demo_bob) 1) = None"
    by blast+
  from c h2 have r3: "bookings_get_id demo_env demo_db (Some demo_bob) 1
       = bookings_get_id demo_env (own_rows demo_bob demo_db) (Some demo_bob) 1"
    by blast
  from c' h4 have r5: "bookings_get_id demo_env (snd demo_double_booking) (Some demo_alice) 1
       = bookings_get_id demo_env demo_db (Some demo_alice) 1"
    by blast
  from c h3 have r4: "\<exists>v. bookings_get_id demo_env demo_db (Some demo_admin) 1 = Json 200 v
          \<and> bv_row v = hd (bookings demo_db)"
    by blast
  from own r1 r2 o1 o2 o3 r3 d1 d2 r5 al r4 show ?thesis by (intro conjI)
qed

section \<open>The user object of a login or registration answer\<close>

lemma keys_omit: "keys (omit k obj) = filter (\<lambda>k'. k' \<noteq> k) (keys obj)"
  by (simp add: keys_def omit_def filter_map comp_def)

lemma keys_user_obj:
  "set (keys (user_obj u))
     \<subseteq> {''id'', ''username'', ''email'', ''password'', ''firstName'', ''lastName'',
         ''phoneNumber'', ''userType'', ''createdAt''}"
  by (auto simp: keys_def user_obj_def opt_prop_def split: option.splits)

lemma keys_user_row_obj:
  "keys (user_row_obj u)
     = [''id'', ''username'', ''email'', ''password_hash'', ''first_name'', ''last_name'',
        ''phone_number'', ''user_type'', ''is_active'', ''created_at'', ''updated_at'']"
  by (simp add: keys_def user_row_obj_def)

lemma user_obj_stripped:
  "''password'' \<notin> set (keys (omit ''password'' (user_obj u)))
   \<and> ''password_hash'' \<notin> set (keys (omit ''password'' (user_obj u)))"
proof -
  have "''password_hash'' \<notin> set (keys (user_obj u))"
    using keys_user_obj [of u] by auto
  then show ?thesis by (simp add: keys_omit)
qed

lemma user_row_obj_stripped:
  "''password'' \<notin> set (keys (omit ''password_hash'' (user_row_obj u)))
   \<and> ''password_hash'' \<notin> set (keys (omit ''password_hash'' (user_row_obj u)))"
  by (simp add: keys_omit keys_user_row_obj)

lemma server_login_Json:
  "server_login e st lb = Json n rep \<Longrightarrow>
   \<exists>user. n = 200 \<and> ar_user rep = omit ''password'' (user_obj user)
      \<and> user \<in> set (users_json st)
      \<and> Some (u_email user) = lb_email lb \<and> Some (u_password user) = lb_password lb"
  by (auto simp: server_login_def Let_def readData_def split: if_splits option.splits
        dest!: find_SomeD)

lemma server_register_Json:
  "fst (server_register e st rb) = Json n rep \<Longrightarrow>
   \<exists>user. n = 201 \<and> ar_user rep = omit ''password'' (user_obj user)
      \<and> Some (u_email user) = rb_email rb \<and> Some (u_password user) = rb_password rb"
  by (auto simp: server_register_def Let_def falsy_str_def split: if_splits)

lemma auth_login_Json:
  "auth_login x e db lb = Json n rep \<Longrightarrow>
   \<exists>user. n = 200 \<and> ar_user rep = omit ''password_hash'' (user_row_obj user)
      \<and> user \<in> set (users db)"
  by (auto simp: auth_login_def Let_def split: if_splits option.splits dest!: find_SomeD)

lemma auth_register_Json:
  "fst (auth_register x e db rb) = Json n rep \<Longrightarrow>
   \<exists>user. n = 201 \<and> ar_user rep = omit ''password_hash'' (user_row_obj user)
      \<and> usr_password_hash user = bcrypt_hash x (the (rb_password rb))"
  by (auto simp: auth_register_def Let_def split: if_splits)

text \<open>
  C10: whenever a login or a registration succeeds, in the JSON-file backend and in the
  relational backend, the user object of the answer has neither a \<open>password\<close> nor a
  \<open>password_hash\<close> property: the JSON-file backend answers with the stored user object
  without its \<open>password\<close>, the relational backend with the user row without its
  \<open>password_hash\<close>.
\<close>

theorem C10_no_credential_in_reply:
  "(server_login e st lb = Json n rep \<longrightarrow>
      ''password'' \<notin> set (keys (ar_user rep)) \<and> ''password_hash'' \<notin> set (keys (ar_user rep)))
   \<and> (fst (server_register e st rb) = Json n rep \<longrightarrow>
      ''password'' \<notin> set (keys (ar_user rep)) \<and> ''password_hash'' \<notin> set (keys (ar_user rep)))
   \<and> (auth_login x e db lb = Json n rep \<longrightarrow>
      ''password'' \<notin> set (keys (ar_user rep)) \<and> ''password_hash'' \<notin> set (keys (ar_user rep)))
   \<and> (fst (auth_register x e db rb) = Json n rep \<longrightarrow>
      ''password'' \<notin> set (keys (ar_user rep)) \<and> ''password_hash'' \<notin> set (keys (ar_user rep)))"
proof (intro conjI impI)
  assume "server_login e st lb = Json n rep"
  from server_login_Json [OF this] obtain user where
    "ar_user rep = omit ''password'' (user_obj user)" by blast
  then show "''password'' \<notin> set (keys (ar_user rep))"
    and "''password_hash'' \<notin> set (keys (ar_user rep))"
    by (simp_all add: user_obj_stripped)
next
  assume "fst (server_register e st rb) = Json n rep"
  from server_register_Json [OF this] obtain user where
    "ar_user rep = omit ''password'' (user_obj user)" by blast
  then show "''password'' \<notin> set (keys (ar_user rep))"
    and "''password_hash'' \<notin> set (keys (ar_user rep))"
    by (simp_all add: user_obj_stripped)
next
  assume "auth_login x e db lb = Json n rep"
  from auth_login_Json [OF this] obtain user where
    "ar_user rep = omit ''password_hash'' (user_row_obj user)" by blast
  then show "''password'' \<notin> set (keys (ar_user rep))"
    and "''password_hash'' \<notin> set (keys (ar_user rep))"
    by (simp_all add: user_row_obj_stripped)
next
  assume "fst (auth_register x e db rb) = Json n rep"
  from auth_register_Json [OF this] obtain user where
    "ar_user rep = omit ''password_hash'' (user_row_obj user)" by blast
  then show "''password'' \<notin> set (keys (ar_user rep))"
    and "''password_hash'' \<notin> set (keys (ar_user rep))"
    by (simp_all add: user_row_obj_stripped)
qed


theorem C10_no_credential_in_reply_witness:
  "(\<exists>rep. server_login demo_env demo_store demo_login_customer = Json 200 rep
        \<and> keys (ar_user rep)
            = [''id'', ''username'', ''email'', ''firstName'', ''lastName'', ''userType'']
        \<and> ''password'' \<notin> set (keys (ar_user rep))
        \<and> ''password_hash'' \<notin> set (keys (ar_user rep)))
   \<and> (\<exists>rep. fst (server_register demo_env demo_store demo_register) = Json 201 rep
        \<and> keys (ar_user rep)
            = [''id'', ''username'', ''email'', ''firstName'', ''lastName'', ''phoneNumber'',
               ''userType'', ''createdAt'']
        \<and> ''password'' \<notin> set (keys (ar_user rep))
        \<and> ''password_hash'' \<notin> set (keys (ar_user rep)))
   \<and> (\<exists>rep. auth_login demo_extern demo_env demo_db demo_login_alice = Json 200 rep
        \<and> map_of (ar_user rep) ''username'' = Some (JStr ''alice'')
        \<and> ''password'' \<notin> set (keys (ar_user rep))
        \<and> ''password_hash'' \<notin> set (keys (ar_user rep)))
   \<and> (\<exists>rep. fst (auth_register demo_extern demo_env demo_db demo_register) = Json 201 rep
        \<and> map_of (ar_user rep) ''username'' = Some (JStr ''jane'')
        \<and> ''password'' \<notin> set (keys (ar_user rep))
        \<and> ''password_hash'' \<notin> set (keys (ar_user rep)))"
proof -
  have "\<exists>rep. server_login demo_env demo_store demo_login_customer = Json 200 rep
        \<and> keys (ar_user rep)
            = [''id'', ''username'', ''email'', ''firstName'', ''lastName'', ''userType'']"
    by (simp add: server_login_def user_obj_def omit_def keys_def opt_prop_def
          demo_defs eval_defs)
  then obtain r1 where a1: "server_login demo_env demo_store demo_login_customer = Json 200 r1"
    and k1: "keys (ar_user r1)
            = [''id'', ''username'', ''email'', ''firstName'', ''lastName'', ''userType'']"
    by blast
  have "\<exists>rep. fst (server_register demo_env demo_store demo_register) = Json 201 rep
        \<and> keys (ar_user rep)
            = [''id'', ''username'', ''email'', ''firstName'', ''lastName'', ''phoneNumber'',
               ''userType'', ''createdAt'']"
    by (simp add: server_register_def user_obj_def omit_def keys_def opt_prop_def
          demo_defs eval_defs)
  then obtain r2 where a2: "fst (server_register demo_env demo_store demo_register) = Json 201 r2"
    and k2: "keys (ar_user r2)
            = [''id'', ''username'', ''email'', ''firstName'', ''lastName'', ''phoneNumber'',
               ''userType'', ''createdAt'']"
    by blast
  have "\<exists>rep. auth_login demo_extern demo_env demo_db demo_login_alice = Json 200 rep
        \<and> map_of (ar_user rep) ''username'' = Some (JStr ''alice'')"
    by (simp add: auth_login_def auth_login_valid_def isLength_min_def user_row_obj_def
          omit_def demo_defs eval_defs)
  then obtain r3 where a3: "auth_login demo_extern demo_env demo_db demo_login_alice = Json 200 r3"
    and k3: "map_of (ar_user r3) ''username'' = Some (JStr ''alice'')"
    by blast
  have "\<exists>rep. fst (auth_register demo_extern demo_env demo_db demo_register) = Json 201 rep
        \<and> map_of (ar_user rep) ''username'' = Some (JStr ''jane'')"
    by (simp add: auth_register_def auth_register_valid_def isLength_min_def user_row_obj_def
          omit_def demo_defs eval_defs)
  then obtain r4 where
    a4: "fst (auth_register demo_extern demo_env demo_db demo_register) = Json 201 r4"
    and k4: "map_of (ar_user r4) ''username'' = Some (JStr ''jane'')"
    by blast
  note c1 = C10_no_credential_in_reply [where e = demo_env and st = demo_store
      and lb = demo_login_customer and n = 200 and rep = r1, THEN conjunct1, rule_format, OF a1]
  note c2 = C10_no_credential_in_reply [where e = demo_env and st = demo_store
      and rb = demo_register and n = 201 and rep = r2,
      THEN conjunct2, THEN conjunct1, rule_format, OF a2]
  note c3 = C10_no_credential_in_reply [where x = demo_extern and e = demo_env and db = demo_db
      and lb = demo_login_alice and n = 200 and rep = r3,
      THEN conjunct2, THEN conjunct2, THEN conjunct1, rule_format, OF a3]
  note c4 = C10_no_credential_in_reply [where x = demo_extern and e = demo_env and db = demo_db
      and rb = demo_register and n = 201 and rep = r4,
      THEN conjunct2, THEN conjunct2, THEN conjunct2, rule_format, OF a4]
  have w1: "\<exists>rep. server_login demo_env demo_store demo_login_customer = Json 200 rep
        \<and> keys (ar_user rep)
            = [''id'', ''username'', ''email'', ''firstName'', ''lastName'', ''userType'']
        \<and> ''password'' \<notin> set (keys (ar_user rep))
        \<and> ''password_hash'' \<notin> set (keys (ar_user rep))"
    using a1 k1 c1 by (intro exI [of _ r1]) blast
  have w2: "\<exists>rep. fst (server_register demo_env demo_store demo_register) = Json 201 rep
        \<and> keys (ar_user rep)
            = [''id'', ''username'', ''email'', ''firstName'', ''lastName'', ''phoneNumber'',
               ''userType'', ''createdAt'']
        \<and> ''password'' \<notin> set (keys (ar_user rep))
        \<and> ''password_hash'' \<notin> set (keys (ar_user rep))"
    using a2 k2 c2 by (intro exI [of _ r2]) blast
  have w3: "\<exists>rep. auth_login demo_extern demo_env demo_db demo_login_alice = Json 200 rep
        \<and> map_of (ar_user rep) ''username'' = Some (JStr ''alice'')
        \<and> ''password'' \<notin> set (keys (ar_user rep))
        \<and> ''password_hash'' \<notin> set (keys (ar_user rep))"
    using a3 k3 c3 by (intro exI [of _ r3]) blast
  have w4: "\<exists>rep. fst (auth_register demo_extern demo_env demo_db demo_register) = Json 201 rep
        \<and> map_of (ar_user rep) ''username'' = Some (JStr ''jane'')
        \<and> ''password'' \<notin> set (keys (ar_user rep))
        \<and> ''password_hash'' \<notin> set (keys (ar_user rep))"
    using a4 k4 c4 by (intro exI [of _ r4]) blast
  from w1 w2 w3 w4 show ?thesis by (intro conjI)
qed

end
